theory Spec2Isabelle
  imports Complex_Main "HOL-Library.Word" "HOL-Library.Char_ord" "HOL-Library.List_Lexorder"
    "HOL-Library.AList" "HOL-Library.Product_Lexorder"
begin

unbundle bit_operations_syntax

section \<open>Values\<close>

text \<open>
  Go's \<open>float64\<close>: the finite values are reals, and the two infinite values and NaN are
  kept (the two zeros are one value). An arithmetic operation on finite values computes
  the exact real result and rounds it with \<open>rnd\<close>, the rounding of IEEE 754 to the nearest
  \<open>float64\<close>, which gives an infinite value beyond the largest finite one; the builtin
  functions and the operators take \<open>rnd\<close> from the library they are given. \<open>uint32\<close>
  rows, columns and ids are natural numbers.
\<close>

datatype float64 = Fin real | PInf | NInf | NaN

fun IsNaN :: "float64 \<Rightarrow> bool" where
  "IsNaN NaN = True"
| "IsNaN _ = False"

fun f_lt :: "float64 \<Rightarrow> float64 \<Rightarrow> bool" where
  "f_lt NaN _ = False"
| "f_lt _ NaN = False"
| "f_lt (Fin x) (Fin y) = (x < y)"
| "f_lt NInf NInf = False"
| "f_lt NInf _ = True"
| "f_lt _ NInf = False"
| "f_lt PInf _ = False"
| "f_lt _ PInf = True"

definition f_gt :: "float64 \<Rightarrow> float64 \<Rightarrow> bool" where
  "f_gt a b = f_lt b a"

fun f_neg :: "float64 \<Rightarrow> float64" where
  "f_neg (Fin x) = Fin (- x)"
| "f_neg PInf = NInf"
| "f_neg NInf = PInf"
| "f_neg NaN = NaN"

fun f_add :: "(real \<Rightarrow> float64) \<Rightarrow> float64 \<Rightarrow> float64 \<Rightarrow> float64" where
  "f_add rnd NaN _ = NaN"
| "f_add rnd _ NaN = NaN"
| "f_add rnd (Fin x) (Fin y) = rnd (x + y)"
| "f_add rnd PInf NInf = NaN"
| "f_add rnd NInf PInf = NaN"
| "f_add rnd PInf _ = PInf"
| "f_add rnd NInf _ = NInf"
| "f_add rnd _ PInf = PInf"
| "f_add rnd _ NInf = NInf"

definition f_sub :: "(real \<Rightarrow> float64) \<Rightarrow> float64 \<Rightarrow> float64 \<Rightarrow> float64" where
  "f_sub rnd a b = f_add rnd a (f_neg b)"

fun f_sign :: "float64 \<Rightarrow> int" where
  "f_sign (Fin x) = (if x < 0 then - 1 else if x = 0 then 0 else 1)"
| "f_sign PInf = 1"
| "f_sign NInf = - 1"
| "f_sign NaN = 0"

definition f_inf :: "int \<Rightarrow> float64" where
  "f_inf s = (if s < 0 then NInf else if s = 0 then NaN else PInf)"

fun f_mul :: "(real \<Rightarrow> float64) \<Rightarrow> float64 \<Rightarrow> float64 \<Rightarrow> float64" where
  "f_mul rnd NaN _ = NaN"
| "f_mul rnd _ NaN = NaN"
| "f_mul rnd (Fin x) (Fin y) = rnd (x * y)"
| "f_mul rnd a b = f_inf (f_sign a * f_sign b)"

fun f_div :: "(real \<Rightarrow> float64) \<Rightarrow> float64 \<Rightarrow> float64 \<Rightarrow> float64" where
  "f_div rnd NaN _ = NaN"
| "f_div rnd _ NaN = NaN"
| "f_div rnd (Fin x) (Fin y) = (if y = 0 then f_inf (f_sign (Fin x)) else rnd (x / y))"
| "f_div rnd (Fin x) _ = Fin 0"
| "f_div rnd a (Fin y) = f_inf (f_sign a * (if y < 0 then - 1 else 1))"
| "f_div rnd _ _ = NaN"

text \<open>
  The conversion \<open>float64(n)\<close> of an integer that a \<open>float64\<close> holds exactly (below
  \<open>2^53\<close> in absolute value), as the counts of the builtin functions are.
\<close>

definition float64_of_int :: "int \<Rightarrow> float64" where
  "float64_of_int n = Fin (of_int n)"

text \<open>
  The conversions \<open>int64(f)\<close> and \<open>ErrorCode(f)\<close> of a float that holds an integer in
  range; Go leaves the other cases to the implementation.
\<close>

fun int_of_float64 :: "float64 \<Rightarrow> int" where
  "int_of_float64 (Fin x) = (if x < 0 then - \<lfloor>- x\<rfloor> else \<lfloor>x\<rfloor>)"
| "int_of_float64 _ = 0"

subsection \<open>Spreadsheet errors (cell.go)\<close>

definition ErrorCodeNull :: nat where "ErrorCodeNull = 1"
definition ErrorCodeDiv0 :: nat where "ErrorCodeDiv0 = 2"
definition ErrorCodeValue :: nat where "ErrorCodeValue = 3"
definition ErrorCodeRef :: nat where "ErrorCodeRef = 4"
definition ErrorCodeName :: nat where "ErrorCodeName = 5"
definition ErrorCodeNum :: nat where "ErrorCodeNum = 6"
definition ErrorCodeNA :: nat where "ErrorCodeNA = 7"
definition ErrorCodeOther :: nat where "ErrorCodeOther = 8"

lemmas ErrorCode_defs = ErrorCodeNull_def ErrorCodeDiv0_def ErrorCodeValue_def ErrorCodeRef_def
  ErrorCodeName_def ErrorCodeNum_def ErrorCodeNA_def ErrorCodeOther_def

definition ErrorMapper :: "nat \<Rightarrow> string" where
  "ErrorMapper c =
     (if c = ErrorCodeNull then ''#NULL!''
      else if c = ErrorCodeDiv0 then ''#DIV/0!''
      else if c = ErrorCodeValue then ''#VALUE!''
      else if c = ErrorCodeRef then ''#REF!''
      else if c = ErrorCodeName then ''#NAME?''
      else if c = ErrorCodeNum then ''#NUM!''
      else if c = ErrorCodeNA then ''#N/A''
      else if c = ErrorCodeOther then ''#ERROR!''
      else [])"

record SpreadsheetError =
  ErrorCode :: nat
  Message :: string

definition NewSpreadsheetError :: "nat \<Rightarrow> string \<Rightarrow> SpreadsheetError" where
  "NewSpreadsheetError code message =
     \<lparr>ErrorCode = code, Message = (if message = [] then ErrorMapper code else message)\<rparr>"

definition Error_text :: "SpreadsheetError \<Rightarrow> string" where
  "Error_text e = (if Message e \<noteq> [] then Message e else ErrorMapper (ErrorCode e))"

definition CellValueTypeEmpty :: nat where "CellValueTypeEmpty = 0"
definition CellValueTypeNumber :: nat where "CellValueTypeNumber = 1"
definition CellValueTypeString :: nat where "CellValueTypeString = 2"
definition CellValueTypeDate :: nat where "CellValueTypeDate = 3"
definition CellValueTypeBoolean :: nat where "CellValueTypeBoolean = 4"
definition CellValueTypeError :: nat where "CellValueTypeError = 5"

lemmas CellType_defs = CellValueTypeEmpty_def CellValueTypeNumber_def CellValueTypeString_def
  CellValueTypeDate_def CellValueTypeBoolean_def CellValueTypeError_def

record CellAddress =
  WorksheetID :: nat
  Row :: nat
  Column :: nat

record RangeAddress =
  rWorksheetID :: nat
  StartRow :: nat
  StartColumn :: nat
  EndRow :: nat
  EndColumn :: nat

section \<open>Expression trees (the parser's output)\<close>

text \<open>
  The nodes of the parser's tree, without their source positions. Offsets of references
  are relative to the cell that holds the formula (\<open>int32\<close> in the source).
\<close>

datatype BinaryOp = BinOpAdd | BinOpSubtract | BinOpMultiply | BinOpDivide | BinOpModulo
  | BinOpPower | BinOpConcat | BinOpEqual | BinOpNotEqual | BinOpLess | BinOpLessEqual
  | BinOpGreater | BinOpGreaterEqual

datatype UnaryOp = UnaryOpPlus | UnaryOpMinus | UnaryOpPercent

datatype ASTNode =
    StringNode string
  | NumberNode float64
  | BooleanNode bool
  | CellRefNode nat int int
  | RangeNode nat int int int int
  | NamedRangeNode string
  | BinaryOpNode BinaryOp ASTNode ASTNode
  | UnaryOpNode UnaryOp ASTNode
  | FunctionCallNode string "ASTNode list"

section \<open>Intern tables\<close>

subsection \<open>StringTable\<close>

record StringTable =
  strings :: "string \<rightharpoonup> nat"
  reverseMap :: "nat \<rightharpoonup> string"
  st_refCounts :: "nat \<rightharpoonup> int"
  st_nextID :: nat

definition NewStringTable :: StringTable where
  "NewStringTable = \<lparr>strings = Map.empty, reverseMap = Map.empty, st_refCounts = Map.empty,
     st_nextID = 1\<rparr>"

text \<open>
  Reading a Go map of counters at a missing key gives 0. The ids of the intern tables are
  \<open>uint32\<close>: the counter of the next id wraps around at \<open>2 ^ 32\<close>.
\<close>

definition count_at :: "('k \<rightharpoonup> int) \<Rightarrow> 'k \<Rightarrow> int" where
  "count_at m k = (case m k of None \<Rightarrow> 0 | Some n \<Rightarrow> n)"

definition Intern :: "StringTable \<Rightarrow> string \<Rightarrow> nat \<times> StringTable" where
  "Intern st s =
     (case strings st s of
        Some i \<Rightarrow> (i, st\<lparr>st_refCounts := (st_refCounts st)(i \<mapsto> count_at (st_refCounts st) i + 1)\<rparr>)
      | None \<Rightarrow>
          (let i = st_nextID st in
           (i, st\<lparr>strings := (strings st)(s \<mapsto> i),
                  reverseMap := (reverseMap st)(i \<mapsto> s),
                  st_refCounts := (st_refCounts st)(i \<mapsto> 1),
                  st_nextID := (i + 1) mod 2 ^ 32\<rparr>)))"

definition GetString :: "StringTable \<Rightarrow> nat \<Rightarrow> string option" where
  "GetString st i = reverseMap st i"

definition RemoveReference :: "StringTable \<Rightarrow> nat \<Rightarrow> StringTable" where
  "RemoveReference st i =
     (case reverseMap st i of
        None \<Rightarrow> st
      | Some s \<Rightarrow>
          (let n = count_at (st_refCounts st) i - 1 in
           if n \<le> 0
           then st\<lparr>strings := (strings st)(s := None),
                   reverseMap := (reverseMap st)(i := None),
                   st_refCounts := (st_refCounts st)(i := None)\<rparr>
           else st\<lparr>st_refCounts := (st_refCounts st)(i \<mapsto> n)\<rparr>))"

subsection \<open>FormulaTable (formula.go)\<close>

text \<open>
  Formula trees are interned under their pretty-printed form. \<open>%d\<close> of an integer is
  written out; \<open>%g\<close> of a float is Go's \<open>fmt\<close> and is a parameter \<open>fmt_g\<close>.
\<close>

definition digit_char :: "nat \<Rightarrow> char" where
  "digit_char n = char_of (48 + n)"

fun show_nat :: "nat \<Rightarrow> string" where
  "show_nat n = (if n < 10 then [digit_char n] else show_nat (n div 10) @ [digit_char (n mod 10)])"

declare show_nat.simps [simp del]

definition show_int :: "int \<Rightarrow> string" where
  "show_int i = (if i < 0 then CHR ''-'' # show_nat (nat (- i)) else show_nat (nat i))"

fun join_with :: "string \<Rightarrow> string list \<Rightarrow> string" where
  "join_with sep [] = []"
| "join_with sep [x] = x"
| "join_with sep (x # y # ys) = x @ sep @ join_with sep (y # ys)"

definition escape_quotes :: "string \<Rightarrow> string" where
  "escape_quotes s = concat (map (\<lambda>c. if c = CHR 0x22 then [CHR 0x22, CHR 0x22] else [c]) s)"

definition BinaryOp_text :: "BinaryOp \<Rightarrow> string" where
  "BinaryOp_text op =
     (case op of BinOpAdd \<Rightarrow> ''+'' | BinOpSubtract \<Rightarrow> ''-'' | BinOpMultiply \<Rightarrow> ''*''
      | BinOpDivide \<Rightarrow> ''/'' | BinOpModulo \<Rightarrow> ''%'' | BinOpPower \<Rightarrow> ''^''
      | BinOpConcat \<Rightarrow> ''&'' | BinOpEqual \<Rightarrow> ''='' | BinOpNotEqual \<Rightarrow> ''<>''
      | BinOpLess \<Rightarrow> ''<'' | BinOpLessEqual \<Rightarrow> ''<='' | BinOpGreater \<Rightarrow> ''>''
      | BinOpGreaterEqual \<Rightarrow> ''>='')"

definition Number_ToString :: "(float64 \<Rightarrow> string) \<Rightarrow> float64 \<Rightarrow> string" where
  "Number_ToString fmt_g v =
     (if v = float64_of_int (int_of_float64 v) then show_int (int_of_float64 v) else fmt_g v)"

fun ToString :: "(float64 \<Rightarrow> string) \<Rightarrow> ASTNode \<Rightarrow> string" where
  "ToString fmt_g (StringNode s) = [CHR 0x22] @ escape_quotes s @ [CHR 0x22]"
| "ToString fmt_g (NumberNode v) = Number_ToString fmt_g v"
| "ToString fmt_g (BooleanNode b) = (if b then ''TRUE'' else ''FALSE'')"
| "ToString fmt_g (CellRefNode w r c) =
     (if w \<noteq> 0
      then ''WS_REF('' @ show_nat w @ '','' @ show_int r @ '','' @ show_int c @ '')''
      else ''REF('' @ show_int r @ '','' @ show_int c @ '')'')"
| "ToString fmt_g (RangeNode w sr sc er ec) =
     (if w \<noteq> 0
      then ''WS_RANGE('' @ show_nat w @ '','' @ show_int sr @ '','' @ show_int sc @ '',''
             @ show_int er @ '','' @ show_int ec @ '')''
      else ''N_WS_RANGE('' @ show_int sr @ '','' @ show_int sc @ '',''
             @ show_int er @ '','' @ show_int ec @ '')'')"
| "ToString fmt_g (NamedRangeNode name) = name"
| "ToString fmt_g (BinaryOpNode op l r) =
     ''('' @ ToString fmt_g l @ BinaryOp_text op @ ToString fmt_g r @ '')''"
| "ToString fmt_g (UnaryOpNode op x) =
     (case op of
        UnaryOpPercent \<Rightarrow> ''('' @ ToString fmt_g x @ ''%)''
      | UnaryOpPlus \<Rightarrow> ''+'' @ ToString fmt_g x
      | UnaryOpMinus \<Rightarrow> ''-'' @ ToString fmt_g x)"
| "ToString fmt_g (FunctionCallNode name args) =
     name @ ''('' @ join_with '','' (map (ToString fmt_g) args) @ '')''"

record FormulaTable =
  astIndex :: "string \<rightharpoonup> nat"
  astCache :: "nat \<rightharpoonup> ASTNode"
  ft_refCounts :: "nat \<rightharpoonup> int"
  cellsUsingFormula :: "nat \<rightharpoonup> CellAddress set"
  formulaAtCell :: "CellAddress \<rightharpoonup> nat"
  owningWorksheets :: "nat \<rightharpoonup> nat set"
  referencedWorksheets :: "nat \<rightharpoonup> nat set"
  namedRangesUsed :: "nat \<rightharpoonup> nat set"
  formulasUsingNamedRange :: "nat \<rightharpoonup> nat set"
  ft_nextID :: nat

definition NewFormulaTable :: FormulaTable where
  "NewFormulaTable = \<lparr>astIndex = Map.empty, astCache = Map.empty, ft_refCounts = Map.empty,
     cellsUsingFormula = Map.empty, formulaAtCell = Map.empty, owningWorksheets = Map.empty,
     referencedWorksheets = Map.empty, namedRangesUsed = Map.empty,
     formulasUsingNamedRange = Map.empty, ft_nextID = 1\<rparr>"

text \<open>
  A Go map whose values are sets: adding to a missing key creates the set, and removing
  the last member deletes the key.
\<close>

definition set_add :: "('k \<rightharpoonup> 'v set) \<Rightarrow> 'k \<Rightarrow> 'v \<Rightarrow> ('k \<rightharpoonup> 'v set)" where
  "set_add m k v = m(k \<mapsto> (case m k of None \<Rightarrow> {v} | Some S \<Rightarrow> insert v S))"

definition set_remove :: "('k \<rightharpoonup> 'v set) \<Rightarrow> 'k \<Rightarrow> 'v \<Rightarrow> ('k \<rightharpoonup> 'v set)" where
  "set_remove m k v =
     (case m k of None \<Rightarrow> m
      | Some S \<Rightarrow> (if S - {v} = {} then m(k := None) else m(k \<mapsto> S - {v})))"

definition TrackWorksheetOwnership :: "FormulaTable \<Rightarrow> nat \<Rightarrow> nat \<Rightarrow> FormulaTable" where
  "TrackWorksheetOwnership ft formulaID worksheetID =
     ft\<lparr>owningWorksheets := set_add (owningWorksheets ft) formulaID worksheetID\<rparr>"

definition trackCellUsage :: "FormulaTable \<Rightarrow> nat \<Rightarrow> CellAddress \<Rightarrow> FormulaTable" where
  "trackCellUsage ft formulaID cell =
     (let ft1 = (case formulaAtCell ft cell of
                   Some oldFormulaID \<Rightarrow>
                     (if oldFormulaID \<noteq> formulaID
                      then ft\<lparr>cellsUsingFormula := set_remove (cellsUsingFormula ft) oldFormulaID cell\<rparr>
                      else ft)
                 | None \<Rightarrow> ft);
          ft2 = ft1\<lparr>cellsUsingFormula := set_add (cellsUsingFormula ft1) formulaID cell,
                    formulaAtCell := (formulaAtCell ft1)(cell \<mapsto> formulaID)\<rparr>
      in TrackWorksheetOwnership ft2 formulaID (WorksheetID cell))"

definition InternFormula ::
  "(float64 \<Rightarrow> string) \<Rightarrow> FormulaTable \<Rightarrow> ASTNode \<Rightarrow> CellAddress \<Rightarrow> nat \<times> FormulaTable" where
  "InternFormula fmt_g ft ast cell =
     (let key = ToString fmt_g ast in
      case astIndex ft key of
        Some i \<Rightarrow>
          (i, trackCellUsage
                (ft\<lparr>ft_refCounts := (ft_refCounts ft)(i \<mapsto> count_at (ft_refCounts ft) i + 1)\<rparr>) i cell)
      | None \<Rightarrow>
          (let i = ft_nextID ft;
               ft1 = ft\<lparr>astIndex := (astIndex ft)(key \<mapsto> i),
                        astCache := (astCache ft)(i \<mapsto> ast),
                        ft_refCounts := (ft_refCounts ft)(i \<mapsto> 1)\<rparr>;
               ft2 = trackCellUsage ft1 i cell
           in (i, ft2\<lparr>ft_nextID := (ft_nextID ft2 + 1) mod 2 ^ 32\<rparr>)))"

definition GetAST :: "FormulaTable \<Rightarrow> nat \<Rightarrow> ASTNode option" where
  "GetAST ft i = astCache ft i"

definition removeFormula :: "(float64 \<Rightarrow> string) \<Rightarrow> FormulaTable \<Rightarrow> nat \<Rightarrow> FormulaTable" where
  "removeFormula fmt_g ft formulaID =
     (let ft1 = (case astCache ft formulaID of
                   Some ast \<Rightarrow> ft\<lparr>astIndex := (astIndex ft)(ToString fmt_g ast := None)\<rparr>
                 | None \<Rightarrow> ft);
          ft2 = ft1\<lparr>astCache := (astCache ft1)(formulaID := None),
                    ft_refCounts := (ft_refCounts ft1)(formulaID := None),
                    cellsUsingFormula := (cellsUsingFormula ft1)(formulaID := None),
                    owningWorksheets := (owningWorksheets ft1)(formulaID := None),
                    referencedWorksheets := (referencedWorksheets ft1)(formulaID := None)\<rparr>
      in case namedRangesUsed ft2 formulaID of
           None \<Rightarrow> ft2
         | Some namedRanges \<Rightarrow>
             ft2\<lparr>formulasUsingNamedRange :=
                    (\<lambda>namedRangeID.
                       if namedRangeID \<in> namedRanges
                       then set_remove (formulasUsingNamedRange ft2) namedRangeID formulaID namedRangeID
                       else formulasUsingNamedRange ft2 namedRangeID),
                  namedRangesUsed := (namedRangesUsed ft2)(formulaID := None)\<rparr>)"

definition updateWorksheetOwnership :: "FormulaTable \<Rightarrow> nat \<Rightarrow> nat \<Rightarrow> FormulaTable" where
  "updateWorksheetOwnership ft formulaID worksheetID =
     (let stillUsed = (case cellsUsingFormula ft formulaID of
                         None \<Rightarrow> False
                       | Some cells \<Rightarrow> (\<exists>cell\<in>cells. WorksheetID cell = worksheetID))
      in if stillUsed then ft
         else ft\<lparr>owningWorksheets := set_remove (owningWorksheets ft) formulaID worksheetID\<rparr>)"

definition RemoveCellReference ::
  "(float64 \<Rightarrow> string) \<Rightarrow> FormulaTable \<Rightarrow> nat \<Rightarrow> CellAddress \<Rightarrow> FormulaTable" where
  "RemoveCellReference fmt_g ft formulaID cell =
     (let ft1 = ft\<lparr>cellsUsingFormula := set_remove (cellsUsingFormula ft) formulaID cell,
                    formulaAtCell := (formulaAtCell ft)(cell := None)\<rparr>;
          n = count_at (ft_refCounts ft1) formulaID - 1;
          ft2 = ft1\<lparr>ft_refCounts := (ft_refCounts ft1)(formulaID \<mapsto> n)\<rparr>
      in if n \<le> 0 then removeFormula fmt_g ft2 formulaID
         else updateWorksheetOwnership ft2 formulaID (WorksheetID cell))"

definition TrackNamedRangeReference :: "FormulaTable \<Rightarrow> nat \<Rightarrow> nat \<Rightarrow> FormulaTable" where
  "TrackNamedRangeReference ft formulaID namedRangeID =
     ft\<lparr>namedRangesUsed := set_add (namedRangesUsed ft) formulaID namedRangeID,
        formulasUsingNamedRange := set_add (formulasUsingNamedRange ft) namedRangeID formulaID\<rparr>"

section \<open>The sparse cell store (worksheet.go)\<close>

definition ChunkRows :: nat where "ChunkRows = 256"
definition ChunkCols :: nat where "ChunkCols = 256"
definition ChunkSize :: nat where "ChunkSize = ChunkRows * ChunkCols"

text \<open>
  A chunk's parallel arrays are functions of the index; a lazily allocated array is
  \<open>None\<close> until its first write, and \<open>make\<close> gives the all-zero array.
\<close>

record Chunk =
  Types :: "nat \<Rightarrow> nat"
  NonEmptyCount :: int
  OccupiedBitmap :: "nat \<Rightarrow> 64 word"
  Numbers :: "(nat \<Rightarrow> float64) option"
  StringIDs :: "(nat \<Rightarrow> nat) option"
  FormulaIDs :: "(nat \<Rightarrow> nat) option"
  FormulaResultTypes :: "(nat \<Rightarrow> nat) option"
  FormulaResultNumbers :: "(nat \<Rightarrow> float64) option"
  FormulaResultStringIDs :: "(nat \<Rightarrow> nat) option"
  FormulaResultBooleans :: "(nat \<Rightarrow> nat) option"

definition NewChunk :: Chunk where
  "NewChunk = \<lparr>Types = (\<lambda>_. 0), NonEmptyCount = 0, OccupiedBitmap = (\<lambda>_. 0), Numbers = None,
     StringIDs = None, FormulaIDs = None, FormulaResultTypes = None,
     FormulaResultNumbers = None, FormulaResultStringIDs = None,
     FormulaResultBooleans = None\<rparr>"

record Worksheet =
  chunks :: "(nat \<times> nat) \<rightharpoonup> Chunk"
  totalCells :: int
  cellsByType :: "nat \<Rightarrow> nat"
  ws_worksheetID :: nat

definition NewWorksheet :: "nat \<Rightarrow> Worksheet" where
  "NewWorksheet worksheetID =
     \<lparr>chunks = Map.empty, totalCells = 0, cellsByType = (\<lambda>_. 0), ws_worksheetID = worksheetID\<rparr>"

text \<open>
  A lazy range value holds its bounds and the worksheet it reads; the string table stands
  for the \<open>storage\<close> pointer through which \<open>GetCell\<close> resolves text.
\<close>

record CellRange =
  cr_worksheetID :: nat
  startRow :: nat
  startCol :: nat
  endRow :: nat
  endCol :: nat
  worksheet :: Worksheet
  cr_strings :: StringTable

text \<open>
  \<open>Primitive\<close> is Go's \<open>any\<close> restricted to what the engine produces: \<open>nil\<close>, a
  \<open>float64\<close>, a string, a bool, a \<open>*SpreadsheetError\<close> or a \<open>*CellRange\<close>. The host
  may also pass \<open>int\<close> and \<open>int64\<close> to \<open>Set\<close>; \<open>SetCell\<close> stores them as
  \<open>float64\<close> at once, so they are taken here as the \<open>float64\<close> they become.
\<close>

datatype Primitive = Nil | Number float64 | Text string | Boolean bool
  | ErrorV SpreadsheetError | RangeV CellRange

record Cell =
  Type :: nat
  cell_Row :: nat
  cell_Col :: nat
  Value :: Primitive
  StringID :: nat
  FormulaID :: nat
  FormulaResultType :: nat

definition chunk_index :: "nat \<Rightarrow> nat \<Rightarrow> nat" where
  "chunk_index row col = (col mod ChunkCols) * ChunkRows + row mod ChunkRows"

definition chunk_key :: "nat \<Rightarrow> nat \<Rightarrow> nat \<times> nat" where
  "chunk_key row col = (row div ChunkRows, col div ChunkCols)"

definition ErrorCode_of_float64 :: "float64 \<Rightarrow> nat" where
  "ErrorCode_of_float64 f = nat (int_of_float64 f mod 256)"

definition read_array :: "(nat \<Rightarrow> 'a) option \<Rightarrow> nat \<Rightarrow> 'a option" where
  "read_array a idx = (case a of None \<Rightarrow> None | Some f \<Rightarrow> (if idx < ChunkSize then Some (f idx) else None))"

definition read_error :: "StringTable \<Rightarrow> (nat \<Rightarrow> float64) option \<Rightarrow> (nat \<Rightarrow> nat) option \<Rightarrow> nat
    \<Rightarrow> SpreadsheetError" where
  "read_error st nums sids idx =
     \<lparr>ErrorCode = (case read_array nums idx of Some f \<Rightarrow> ErrorCode_of_float64 f | None \<Rightarrow> 0),
      Message = (case read_array sids idx of
                   Some sid \<Rightarrow> (case GetString st sid of Some str \<Rightarrow> str | None \<Rightarrow> [])
                 | None \<Rightarrow> [])\<rparr>"

definition GetCell_value :: "StringTable \<Rightarrow> Chunk \<Rightarrow> nat \<Rightarrow> Cell \<Rightarrow> Cell" where
  "GetCell_value st chunk idx cell =
     (if Type cell = CellValueTypeNumber \<or> Type cell = CellValueTypeDate then
        (case read_array (Numbers chunk) idx of
           Some f \<Rightarrow> cell\<lparr>Value := Number f\<rparr> | None \<Rightarrow> cell)
      else if Type cell = CellValueTypeString then
        (case read_array (StringIDs chunk) idx of
           Some sid \<Rightarrow>
             (case GetString st sid of
                Some str \<Rightarrow> cell\<lparr>StringID := sid, Value := Text str\<rparr>
              | None \<Rightarrow> cell\<lparr>StringID := sid\<rparr>)
         | None \<Rightarrow> cell)
      else if Type cell = CellValueTypeBoolean then
        (case read_array (Numbers chunk) idx of
           Some f \<Rightarrow> cell\<lparr>Value := Boolean (f \<noteq> Fin 0)\<rparr> | None \<Rightarrow> cell)
      else if Type cell = CellValueTypeError then
        cell\<lparr>StringID := (case read_array (StringIDs chunk) idx of Some sid \<Rightarrow> sid | None \<Rightarrow> StringID cell),
             Value := ErrorV (read_error st (Numbers chunk) (StringIDs chunk) idx)\<rparr>
      else cell)"

definition GetCell_result :: "StringTable \<Rightarrow> Chunk \<Rightarrow> nat \<Rightarrow> Cell \<Rightarrow> Cell" where
  "GetCell_result st chunk idx cell =
     (case read_array (FormulaResultTypes chunk) idx of
        None \<Rightarrow> cell
      | Some t \<Rightarrow>
          (let cell1 = cell\<lparr>FormulaResultType := t\<rparr> in
           if t = CellValueTypeNumber \<or> t = CellValueTypeDate then
             (case read_array (FormulaResultNumbers chunk) idx of
                Some f \<Rightarrow> cell1\<lparr>Value := Number f\<rparr> | None \<Rightarrow> cell1)
           else if t = CellValueTypeString then
             (case read_array (FormulaResultStringIDs chunk) idx of
                Some sid \<Rightarrow>
                  (case GetString st sid of
                     Some str \<Rightarrow> cell1\<lparr>Value := Text str\<rparr> | None \<Rightarrow> cell1)
              | None \<Rightarrow> cell1)
           else if t = CellValueTypeBoolean then
             (case read_array (FormulaResultBooleans chunk) idx of
                Some b \<Rightarrow> cell1\<lparr>Value := Boolean (b \<noteq> 0)\<rparr> | None \<Rightarrow> cell1)
           else if t = CellValueTypeError then
             cell1\<lparr>Value := ErrorV (read_error st (FormulaResultNumbers chunk)
                                      (FormulaResultStringIDs chunk) idx)\<rparr>
           else cell1))"

definition formula_id_at :: "Chunk \<Rightarrow> nat \<Rightarrow> nat" where
  "formula_id_at chunk idx = (case read_array (FormulaIDs chunk) idx of Some i \<Rightarrow> i | None \<Rightarrow> 0)"

definition GetCell :: "Worksheet \<Rightarrow> StringTable \<Rightarrow> nat \<Rightarrow> nat \<Rightarrow> Cell option" where
  "GetCell w st row col =
     (case chunks w (chunk_key row col) of
        None \<Rightarrow> None
      | Some chunk \<Rightarrow>
          (let idx = chunk_index row col in
           if Types chunk idx = CellValueTypeEmpty \<and> formula_id_at chunk idx = 0 then None
           else
             (let cell = GetCell_value st chunk idx
                   \<lparr>Type = Types chunk idx, cell_Row = row, cell_Col = col, Value = Nil,
                    StringID = 0, FormulaID = 0, FormulaResultType = 0\<rparr>
              in if formula_id_at chunk idx \<noteq> 0
                 then Some (GetCell_result st chunk idx
                              (cell\<lparr>FormulaID := formula_id_at chunk idx\<rparr>))
                 else Some cell)))"

text \<open>\<open>getChunk\<close> retrieves the chunk or creates an empty one in the map.\<close>

definition getChunk :: "Worksheet \<Rightarrow> nat \<times> nat \<Rightarrow> Chunk \<times> Worksheet" where
  "getChunk w key =
     (case chunks w key of
        Some chunk \<Rightarrow> (chunk, w)
      | None \<Rightarrow> (NewChunk, w\<lparr>chunks := (chunks w)(key \<mapsto> NewChunk)\<rparr>))"

definition alloc :: "(nat \<Rightarrow> 'a) option \<Rightarrow> 'a \<Rightarrow> (nat \<Rightarrow> 'a)" where
  "alloc a zero = (case a of None \<Rightarrow> (\<lambda>_. zero) | Some f \<Rightarrow> f)"

text \<open>The part of \<open>SetCell\<close> and \<open>RemoveCell\<close> that drops the old formula of the slot.\<close>

definition clear_formula ::
  "(float64 \<Rightarrow> string) \<Rightarrow> nat \<Rightarrow> nat \<Rightarrow> nat \<Rightarrow> nat \<Rightarrow> Chunk \<times> FormulaTable \<Rightarrow> Chunk \<times> FormulaTable" where
  "clear_formula fmt_g wsid row col idx cf =
     (case cf of (chunk, ft) \<Rightarrow>
        (case read_array (FormulaIDs chunk) idx of
           Some oldFormulaID \<Rightarrow>
             (if oldFormulaID \<noteq> 0
              then (chunk\<lparr>FormulaIDs := Some ((alloc (FormulaIDs chunk) 0)(idx := 0))\<rparr>,
                    RemoveCellReference fmt_g ft oldFormulaID
                      \<lparr>WorksheetID = wsid, Row = row, Column = col\<rparr>)
              else (chunk, ft))
         | None \<Rightarrow> (chunk, ft)))"

text \<open>
  The type switch of \<open>SetCell\<close> for a value without formula: the new chunk, the new
  string table, and whether the slot was emptied (the \<open>default\<close> case).
\<close>

definition store_value :: "Chunk \<Rightarrow> StringTable \<Rightarrow> nat \<Rightarrow> Primitive \<Rightarrow> Chunk \<times> StringTable \<times> bool" where
  "store_value chunk st idx v =
     (case v of
        Number num \<Rightarrow>
          (chunk\<lparr>Types := (Types chunk)(idx := CellValueTypeNumber),
                 Numbers := Some ((alloc (Numbers chunk) (Fin 0))(idx := num))\<rparr>, st, False)
      | Text str \<Rightarrow>
          (case Intern st str of (stringID, st') \<Rightarrow>
             (chunk\<lparr>Types := (Types chunk)(idx := CellValueTypeString),
                    StringIDs := Some ((alloc (StringIDs chunk) 0)(idx := stringID))\<rparr>, st', False))
      | Boolean b \<Rightarrow>
          (chunk\<lparr>Types := (Types chunk)(idx := CellValueTypeBoolean),
                 Numbers := Some ((alloc (Numbers chunk) (Fin 0))(idx := (if b then Fin 1 else Fin 0)))\<rparr>,
           st, False)
      | ErrorV e \<Rightarrow>
          (case Intern st (Message e) of (stringID, st') \<Rightarrow>
             (chunk\<lparr>Types := (Types chunk)(idx := CellValueTypeError),
                    StringIDs := Some ((alloc (StringIDs chunk) 0)(idx := stringID)),
                    Numbers := Some ((alloc (Numbers chunk) (Fin 0))(idx := Fin (real (ErrorCode e))))\<rparr>,
              st', False))
      | _ \<Rightarrow> (chunk\<lparr>Types := (Types chunk)(idx := CellValueTypeEmpty)\<rparr>, st, True))"

definition update_stats :: "(nat \<Rightarrow> nat) \<Rightarrow> nat \<Rightarrow> nat \<Rightarrow> (nat \<Rightarrow> nat)" where
  "update_stats byType oldType newType =
     (if oldType \<noteq> newType then
        (let t1 = (if oldType < 8 \<and> byType oldType > 0
                   then byType(oldType := byType oldType - 1) else byType)
         in if newType < 8 then t1(newType := t1 newType + 1) else t1)
      else byType)"

definition update_bitmap :: "Chunk \<Rightarrow> nat \<Rightarrow> Chunk" where
  "update_bitmap chunk idx =
     (let bitIdx = idx div 64; bitPos = idx mod 64; m = OccupiedBitmap chunk in
      if Types chunk idx \<noteq> CellValueTypeEmpty
      then chunk\<lparr>OccupiedBitmap := m(bitIdx := m bitIdx OR push_bit bitPos 1)\<rparr>
      else chunk\<lparr>OccupiedBitmap := m(bitIdx := m bitIdx AND NOT (push_bit bitPos 1))\<rparr>)"

definition SetCell ::
  "(float64 \<Rightarrow> string) \<Rightarrow> Worksheet \<Rightarrow> StringTable \<Rightarrow> FormulaTable \<Rightarrow> nat \<Rightarrow> nat \<Rightarrow> Primitive \<Rightarrow> string
    \<Rightarrow> Worksheet \<times> StringTable \<times> FormulaTable" where
  "SetCell fmt_g w0 st ft0 row col v formula =
     (case getChunk w0 (chunk_key row col) of (chunk0, w) \<Rightarrow>
      (let idx = chunk_index row col;
           wasEmpty = (Types chunk0 idx = CellValueTypeEmpty);
           oldType = Types chunk0 idx
       in case clear_formula fmt_g (ws_worksheetID w) row col idx (chunk0, ft0) of (chunk1, ft) \<Rightarrow>
          (let (chunk2, st', delta) =
                 (if v = Nil \<and> formula = [] then
                    (chunk1\<lparr>Types := (Types chunk1)(idx := CellValueTypeEmpty)\<rparr>, st,
                     (if \<not> wasEmpty then - 1 else 0))
                  else if formula \<noteq> [] then
                    (chunk1, st, (if wasEmpty then 1 else (0::int)))
                  else
                    (case store_value chunk1 st idx v of (c, st1, emptied) \<Rightarrow>
                       (c, st1, (if wasEmpty then 1 else 0)
                                + (if emptied \<and> \<not> wasEmpty then - 1 else 0))));
               chunk3 = chunk2\<lparr>NonEmptyCount := NonEmptyCount chunk2 + delta\<rparr>;
               chunk4 = update_bitmap chunk3 idx
           in (w\<lparr>chunks := (chunks w)(chunk_key row col \<mapsto> chunk4),
                 totalCells := totalCells w + delta,
                 cellsByType := update_stats (cellsByType w) oldType (Types chunk4 idx)\<rparr>,
               st', ft))))"

definition RemoveCell ::
  "(float64 \<Rightarrow> string) \<Rightarrow> Worksheet \<Rightarrow> StringTable \<Rightarrow> FormulaTable \<Rightarrow> nat \<Rightarrow> nat
    \<Rightarrow> Worksheet \<times> StringTable \<times> FormulaTable" where
  "RemoveCell fmt_g w st ft0 row col =
     (case chunks w (chunk_key row col) of
        None \<Rightarrow> (w, st, ft0)
      | Some chunk0 \<Rightarrow>
          (let idx = chunk_index row col in
           if Types chunk0 idx = CellValueTypeEmpty then (w, st, ft0)
           else
             (let cellType = Types chunk0 idx in
              case clear_formula fmt_g (ws_worksheetID w) row col idx (chunk0, ft0) of (chunk1, ft) \<Rightarrow>
              (let (chunk2, st') =
                     (if Types chunk1 idx = CellValueTypeString \<or> Types chunk1 idx = CellValueTypeError
                      then (case read_array (StringIDs chunk1) idx of
                              Some stringID \<Rightarrow>
                                (if stringID \<noteq> 0
                                 then (chunk1\<lparr>StringIDs := Some ((alloc (StringIDs chunk1) 0)(idx := 0))\<rparr>,
                                       RemoveReference st stringID)
                                 else (chunk1, st))
                            | None \<Rightarrow> (chunk1, st))
                      else (chunk1, st));
                   chunk3 = chunk2\<lparr>Types := (Types chunk2)(idx := CellValueTypeEmpty),
                                   NonEmptyCount := NonEmptyCount chunk2 - 1\<rparr>;
                   byType = (if cellType < 8 \<and> cellsByType w cellType > 0
                             then (cellsByType w)(cellType := cellsByType w cellType - 1)
                             else cellsByType w);
                   m = OccupiedBitmap chunk3;
                   chunk4 = chunk3\<lparr>OccupiedBitmap :=
                              m(idx div 64 := m (idx div 64) AND NOT (push_bit (idx mod 64) 1))\<rparr>
               in (w\<lparr>chunks := (if NonEmptyCount chunk4 = 0
                                 then (chunks w)(chunk_key row col := None)
                                 else (chunks w)(chunk_key row col \<mapsto> chunk4)),
                     totalCells := totalCells w - 1,
                     cellsByType := byType\<rparr>,
                   st', ft)))))"

definition SetFormulaResult ::
  "Worksheet \<Rightarrow> StringTable \<Rightarrow> nat \<Rightarrow> nat \<Rightarrow> Primitive \<Rightarrow> Worksheet \<times> StringTable" where
  "SetFormulaResult w st row col result =
     (case chunks w (chunk_key row col) of
        None \<Rightarrow> (w, st)
      | Some chunk0 \<Rightarrow>
          (let idx = chunk_index row col;
               chunk = chunk0\<lparr>FormulaResultTypes := Some (alloc (FormulaResultTypes chunk0) 0)\<rparr>;
               types = alloc (FormulaResultTypes chunk0) 0;
               (chunk', st') =
                 (case result of
                    Number num \<Rightarrow>
                      (chunk\<lparr>FormulaResultTypes := Some (types(idx := CellValueTypeNumber)),
                             FormulaResultNumbers :=
                               Some ((alloc (FormulaResultNumbers chunk) (Fin 0))(idx := num))\<rparr>, st)
                  | Text str \<Rightarrow>
                      (case Intern st str of (stringID, st1) \<Rightarrow>
                         (chunk\<lparr>FormulaResultTypes := Some (types(idx := CellValueTypeString)),
                                FormulaResultStringIDs :=
                                  Some ((alloc (FormulaResultStringIDs chunk) 0)(idx := stringID))\<rparr>, st1))
                  | Boolean b \<Rightarrow>
                      (chunk\<lparr>FormulaResultTypes := Some (types(idx := CellValueTypeBoolean)),
                             FormulaResultBooleans :=
                               Some ((alloc (FormulaResultBooleans chunk) 0)(idx := (if b then 1 else 0)))\<rparr>,
                       st)
                  | ErrorV e \<Rightarrow>
                      (case Intern st (Message e) of (stringID, st1) \<Rightarrow>
                         (chunk\<lparr>FormulaResultTypes := Some (types(idx := CellValueTypeError)),
                                FormulaResultStringIDs :=
                                  Some ((alloc (FormulaResultStringIDs chunk) 0)(idx := stringID)),
                                FormulaResultNumbers :=
                                  Some ((alloc (FormulaResultNumbers chunk) (Fin 0))
                                          (idx := Fin (real (ErrorCode e))))\<rparr>, st1))
                  | Nil \<Rightarrow>
                      (chunk\<lparr>FormulaResultTypes := Some (types(idx := CellValueTypeEmpty))\<rparr>, st)
                  | RangeV r \<Rightarrow> (chunk, st))
           in (w\<lparr>chunks := (chunks w)(chunk_key row col \<mapsto> chunk')\<rparr>, st')))"

section \<open>Coercions and builtin functions (builtin.go)\<close>

text \<open>
  What the engine takes from Go's standard library and from the machine is a parameter
  of the model: the rounding \<open>fl\<close> of the arithmetic on \<open>float64\<close>,
  \<open>strconv.ParseFloat(s, 64)\<close> (\<open>None\<close> when it reports an error), \<open>fmt.Sprint\<close> of a
  \<open>float64\<close> (the \<open>%g\<close> form) and of a range pointer, the rounding
  \<open>strconv.ParseFloat(fmt.Sprintf("%.15f", x), 64)\<close> at the end of \<open>SUM\<close>,
  \<open>math.Pow\<close>, and the builtin functions beyond the aggregations and \<open>IF\<close>
  (text, math, clock and random functions), reached through \<open>other_builtin\<close>.
\<close>

record golib =
  fl :: "real \<Rightarrow> float64"
  ParseFloat :: "string \<Rightarrow> float64 option"
  Sprint_float :: "float64 \<Rightarrow> string"
  Sprint_range :: "CellRange \<Rightarrow> string"
  round15f :: "float64 \<Rightarrow> float64"
  Pow :: "float64 \<Rightarrow> float64 \<Rightarrow> float64"
  other_builtin :: "string \<Rightarrow> Primitive list \<Rightarrow> SpreadsheetError + Primitive"

definition checkForError :: "Primitive \<Rightarrow> SpreadsheetError option" where
  "checkForError v = (case v of ErrorV e \<Rightarrow> Some e | _ \<Rightarrow> None)"

definition toNumber :: "golib \<Rightarrow> Primitive \<Rightarrow> float64 \<times> bool" where
  "toNumber lib v =
     (case v of
        Number x \<Rightarrow> (x, True)
      | Boolean b \<Rightarrow> (if b then (Fin 1, True) else (Fin 0, True))
      | Text s \<Rightarrow> (case ParseFloat lib s of None \<Rightarrow> (Fin 0, False) | Some num \<Rightarrow> (num, True))
      | Nil \<Rightarrow> (Fin 0, True)
      | _ \<Rightarrow> (Fin 0, False))"

definition toString :: "golib \<Rightarrow> Primitive \<Rightarrow> string" where
  "toString lib v =
     (case v of
        Nil \<Rightarrow> []
      | Number x \<Rightarrow> Sprint_float lib x
      | Text s \<Rightarrow> s
      | Boolean b \<Rightarrow> (if b then ''true'' else ''false'')
      | ErrorV e \<Rightarrow> Error_text e
      | RangeV r \<Rightarrow> Sprint_range lib r)"

definition isTruthy :: "Primitive \<Rightarrow> bool" where
  "isTruthy v =
     (case v of
        Boolean b \<Rightarrow> b
      | Number x \<Rightarrow> x \<noteq> Fin 0
      | Text s \<Rightarrow> s \<noteq> []
      | Nil \<Rightarrow> False
      | _ \<Rightarrow> True)"

text \<open>
  \<open>CellRange.IterateValues\<close>: the values of the cells of the rectangle, row by row; a
  cell that is not stored gives \<open>nil\<close>.
\<close>

definition IterateValues :: "CellRange \<Rightarrow> Primitive list" where
  "IterateValues r =
     map (\<lambda>(row, col). case GetCell (worksheet r) (cr_strings r) row col of
                          None \<Rightarrow> Nil | Some cell \<Rightarrow> Value cell)
         (List.product [startRow r ..< Suc (endRow r)] [startCol r ..< Suc (endCol r)])"

text \<open>
  The six numeric aggregations share one loop: every argument is checked for an error;
  a range argument is iterated, each value checked for an error and then folded in; any
  other argument is folded in directly. The first error ends the call.
\<close>

fun range_loop :: "(Primitive \<Rightarrow> 'a \<Rightarrow> 'a) \<Rightarrow> Primitive list \<Rightarrow> 'a \<Rightarrow> SpreadsheetError + 'a" where
  "range_loop step [] acc = Inr acc"
| "range_loop step (v # vs) acc =
     (case checkForError v of
        Some e \<Rightarrow> Inl e
      | None \<Rightarrow> range_loop step vs (step v acc))"

fun args_loop ::
  "(Primitive \<Rightarrow> 'a \<Rightarrow> 'a) \<Rightarrow> (Primitive \<Rightarrow> 'a \<Rightarrow> 'a) \<Rightarrow> Primitive list \<Rightarrow> 'a \<Rightarrow> SpreadsheetError + 'a" where
  "args_loop rstep dstep [] acc = Inr acc"
| "args_loop rstep dstep (arg # args) acc =
     (case checkForError arg of
        Some e \<Rightarrow> Inl e
      | None \<Rightarrow>
          (case arg of
             RangeV r \<Rightarrow>
               (case range_loop rstep (IterateValues r) acc of
                  Inl e \<Rightarrow> Inl e
                | Inr acc' \<Rightarrow> args_loop rstep dstep args acc')
           | _ \<Rightarrow> args_loop rstep dstep args (dstep arg acc)))"

definition bf_SUM_step :: "golib \<Rightarrow> Primitive \<Rightarrow> float64 \<Rightarrow> float64" where
  "bf_SUM_step lib v s =
     (case toNumber lib v of (num, ok) \<Rightarrow> if ok \<and> \<not> IsNaN num then f_add (fl lib) s num else s)"

definition bf_SUM :: "golib \<Rightarrow> Primitive list \<Rightarrow> SpreadsheetError + Primitive" where
  "bf_SUM lib args =
     (case args_loop (bf_SUM_step lib) (bf_SUM_step lib) args (Fin 0) of
        Inl e \<Rightarrow> Inl e
      | Inr tot \<Rightarrow> Inr (Number (round15f lib tot)))"

definition bf_AVERAGE_step :: "golib \<Rightarrow> Primitive \<Rightarrow> float64 \<times> int \<Rightarrow> float64 \<times> int" where
  "bf_AVERAGE_step lib v acc =
     (case toNumber lib v of (num, ok) \<Rightarrow>
        if ok \<and> \<not> IsNaN num then (f_add (fl lib) (fst acc) num, snd acc + 1) else acc)"

definition bf_AVERAGE_range_step :: "golib \<Rightarrow> Primitive \<Rightarrow> float64 \<times> int \<Rightarrow> float64 \<times> int" where
  "bf_AVERAGE_range_step lib v acc = (if v \<noteq> Nil then bf_AVERAGE_step lib v acc else acc)"

definition bf_AVERAGE :: "golib \<Rightarrow> Primitive list \<Rightarrow> SpreadsheetError + Primitive" where
  "bf_AVERAGE lib args =
     (case args_loop (bf_AVERAGE_range_step lib) (bf_AVERAGE_step lib) args (Fin 0, 0) of
        Inl e \<Rightarrow> Inl e
      | Inr (tot, count) \<Rightarrow>
          (if count = 0 then Inl (NewSpreadsheetError ErrorCodeDiv0 ''Division by zero'')
           else Inr (Number (f_div (fl lib) tot (float64_of_int count)))))"

text \<open>\<open>processValue\<close> of \<open>AVERAGEA\<close>, after its error check.\<close>

definition bf_AVERAGEA_step :: "golib \<Rightarrow> Primitive \<Rightarrow> float64 \<times> int \<Rightarrow> float64 \<times> int" where
  "bf_AVERAGEA_step lib v acc =
     (case v of
        Nil \<Rightarrow> acc
      | Number x \<Rightarrow> (f_add (fl lib) (fst acc) x, snd acc + 1)
      | Boolean b \<Rightarrow> ((if b then f_add (fl lib) (fst acc) (Fin 1) else fst acc), snd acc + 1)
      | Text s \<Rightarrow> (fst acc, snd acc + 1)
      | _ \<Rightarrow> acc)"

definition bf_AVERAGEA :: "golib \<Rightarrow> Primitive list \<Rightarrow> SpreadsheetError + Primitive" where
  "bf_AVERAGEA lib args =
     (case args_loop (bf_AVERAGEA_step lib) (bf_AVERAGEA_step lib) args (Fin 0, 0) of
        Inl e \<Rightarrow> Inl e
      | Inr (tot, count) \<Rightarrow>
          (if count = 0 then Inl (NewSpreadsheetError ErrorCodeRef ''AVERAGEA has no values'')
           else Inr (Number (f_div (fl lib) tot (float64_of_int count)))))"

definition shouldCount :: "Primitive \<Rightarrow> bool" where
  "shouldCount v = (case v of Number x \<Rightarrow> True | _ \<Rightarrow> False)"

text \<open>
  \<open>COUNT\<close> and \<open>COUNTA\<close> check only the arguments themselves for an error; the values
  of a range are tested and counted, never returned.
\<close>

fun count_range :: "(Primitive \<Rightarrow> bool) \<Rightarrow> Primitive list \<Rightarrow> int \<Rightarrow> int" where
  "count_range p [] count = count"
| "count_range p (v # vs) count = count_range p vs (if p v then count + 1 else count)"

fun count_args ::
  "(Primitive \<Rightarrow> bool) \<Rightarrow> (Primitive \<Rightarrow> bool) \<Rightarrow> Primitive list \<Rightarrow> int \<Rightarrow> SpreadsheetError + int" where
  "count_args rp dp [] count = Inr count"
| "count_args rp dp (arg # args) count =
     (case checkForError arg of
        Some e \<Rightarrow> Inl e
      | None \<Rightarrow>
          (case arg of
             RangeV r \<Rightarrow> count_args rp dp args (count_range rp (IterateValues r) count)
           | _ \<Rightarrow> count_args rp dp args (if dp arg then count + 1 else count)))"

definition bf_COUNT :: "golib \<Rightarrow> Primitive list \<Rightarrow> SpreadsheetError + Primitive" where
  "bf_COUNT lib args =
     (case count_args (\<lambda>v. checkForError v = None \<and> shouldCount v) shouldCount args 0 of
        Inl e \<Rightarrow> Inl e
      | Inr count \<Rightarrow> Inr (Number (float64_of_int count)))"

definition bf_COUNTA :: "golib \<Rightarrow> Primitive list \<Rightarrow> SpreadsheetError + Primitive" where
  "bf_COUNTA lib args =
     (case count_args (\<lambda>v. v \<noteq> Nil) (\<lambda>v. True) args 0 of
        Inl e \<Rightarrow> Inl e
      | Inr count \<Rightarrow> Inr (Number (float64_of_int count)))"

definition bf_MAX_step :: "golib \<Rightarrow> Primitive \<Rightarrow> float64 \<times> bool \<Rightarrow> float64 \<times> bool" where
  "bf_MAX_step lib v acc =
     (case toNumber lib v of (num, ok) \<Rightarrow>
        if ok \<and> \<not> IsNaN num then ((if f_gt num (fst acc) then num else fst acc), True) else acc)"

definition bf_MAX :: "golib \<Rightarrow> Primitive list \<Rightarrow> SpreadsheetError + Primitive" where
  "bf_MAX lib args =
     (case args_loop (bf_MAX_step lib) (bf_MAX_step lib) args (NInf, False) of
        Inl e \<Rightarrow> Inl e
      | Inr (m, hasValues) \<Rightarrow> (if hasValues then Inr (Number m) else Inr (Number (Fin 0))))"

definition bf_MIN_step :: "golib \<Rightarrow> Primitive \<Rightarrow> float64 \<times> bool \<Rightarrow> float64 \<times> bool" where
  "bf_MIN_step lib v acc =
     (case toNumber lib v of (num, ok) \<Rightarrow>
        if ok \<and> \<not> IsNaN num then ((if f_lt num (fst acc) then num else fst acc), True) else acc)"

definition bf_MIN :: "golib \<Rightarrow> Primitive list \<Rightarrow> SpreadsheetError + Primitive" where
  "bf_MIN lib args =
     (case args_loop (bf_MIN_step lib) (bf_MIN_step lib) args (PInf, False) of
        Inl e \<Rightarrow> Inl e
      | Inr (m, hasValues) \<Rightarrow> (if hasValues then Inr (Number m) else Inr (Number (Fin 0))))"

text \<open>
  The exchange sort of \<open>MEDIAN\<close> and \<open>MODE\<close>: for every \<open>i\<close>, every later \<open>j\<close> whose
  value is smaller is swapped into place \<open>i\<close>.
\<close>

function sort_inner :: "float64 list \<Rightarrow> nat \<Rightarrow> nat \<Rightarrow> float64 list" where
  "sort_inner vs i j =
     (if j < length vs
      then sort_inner (if f_lt (vs ! j) (vs ! i) then vs[i := vs ! j, j := vs ! i] else vs) i (Suc j)
      else vs)"
  by pat_completeness auto
termination
  by (relation "measure (\<lambda>(vs, i, j). length vs - j)") auto

declare sort_inner.simps [simp del]

function sort_outer :: "float64 list \<Rightarrow> nat \<Rightarrow> float64 list" where
  "sort_outer vs i =
     (if i < length vs then sort_outer (sort_inner vs i (Suc i)) (Suc i) else vs)"
  by pat_completeness auto
termination
proof (relation "measure (\<lambda>(vs, i). length vs - i)")
  have len: "length (sort_inner vs i j) = length vs" for vs i j
    by (induction vs i j rule: sort_inner.induct) (subst sort_inner.simps, auto)
  show "wf (measure (\<lambda>(vs, i). length vs - i))" by simp
  show "((sort_inner vs i (Suc i), Suc i), vs, i) \<in> measure (\<lambda>(vs, i). length vs - i)"
    if "i < length vs" for vs i
    using that by (simp add: len)
qed

declare sort_outer.simps [simp del]

definition bf_MEDIAN_step :: "golib \<Rightarrow> Primitive \<Rightarrow> float64 list \<Rightarrow> float64 list" where
  "bf_MEDIAN_step lib v vals =
     (case toNumber lib v of (num, ok) \<Rightarrow> if ok \<and> \<not> IsNaN num then vals @ [num] else vals)"

definition bf_MEDIAN_of :: "golib \<Rightarrow> float64 list \<Rightarrow> SpreadsheetError + Primitive" where
  "bf_MEDIAN_of lib vals =
     (if length vals = 0 then Inl (NewSpreadsheetError ErrorCodeNum ''MEDIAN has no numeric values'')
      else
        (let sorted_vals = sort_outer vals 0; mid = length sorted_vals div 2 in
         if length sorted_vals mod 2 = 0
         then Inr (Number (f_div (fl lib) (f_add (fl lib) (sorted_vals ! (mid - 1)) (sorted_vals ! mid)) (Fin 2)))
         else Inr (Number (sorted_vals ! mid))))"

definition bf_MEDIAN :: "golib \<Rightarrow> Primitive list \<Rightarrow> SpreadsheetError + Primitive" where
  "bf_MEDIAN lib args =
     (case args_loop (bf_MEDIAN_step lib) (bf_MEDIAN_step lib) args [] of
        Inl e \<Rightarrow> Inl e
      | Inr vals \<Rightarrow> bf_MEDIAN_of lib vals)"

text \<open>
  The frequency map of \<open>MODE\<close> is a list of keys with their counts, in the order in
  which the keys were first seen (Go leaves the order of a map unspecified; the modes are
  sorted before one is chosen).
\<close>

fun freq_incr :: "(float64 \<times> int) list \<Rightarrow> float64 \<Rightarrow> (float64 \<times> int) list" where
  "freq_incr [] k = [(k, 1)]"
| "freq_incr ((k', n) # m) k = (if k' = k then (k', n + 1) # m else (k', n) # freq_incr m k)"

definition bf_MODE_step :: "golib \<Rightarrow> Primitive \<Rightarrow> (float64 \<times> int) list \<Rightarrow> (float64 \<times> int) list" where
  "bf_MODE_step lib v m =
     (case toNumber lib v of (num, ok) \<Rightarrow> if ok \<and> \<not> IsNaN num then freq_incr m num else m)"

fun max_freq :: "(float64 \<times> int) list \<Rightarrow> int \<Rightarrow> int" where
  "max_freq [] maxFreq = maxFreq"
| "max_freq ((k, freq) # m) maxFreq = max_freq m (if freq > maxFreq then freq else maxFreq)"

definition bf_MODE_of :: "(float64 \<times> int) list \<Rightarrow> SpreadsheetError + Primitive" where
  "bf_MODE_of frequencyMap =
     (if length frequencyMap = 0
      then Inl (NewSpreadsheetError ErrorCodeNum ''MODE has no numeric values'')
      else
        (let maxFreq = max_freq frequencyMap 0;
             modes = map fst (filter (\<lambda>(k, freq). freq = maxFreq) frequencyMap)
         in if maxFreq = 1 \<and> length modes = length frequencyMap
            then Inl (NewSpreadsheetError ErrorCodeNA ''MODE: no value appears more than once'')
            else (case sort_outer modes 0 of
                    x # _ \<Rightarrow> Inr (Number x)
                  | [] \<Rightarrow> Inl (NewSpreadsheetError ErrorCodeOther ''index out of range''))))"

definition bf_MODE :: "golib \<Rightarrow> Primitive list \<Rightarrow> SpreadsheetError + Primitive" where
  "bf_MODE lib args =
     (case args_loop (bf_MODE_step lib) (bf_MODE_step lib) args [] of
        Inl e \<Rightarrow> Inl e
      | Inr frequencyMap \<Rightarrow> bf_MODE_of frequencyMap)"

definition bf_IF :: "golib \<Rightarrow> Primitive list \<Rightarrow> SpreadsheetError + Primitive" where
  "bf_IF lib args =
     (if length args < 2 \<or> length args > 3
      then Inl (NewSpreadsheetError ErrorCodeNA ''IF requires 2 or 3 arguments'')
      else
        (case checkForError (args ! 0) of
           Some e \<Rightarrow> Inl e
         | None \<Rightarrow>
             (if isTruthy (args ! 0) then Inr (args ! 1)
              else if length args = 3 then Inr (args ! 2)
              else Inr (Boolean False))))"

definition to_upper_char :: "char \<Rightarrow> char" where
  "to_upper_char c =
     (if CHR ''a'' \<le> c \<and> c \<le> CHR ''z'' then char_of (of_char c - (32::nat)) else c)"

definition ToUpper :: "string \<Rightarrow> string" where
  "ToUpper s = map to_upper_char s"

definition other_builtin_names :: "string list" where
  "other_builtin_names = [''AND'', ''OR'', ''NOT'', ''CONCATENATE'', ''LEN'', ''UPPER'', ''LOWER'',
     ''TRIM'', ''ABS'', ''ROUND'', ''FLOOR'', ''CEILING'', ''SQRT'', ''POWER'', ''MOD'', ''PI'',
     ''NOW'', ''TODAY'', ''RAND'']"

definition Call :: "golib \<Rightarrow> string \<Rightarrow> Primitive list \<Rightarrow> SpreadsheetError + Primitive" where
  "Call lib name args =
     (let n = ToUpper name in
      if n = ''SUM'' then bf_SUM lib args
      else if n = ''AVERAGE'' then bf_AVERAGE lib args
      else if n = ''AVERAGEA'' then bf_AVERAGEA lib args
      else if n = ''COUNT'' then bf_COUNT lib args
      else if n = ''COUNTA'' then bf_COUNTA lib args
      else if n = ''MAX'' then bf_MAX lib args
      else if n = ''MIN'' then bf_MIN lib args
      else if n = ''MEDIAN'' then bf_MEDIAN lib args
      else if n = ''MODE'' then bf_MODE lib args
      else if n = ''IF'' then bf_IF lib args
      else if n \<in> set other_builtin_names then other_builtin lib n args
      else Inl (NewSpreadsheetError ErrorCodeName (''Unknown function: '' @ name)))"

section \<open>Operators (BinaryOpNode.Eval, comparePrimitives)\<close>

definition comparePrimitives :: "golib \<Rightarrow> Primitive \<Rightarrow> Primitive \<Rightarrow> int" where
  "comparePrimitives lib left right =
     (if left = Nil \<and> right = Nil then 0
      else if left = Nil then - 1
      else if right = Nil then 1
      else
        (case toNumber lib left of (leftNum, leftIsNum) \<Rightarrow>
         case toNumber lib right of (rightNum, rightIsNum) \<Rightarrow>
           if leftIsNum \<and> rightIsNum then
             (if f_lt leftNum rightNum then - 1 else if f_gt leftNum rightNum then 1 else 0)
           else
             (case (left, right) of
                (Boolean leftBool, Boolean rightBool) \<Rightarrow>
                  (if leftBool = rightBool then 0
                   else if \<not> leftBool \<and> rightBool then - 1
                   else 1)
              | _ \<Rightarrow>
                  (let leftStr = toString lib left; rightStr = toString lib right in
                   if leftStr < rightStr then - 1
                   else if leftStr > rightStr then 1
                   else 0))))"

text \<open>
  \<open>BinaryOpNode.Eval\<close> once both operands are evaluated (an evaluation error having
  become an error value): an operand that is an error value is the result, the left one
  first; then the switch over the operator.
\<close>

definition arith :: "golib \<Rightarrow> (float64 \<Rightarrow> float64 \<Rightarrow> float64) \<Rightarrow> string \<Rightarrow> Primitive \<Rightarrow> Primitive
    \<Rightarrow> SpreadsheetError + Primitive" where
  "arith lib f msg leftVal rightVal =
     (case toNumber lib leftVal of (leftNum, leftOk) \<Rightarrow>
      case toNumber lib rightVal of (rightNum, rightOk) \<Rightarrow>
        if \<not> leftOk \<or> \<not> rightOk then Inl (NewSpreadsheetError ErrorCodeValue msg)
        else Inr (Number (f leftNum rightNum)))"

definition compare_op :: "golib \<Rightarrow> (int \<Rightarrow> bool) \<Rightarrow> Primitive \<Rightarrow> Primitive \<Rightarrow> SpreadsheetError + Primitive" where
  "compare_op lib test leftVal rightVal =
     (let cmp = comparePrimitives lib leftVal rightVal in
      if cmp = - 2 then Inl (NewSpreadsheetError ErrorCodeValue ''Cannot compare these values'')
      else Inr (Boolean (test cmp)))"

definition BinaryOp_result :: "golib \<Rightarrow> BinaryOp \<Rightarrow> Primitive \<Rightarrow> Primitive \<Rightarrow> SpreadsheetError + Primitive" where
  "BinaryOp_result lib op leftVal rightVal =
     (case checkForError leftVal of
        Some e \<Rightarrow> Inr (ErrorV e)
      | None \<Rightarrow>
     (case checkForError rightVal of
        Some e \<Rightarrow> Inr (ErrorV e)
      | None \<Rightarrow>
     (case op of
        BinOpAdd \<Rightarrow> arith lib (f_add (fl lib)) ''Addition requires numeric values'' leftVal rightVal
      | BinOpSubtract \<Rightarrow> arith lib (f_sub (fl lib)) ''Subtraction requires numeric values'' leftVal rightVal
      | BinOpMultiply \<Rightarrow> arith lib (f_mul (fl lib)) ''Multiplication requires numeric values'' leftVal rightVal
      | BinOpDivide \<Rightarrow>
          (case toNumber lib leftVal of (leftNum, leftOk) \<Rightarrow>
           case toNumber lib rightVal of (rightNum, rightOk) \<Rightarrow>
             if \<not> leftOk \<or> \<not> rightOk
             then Inl (NewSpreadsheetError ErrorCodeValue ''Division requires numeric values'')
             else if rightNum = Fin 0
             then Inl (NewSpreadsheetError ErrorCodeDiv0 ''Division by zero'')
             else Inr (Number (f_div (fl lib) leftNum rightNum)))
      | BinOpPower \<Rightarrow> arith lib (Pow lib) ''Power requires numeric values'' leftVal rightVal
      | BinOpConcat \<Rightarrow> Inr (Text (toString lib leftVal @ toString lib rightVal))
      | BinOpEqual \<Rightarrow> Inr (Boolean (comparePrimitives lib leftVal rightVal = 0))
      | BinOpNotEqual \<Rightarrow> Inr (Boolean (comparePrimitives lib leftVal rightVal \<noteq> 0))
      | BinOpLess \<Rightarrow> compare_op lib (\<lambda>cmp. cmp < 0) leftVal rightVal
      | BinOpLessEqual \<Rightarrow> compare_op lib (\<lambda>cmp. cmp \<le> 0) leftVal rightVal
      | BinOpGreater \<Rightarrow> compare_op lib (\<lambda>cmp. cmp > 0) leftVal rightVal
      | BinOpGreaterEqual \<Rightarrow> compare_op lib (\<lambda>cmp. cmp \<ge> 0) leftVal rightVal
      | BinOpModulo \<Rightarrow> Inl (NewSpreadsheetError ErrorCodeValue ''Unknown operator''))))"

definition UnaryOp_result :: "golib \<Rightarrow> UnaryOp \<Rightarrow> Primitive \<Rightarrow> SpreadsheetError + Primitive" where
  "UnaryOp_result lib op val =
     (case checkForError val of
        Some e \<Rightarrow> Inr (ErrorV e)
      | None \<Rightarrow>
          (case toNumber lib val of (num, ok) \<Rightarrow>
             (case op of
                UnaryOpPlus \<Rightarrow>
                  (if \<not> ok then Inl (NewSpreadsheetError ErrorCodeValue ''Unary plus requires a numeric value'')
                   else Inr (Number num))
              | UnaryOpMinus \<Rightarrow>
                  (if \<not> ok then Inl (NewSpreadsheetError ErrorCodeValue ''Negation requires a numeric value'')
                   else Inr (Number (f_neg num)))
              | UnaryOpPercent \<Rightarrow>
                  (if \<not> ok then Inl (NewSpreadsheetError ErrorCodeValue ''Percent requires a numeric value'')
                   else Inr (Number (f_div (fl lib) num (Fin 100)))))))"

section \<open>Worksheet and named-range tables\<close>

record WorksheetTable =
  nameToID :: "string \<rightharpoonup> nat"
  idToName :: "nat \<rightharpoonup> string"
  definedWorksheets :: "nat \<rightharpoonup> Worksheet"
  wt_undefinedIDs :: "nat set"
  wt_refCounts :: "nat \<rightharpoonup> int"
  wt_nextID :: nat

definition NewWorksheetTable :: WorksheetTable where
  "NewWorksheetTable = \<lparr>nameToID = Map.empty, idToName = Map.empty, definedWorksheets = Map.empty,
     wt_undefinedIDs = {}, wt_refCounts = Map.empty, wt_nextID = 1\<rparr>"

definition InternWorksheet :: "WorksheetTable \<Rightarrow> string \<Rightarrow> nat \<times> WorksheetTable" where
  "InternWorksheet wt name =
     (case nameToID wt name of
        Some i \<Rightarrow> (i, wt\<lparr>wt_refCounts := (wt_refCounts wt)(i \<mapsto> count_at (wt_refCounts wt) i + 1)\<rparr>)
      | None \<Rightarrow>
          (let i = wt_nextID wt in
           (i, wt\<lparr>nameToID := (nameToID wt)(name \<mapsto> i),
                  idToName := (idToName wt)(i \<mapsto> name),
                  wt_undefinedIDs := insert i (wt_undefinedIDs wt),
                  wt_refCounts := (wt_refCounts wt)(i \<mapsto> 1),
                  wt_nextID := (i + 1) mod 2 ^ 32\<rparr>)))"

definition DefineWorksheet :: "WorksheetTable \<Rightarrow> string \<Rightarrow> Worksheet \<Rightarrow> nat \<times> WorksheetTable" where
  "DefineWorksheet wt name w =
     (case nameToID wt name of
        Some i \<Rightarrow>
          (i, wt\<lparr>definedWorksheets := (definedWorksheets wt)(i \<mapsto> w\<lparr>ws_worksheetID := i\<rparr>),
                 wt_undefinedIDs := wt_undefinedIDs wt - {i},
                 wt_refCounts := (wt_refCounts wt)(i \<mapsto> count_at (wt_refCounts wt) i + 1)\<rparr>)
      | None \<Rightarrow>
          (let i = wt_nextID wt in
           (i, wt\<lparr>nameToID := (nameToID wt)(name \<mapsto> i),
                  idToName := (idToName wt)(i \<mapsto> name),
                  definedWorksheets := (definedWorksheets wt)(i \<mapsto> w\<lparr>ws_worksheetID := i\<rparr>),
                  wt_refCounts := (wt_refCounts wt)(i \<mapsto> 1),
                  wt_nextID := (i + 1) mod 2 ^ 32\<rparr>)))"

definition GetWorksheet :: "WorksheetTable \<Rightarrow> nat \<Rightarrow> Worksheet option" where
  "GetWorksheet wt i = definedWorksheets wt i"

definition GetWorksheetByName :: "WorksheetTable \<Rightarrow> string \<Rightarrow> Worksheet option" where
  "GetWorksheetByName wt name =
     (case nameToID wt name of None \<Rightarrow> None | Some i \<Rightarrow> GetWorksheet wt i)"

definition GetWorksheetID :: "WorksheetTable \<Rightarrow> string \<Rightarrow> nat" where
  "GetWorksheetID wt name = (case nameToID wt name of None \<Rightarrow> 0 | Some i \<Rightarrow> i)"

definition wt_Contains :: "WorksheetTable \<Rightarrow> string \<Rightarrow> bool" where
  "wt_Contains wt name = (nameToID wt name \<noteq> None)"

record NamedRangeTable =
  nr_nameToID :: "string \<rightharpoonup> nat"
  nr_idToName :: "nat \<rightharpoonup> string"
  definedRanges :: "nat \<rightharpoonup> RangeAddress"
  nr_undefinedIDs :: "nat set"
  nr_refCounts :: "nat \<rightharpoonup> int"
  nr_nextID :: nat

definition NewNamedRangeTable :: NamedRangeTable where
  "NewNamedRangeTable = \<lparr>nr_nameToID = Map.empty, nr_idToName = Map.empty,
     definedRanges = Map.empty, nr_undefinedIDs = {}, nr_refCounts = Map.empty, nr_nextID = 1\<rparr>"

definition InternNamedRange :: "NamedRangeTable \<Rightarrow> string \<Rightarrow> nat \<times> NamedRangeTable" where
  "InternNamedRange nrt name =
     (case nr_nameToID nrt name of
        Some i \<Rightarrow> (i, nrt\<lparr>nr_refCounts := (nr_refCounts nrt)(i \<mapsto> count_at (nr_refCounts nrt) i + 1)\<rparr>)
      | None \<Rightarrow>
          (let i = nr_nextID nrt in
           (i, nrt\<lparr>nr_nameToID := (nr_nameToID nrt)(name \<mapsto> i),
                   nr_idToName := (nr_idToName nrt)(i \<mapsto> name),
                   nr_undefinedIDs := insert i (nr_undefinedIDs nrt),
                   nr_refCounts := (nr_refCounts nrt)(i \<mapsto> 1),
                   nr_nextID := (i + 1) mod 2 ^ 32\<rparr>)))"

section \<open>The dependency graph (graph.go)\<close>

text \<open>
  A Go map that is iterated is a list of its keys (with their values), without
  duplicates; Go leaves the order of iteration unspecified, and a state of the model fixes
  one. A node's maps of precedents and dependents hold the addresses; the node pointers
  stored beside them are the graph's nodes at these addresses.
\<close>

definition key_insert :: "'a \<Rightarrow> 'a list \<Rightarrow> 'a list" where
  "key_insert x xs = (if x \<in> set xs then xs else xs @ [x])"

record DependencyNode =
  n_WorksheetID :: nat
  n_Row :: nat
  n_Col :: nat
  CellPrecedents :: "CellAddress list"
  CellDependents :: "CellAddress list"
  RangePrecedents :: "RangeAddress list"
  Formula :: string
  n_Value :: Primitive
  IsDirty :: bool

record DependencyGraph =
  nodes :: "(CellAddress \<times> DependencyNode) list"
  rangeObservers :: "(RangeAddress \<times> CellAddress list) list"
  dirtySet :: "CellAddress list"
  volatileCells :: "CellAddress list"

definition NewDependencyGraph :: DependencyGraph where
  "NewDependencyGraph = \<lparr>nodes = [], rangeObservers = [], dirtySet = [], volatileCells = []\<rparr>"

definition GetNode :: "DependencyGraph \<Rightarrow> CellAddress \<Rightarrow> DependencyNode option" where
  "GetNode dg addr = map_of (nodes dg) addr"

definition put_node :: "DependencyGraph \<Rightarrow> CellAddress \<Rightarrow> DependencyNode \<Rightarrow> DependencyGraph" where
  "put_node dg addr node = dg\<lparr>nodes := AList.update addr node (nodes dg)\<rparr>"

definition GetOrCreateNode :: "DependencyGraph \<Rightarrow> CellAddress \<Rightarrow> DependencyNode \<times> DependencyGraph" where
  "GetOrCreateNode dg addr =
     (case GetNode dg addr of
        Some node \<Rightarrow> (node, dg)
      | None \<Rightarrow>
          (let node = \<lparr>n_WorksheetID = WorksheetID addr, n_Row = Row addr, n_Col = Column addr,
                        CellPrecedents = [], CellDependents = [], RangePrecedents = [],
                        Formula = [], n_Value = Nil, IsDirty = False\<rparr>
           in (node, put_node dg addr node)))"

definition cleanupNodeIfEmpty :: "DependencyGraph \<Rightarrow> CellAddress \<Rightarrow> DependencyGraph" where
  "cleanupNodeIfEmpty dg addr =
     (case GetNode dg addr of
        None \<Rightarrow> dg
      | Some node \<Rightarrow>
          (if Formula node \<noteq> [] \<or> length (CellPrecedents node) > 0
              \<or> length (CellDependents node) > 0 \<or> length (RangePrecedents node) > 0
           then dg
           else dg\<lparr>nodes := AList.delete addr (nodes dg),
                   dirtySet := removeAll addr (dirtySet dg)\<rparr>))"

definition AddCellDependency :: "DependencyGraph \<Rightarrow> CellAddress \<Rightarrow> CellAddress \<Rightarrow> DependencyGraph" where
  "AddCellDependency dg0 from to =
     (let dg1 = snd (GetOrCreateNode dg0 from);
          dg2 = snd (GetOrCreateNode dg1 to);
          dg3 = (case GetNode dg2 from of
                   Some fromNode \<Rightarrow>
                     put_node dg2 from (fromNode\<lparr>CellPrecedents := key_insert to (CellPrecedents fromNode)\<rparr>)
                 | None \<Rightarrow> dg2)
      in case GetNode dg3 to of
           Some toNode \<Rightarrow>
             put_node dg3 to (toNode\<lparr>CellDependents := key_insert from (CellDependents toNode)\<rparr>)
         | None \<Rightarrow> dg3)"

definition RemoveCellDependency :: "DependencyGraph \<Rightarrow> CellAddress \<Rightarrow> CellAddress \<Rightarrow> DependencyGraph" where
  "RemoveCellDependency dg from to =
     (case GetNode dg from of
        None \<Rightarrow> dg
      | Some fromNode \<Rightarrow>
          (case GetNode dg to of
             None \<Rightarrow> dg
           | Some _ \<Rightarrow>
               (let dg1 = put_node dg from (fromNode\<lparr>CellPrecedents := removeAll to (CellPrecedents fromNode)\<rparr>);
                    dg2 = (case GetNode dg1 to of
                             Some toNode \<Rightarrow>
                               put_node dg1 to (toNode\<lparr>CellDependents := removeAll from (CellDependents toNode)\<rparr>)
                           | None \<Rightarrow> dg1)
                in cleanupNodeIfEmpty (cleanupNodeIfEmpty dg2 from) to)))"

definition observers_of :: "DependencyGraph \<Rightarrow> RangeAddress \<Rightarrow> CellAddress list option" where
  "observers_of dg rangeAddr = map_of (rangeObservers dg) rangeAddr"

definition remove_observer :: "DependencyGraph \<Rightarrow> RangeAddress \<Rightarrow> CellAddress \<Rightarrow> DependencyGraph" where
  "remove_observer dg rangeAddr addr =
     (case observers_of dg rangeAddr of
        None \<Rightarrow> dg
      | Some observers \<Rightarrow>
          (if length (removeAll addr observers) = 0
           then dg\<lparr>rangeObservers := AList.delete rangeAddr (rangeObservers dg)\<rparr>
           else dg\<lparr>rangeObservers := AList.update rangeAddr (removeAll addr observers) (rangeObservers dg)\<rparr>))"

definition AddRangeDependency :: "DependencyGraph \<Rightarrow> CellAddress \<Rightarrow> RangeAddress \<Rightarrow> DependencyGraph" where
  "AddRangeDependency dg0 from rangeAddr =
     (case GetOrCreateNode dg0 from of (node, dg1) \<Rightarrow>
        (let dg2 = put_node dg1 from (node\<lparr>RangePrecedents := key_insert rangeAddr (RangePrecedents node)\<rparr>);
             observers = (case observers_of dg2 rangeAddr of None \<Rightarrow> [] | Some os \<Rightarrow> os)
         in dg2\<lparr>rangeObservers := AList.update rangeAddr (key_insert from observers) (rangeObservers dg2)\<rparr>))"

definition RemoveRangeDependency :: "DependencyGraph \<Rightarrow> CellAddress \<Rightarrow> RangeAddress \<Rightarrow> DependencyGraph" where
  "RemoveRangeDependency dg from rangeAddr =
     (case GetNode dg from of
        None \<Rightarrow> dg
      | Some node \<Rightarrow>
          (let dg1 = put_node dg from (node\<lparr>RangePrecedents := removeAll rangeAddr (RangePrecedents node)\<rparr>)
           in cleanupNodeIfEmpty (remove_observer dg1 rangeAddr from) from))"

definition ClearDependencies :: "DependencyGraph \<Rightarrow> CellAddress \<Rightarrow> DependencyGraph" where
  "ClearDependencies dg addr =
     (case GetNode dg addr of
        None \<Rightarrow> dg
      | Some node \<Rightarrow>
          (let dg1 = foldl (\<lambda>g precedentAddr. RemoveCellDependency g addr precedentAddr) dg
                       (CellPrecedents node)
           in foldl (\<lambda>g rangeAddr. RemoveRangeDependency g addr rangeAddr) dg1
                (RangePrecedents node)))"

definition set_IsDirty :: "DependencyGraph \<Rightarrow> CellAddress \<Rightarrow> bool \<Rightarrow> DependencyGraph" where
  "set_IsDirty dg addr b =
     (case GetNode dg addr of
        Some node \<Rightarrow> put_node dg addr (node\<lparr>IsDirty := b\<rparr>)
      | None \<Rightarrow> dg)"

definition MarkDirty :: "DependencyGraph \<Rightarrow> CellAddress \<Rightarrow> DependencyGraph" where
  "MarkDirty dg addr = set_IsDirty (dg\<lparr>dirtySet := key_insert addr (dirtySet dg)\<rparr>) addr True"

definition IsInRange :: "CellAddress \<Rightarrow> RangeAddress \<Rightarrow> bool" where
  "IsInRange cell r =
     (WorksheetID cell = rWorksheetID r
      \<and> Row cell \<ge> StartRow r \<and> Row cell \<le> EndRow r
      \<and> Column cell \<ge> StartColumn r \<and> Column cell \<le> EndColumn r)"

definition MarkCellIfInRangeDirty :: "DependencyGraph \<Rightarrow> CellAddress \<Rightarrow> DependencyGraph" where
  "MarkCellIfInRangeDirty dg addr =
     foldl (\<lambda>g (rangeAddr, observers).
              if IsInRange addr rangeAddr then foldl MarkDirty g observers else g)
       dg (rangeObservers dg)"

definition ClearDirty :: "DependencyGraph \<Rightarrow> CellAddress \<Rightarrow> DependencyGraph" where
  "ClearDirty dg addr = set_IsDirty (dg\<lparr>dirtySet := removeAll addr (dirtySet dg)\<rparr>) addr False"

definition ClearAllDirty :: "DependencyGraph \<Rightarrow> DependencyGraph" where
  "ClearAllDirty dg =
     dg\<lparr>dirtySet := [], nodes := map (\<lambda>(addr, node). (addr, node\<lparr>IsDirty := False\<rparr>)) (nodes dg)\<rparr>"

definition GetDirectDependents :: "DependencyGraph \<Rightarrow> CellAddress \<Rightarrow> CellAddress list" where
  "GetDirectDependents dg addr = (case GetNode dg addr of None \<Rightarrow> [] | Some node \<Rightarrow> CellDependents node)"

definition GetDirectPrecedents :: "DependencyGraph \<Rightarrow> CellAddress \<Rightarrow> CellAddress list" where
  "GetDirectPrecedents dg addr = (case GetNode dg addr of None \<Rightarrow> [] | Some node \<Rightarrow> CellPrecedents node)"

definition GetRangePrecedents :: "DependencyGraph \<Rightarrow> CellAddress \<Rightarrow> RangeAddress list" where
  "GetRangePrecedents dg addr = (case GetNode dg addr of None \<Rightarrow> [] | Some node \<Rightarrow> RangePrecedents node)"

definition SetFormula :: "DependencyGraph \<Rightarrow> CellAddress \<Rightarrow> string \<Rightarrow> DependencyGraph" where
  "SetFormula dg addr formula =
     (case GetOrCreateNode dg addr of (node, dg1) \<Rightarrow> put_node dg1 addr (node\<lparr>Formula := formula\<rparr>))"

definition MarkVolatile :: "DependencyGraph \<Rightarrow> CellAddress \<Rightarrow> DependencyGraph" where
  "MarkVolatile dg addr = dg\<lparr>volatileCells := key_insert addr (volatileCells dg)\<rparr>"

definition UnmarkVolatile :: "DependencyGraph \<Rightarrow> CellAddress \<Rightarrow> DependencyGraph" where
  "UnmarkVolatile dg addr = dg\<lparr>volatileCells := removeAll addr (volatileCells dg)\<rparr>"

definition MarkAllVolatileDirty :: "DependencyGraph \<Rightarrow> DependencyGraph" where
  "MarkAllVolatileDirty dg = foldl MarkDirty dg (volatileCells dg)"

text \<open>
  \<open>RemoveNode\<close>: the node leaves its precedents' dependents (a precedent left empty is
  pruned), its dependents' precedents, the observers of its ranges, the dirty set, the
  volatile cells and the graph.
\<close>

definition RemoveNode :: "DependencyGraph \<Rightarrow> CellAddress \<Rightarrow> DependencyGraph" where
  "RemoveNode dg addr =
     (case GetNode dg addr of
        None \<Rightarrow> dg
      | Some node \<Rightarrow>
          (let dg1 = foldl (\<lambda>g precedentAddr.
                              cleanupNodeIfEmpty
                                (case GetNode g precedentAddr of
                                   Some p \<Rightarrow> put_node g precedentAddr
                                     (p\<lparr>CellDependents := removeAll addr (CellDependents p)\<rparr>)
                                 | None \<Rightarrow> g)
                                precedentAddr)
                       dg (CellPrecedents node);
               dg2 = foldl (\<lambda>g dependentAddr.
                              case GetNode g dependentAddr of
                                Some d \<Rightarrow> put_node g dependentAddr
                                  (d\<lparr>CellPrecedents := removeAll addr (CellPrecedents d)\<rparr>)
                              | None \<Rightarrow> g)
                       dg1 (CellDependents node);
               dg3 = foldl (\<lambda>g rangeAddr. remove_observer g rangeAddr addr) dg2 (RangePrecedents node)
           in dg3\<lparr>dirtySet := removeAll addr (dirtySet dg3),
                  volatileCells := removeAll addr (volatileCells dg3),
                  nodes := AList.delete addr (nodes dg3)\<rparr>))"

section \<open>The engine (sheet.go)\<close>

record CalculationStack =
  items :: "CellAddress list"
  processing :: "CellAddress set"
  completed :: "CellAddress set"

definition NewCalculationStack :: CalculationStack where
  "NewCalculationStack = \<lparr>items = [], processing = {}, completed = {}\<rparr>"

definition push :: "CalculationStack \<Rightarrow> CellAddress \<Rightarrow> CalculationStack" where
  "push cs addr = cs\<lparr>items := items cs @ [addr], processing := insert addr (processing cs)\<rparr>"

definition pop :: "CalculationStack \<Rightarrow> CalculationStack" where
  "pop cs =
     (if length (items cs) = 0 then cs
      else cs\<lparr>items := butlast (items cs), processing := processing cs - {last (items cs)}\<rparr>)"

definition isProcessing :: "CalculationStack \<Rightarrow> CellAddress \<Rightarrow> bool" where
  "isProcessing cs addr = (addr \<in> processing cs)"

definition markCompleted :: "CalculationStack \<Rightarrow> CellAddress \<Rightarrow> CalculationStack" where
  "markCompleted cs addr = cs\<lparr>completed := insert addr (completed cs)\<rparr>"

definition isCompleted :: "CalculationStack \<Rightarrow> CellAddress \<Rightarrow> bool" where
  "isCompleted cs addr = (addr \<in> completed cs)"

definition reset :: "CalculationStack \<Rightarrow> CalculationStack" where
  "reset cs = cs\<lparr>items := [], processing := {}, completed := {}\<rparr>"

text \<open>
  The spreadsheet with the tables of its \<open>Storage\<close>. The builtin functions, with their
  clock and random source, are part of the library parameter.
\<close>

record Spreadsheet =
  worksheets :: WorksheetTable
  namedRanges :: NamedRangeTable
  s_strings :: StringTable
  formulas :: FormulaTable
  dependencyGraph :: DependencyGraph
  calculationStack :: CalculationStack
  currentAddress :: CellAddress

definition NewSpreadsheet :: Spreadsheet where
  "NewSpreadsheet = \<lparr>worksheets = NewWorksheetTable, namedRanges = NewNamedRangeTable,
     s_strings = NewStringTable, formulas = NewFormulaTable, dependencyGraph = NewDependencyGraph,
     calculationStack = NewCalculationStack,
     currentAddress = \<lparr>WorksheetID = 0, Row = 0, Column = 0\<rparr>\<rparr>"

subsection \<open>Evaluation of a tree (the \<open>Eval\<close> methods)\<close>

definition err_to_value :: "SpreadsheetError + Primitive \<Rightarrow> Primitive" where
  "err_to_value r = (case r of Inl e \<Rightarrow> ErrorV e | Inr v \<Rightarrow> v)"

definition CellRefNode_Eval :: "Spreadsheet \<Rightarrow> nat \<Rightarrow> int \<Rightarrow> int \<Rightarrow> SpreadsheetError + Primitive" where
  "CellRefNode_Eval s w rowOffset colOffset =
     (let currentAddr = currentAddress s;
          targetRow = int (Row currentAddr) + rowOffset;
          targetCol = int (Column currentAddr) + colOffset
      in if targetRow < 0 \<or> targetCol < 0
         then Inl (NewSpreadsheetError ErrorCodeRef ''Invalid cell reference'')
         else
           (let worksheetID = (if w = 0 then WorksheetID currentAddr else w) in
            case GetWorksheet (worksheets s) worksheetID of
              None \<Rightarrow> Inl (NewSpreadsheetError ErrorCodeRef ''Worksheet not found'')
            | Some ws \<Rightarrow>
                (case GetCell ws (s_strings s) (nat targetRow) (nat targetCol) of
                   None \<Rightarrow> Inr Nil
                 | Some cell \<Rightarrow> Inr (Value cell))))"

definition RangeNode_Eval :: "Spreadsheet \<Rightarrow> nat \<Rightarrow> int \<Rightarrow> int \<Rightarrow> int \<Rightarrow> int \<Rightarrow> SpreadsheetError + Primitive" where
  "RangeNode_Eval s w startRowOffset startColOffset endRowOffset endColOffset =
     (let currentAddr = currentAddress s;
          sRow = int (Row currentAddr) + startRowOffset;
          sCol = int (Column currentAddr) + startColOffset;
          eRow = int (Row currentAddr) + endRowOffset;
          eCol = int (Column currentAddr) + endColOffset
      in if sRow < 0 \<or> sCol < 0 \<or> eRow < 0 \<or> eCol < 0
         then Inl (NewSpreadsheetError ErrorCodeRef ''Invalid range reference'')
         else
           (let worksheetID = (if w = 0 then WorksheetID currentAddr else w) in
            case GetWorksheet (worksheets s) worksheetID of
              None \<Rightarrow> Inl (NewSpreadsheetError ErrorCodeRef ''Worksheet not found'')
            | Some ws \<Rightarrow>
                Inr (RangeV \<lparr>cr_worksheetID = worksheetID,
                             startRow = nat (min sRow eRow), startCol = nat (min sCol eCol),
                             endRow = nat (max sRow eRow), endCol = nat (max sCol eCol),
                             worksheet = ws, cr_strings = s_strings s\<rparr>)))"

definition NamedRangeNode_Eval :: "Spreadsheet \<Rightarrow> string \<Rightarrow> SpreadsheetError + Primitive" where
  "NamedRangeNode_Eval s name =
     (case nr_nameToID (namedRanges s) name of
        None \<Rightarrow> Inl (NewSpreadsheetError ErrorCodeName (''Named range '' @ [CHR 0x27] @ name @ [CHR 0x27] @ '' not found''))
      | Some nameID \<Rightarrow>
          (case definedRanges (namedRanges s) nameID of
             None \<Rightarrow> Inl (NewSpreadsheetError ErrorCodeName
                            (''Named range '' @ [CHR 0x27] @ name @ [CHR 0x27] @ '' is not defined''))
           | Some rangeAddr \<Rightarrow>
               (case GetWorksheet (worksheets s) (rWorksheetID rangeAddr) of
                  None \<Rightarrow> Inl (NewSpreadsheetError ErrorCodeRef ''Worksheet not found for named range'')
                | Some ws \<Rightarrow>
                    Inr (RangeV \<lparr>cr_worksheetID = rWorksheetID rangeAddr,
                                 startRow = StartRow rangeAddr, startCol = StartColumn rangeAddr,
                                 endRow = EndRow rangeAddr, endCol = EndColumn rangeAddr,
                                 worksheet = ws, cr_strings = s_strings s\<rparr>))))"

fun Eval :: "golib \<Rightarrow> Spreadsheet \<Rightarrow> ASTNode \<Rightarrow> SpreadsheetError + Primitive" where
  "Eval lib s (StringNode v) = Inr (Text v)"
| "Eval lib s (NumberNode v) = Inr (Number v)"
| "Eval lib s (BooleanNode v) = Inr (Boolean v)"
| "Eval lib s (CellRefNode w r c) = CellRefNode_Eval s w r c"
| "Eval lib s (RangeNode w sr sc er ec) = RangeNode_Eval s w sr sc er ec"
| "Eval lib s (NamedRangeNode name) = NamedRangeNode_Eval s name"
| "Eval lib s (BinaryOpNode op l r) =
     BinaryOp_result lib op (err_to_value (Eval lib s l)) (err_to_value (Eval lib s r))"
| "Eval lib s (UnaryOpNode op x) = UnaryOp_result lib op (err_to_value (Eval lib s x))"
| "Eval lib s (FunctionCallNode name args) =
     Call lib name (map (\<lambda>argNode. err_to_value (Eval lib s argNode)) args)"

subsection \<open>Dependency extraction\<close>

definition isVolatileFunction :: "string \<Rightarrow> bool" where
  "isVolatileFunction name = (ToUpper name \<in> {''NOW'', ''TODAY'', ''RAND''})"

fun extractDependenciesRecursive :: "ASTNode \<Rightarrow> CellAddress \<Rightarrow> Spreadsheet \<Rightarrow> Spreadsheet" where
  "extractDependenciesRecursive (CellRefNode w rowOffset colOffset) cellAddr s =
     (let targetRow = int (Row cellAddr) + rowOffset; targetCol = int (Column cellAddr) + colOffset in
      if targetRow \<ge> 0 \<and> targetCol \<ge> 0
      then s\<lparr>dependencyGraph := AddCellDependency (dependencyGraph s) cellAddr
                \<lparr>WorksheetID = (if w = 0 then WorksheetID cellAddr else w),
                 Row = nat targetRow, Column = nat targetCol\<rparr>\<rparr>
      else s)"
| "extractDependenciesRecursive (RangeNode w sro sco ero eco) cellAddr s =
     (let sRow = int (Row cellAddr) + sro; sCol = int (Column cellAddr) + sco;
          eRow = int (Row cellAddr) + ero; eCol = int (Column cellAddr) + eco in
      if sRow \<ge> 0 \<and> sCol \<ge> 0 \<and> eRow \<ge> 0 \<and> eCol \<ge> 0
      then s\<lparr>dependencyGraph := AddRangeDependency (dependencyGraph s) cellAddr
                \<lparr>rWorksheetID = (if w = 0 then WorksheetID cellAddr else w),
                 StartRow = nat sRow, StartColumn = nat sCol, EndRow = nat eRow, EndColumn = nat eCol\<rparr>\<rparr>
      else s)"
| "extractDependenciesRecursive (BinaryOpNode op l r) cellAddr s =
     extractDependenciesRecursive r cellAddr (extractDependenciesRecursive l cellAddr s)"
| "extractDependenciesRecursive (UnaryOpNode op x) cellAddr s = extractDependenciesRecursive x cellAddr s"
| "extractDependenciesRecursive (FunctionCallNode name args) cellAddr s =
     foldl (\<lambda>s' arg. extractDependenciesRecursive arg cellAddr s')
       (if isVolatileFunction name
        then s\<lparr>dependencyGraph := MarkVolatile (dependencyGraph s) cellAddr\<rparr> else s)
       args"
| "extractDependenciesRecursive (NamedRangeNode name) cellAddr s =
     (case formulaAtCell (formulas s) cellAddr of
        None \<Rightarrow> s
      | Some formulaID \<Rightarrow>
          (case InternNamedRange (namedRanges s) name of (nameID, nrt) \<Rightarrow>
             s\<lparr>namedRanges := nrt,
               formulas := TrackNamedRangeReference (formulas s) formulaID nameID\<rparr>))"
| "extractDependenciesRecursive (StringNode v) cellAddr s = s"
| "extractDependenciesRecursive (NumberNode v) cellAddr s = s"
| "extractDependenciesRecursive (BooleanNode v) cellAddr s = s"

definition extractDependencies :: "ASTNode \<Rightarrow> CellAddress \<Rightarrow> Spreadsheet \<Rightarrow> Spreadsheet" where
  "extractDependencies node cellAddr s =
     extractDependenciesRecursive node cellAddr
       (s\<lparr>dependencyGraph := UnmarkVolatile (ClearDependencies (dependencyGraph s) cellAddr) cellAddr\<rparr>)"


subsection \<open>Recalculation\<close>

text \<open>
  \<open>worksheet.SetFormulaResult\<close> through the worksheet pointer that \<open>calculateCell\<close>
  holds: the worksheet of the cell in the table.
\<close>

definition store_result :: "Spreadsheet \<Rightarrow> CellAddress \<Rightarrow> Primitive \<Rightarrow> Spreadsheet" where
  "store_result s cellAddr v =
     (case GetWorksheet (worksheets s) (WorksheetID cellAddr) of
        None \<Rightarrow> s
      | Some ws \<Rightarrow>
          (case SetFormulaResult ws (s_strings s) (Row cellAddr) (Column cellAddr) v of (ws', st') \<Rightarrow>
             s\<lparr>worksheets := (worksheets s)\<lparr>definedWorksheets :=
                                (definedWorksheets (worksheets s))(WorksheetID cellAddr \<mapsto> ws')\<rparr>,
               s_strings := st'\<rparr>))"

definition clear_dirty :: "Spreadsheet \<Rightarrow> CellAddress \<Rightarrow> Spreadsheet" where
  "clear_dirty s cellAddr = s\<lparr>dependencyGraph := ClearDirty (dependencyGraph s) cellAddr\<rparr>"

definition is_dirty :: "Spreadsheet \<Rightarrow> CellAddress \<Rightarrow> bool" where
  "is_dirty s cellAddr = (cellAddr \<in> set (dirtySet (dependencyGraph s)))"

definition circularErr :: SpreadsheetError where
  "circularErr = NewSpreadsheetError ErrorCodeRef ''Circular reference detected''"

text \<open>
  The loop over the cell precedents: a precedent that reports an error of kind REF ends
  the loop with that error; \<open>f\<close> is the recursive call.
\<close>

fun precedents_loop ::
  "(CellAddress \<Rightarrow> Spreadsheet \<Rightarrow> (SpreadsheetError option \<times> Spreadsheet) option)
    \<Rightarrow> CellAddress list \<Rightarrow> Spreadsheet \<Rightarrow> (SpreadsheetError option \<times> Spreadsheet) option" where
  "precedents_loop f [] s = Some (None, s)"
| "precedents_loop f (precedent # ps) s =
     (case f precedent s of
        None \<Rightarrow> None
      | Some (None, s') \<Rightarrow> precedents_loop f ps s'
      | Some (Some e, s') \<Rightarrow>
          (if ErrorCode e = ErrorCodeRef then Some (Some e, s') else precedents_loop f ps s'))"

definition cells_of_range :: "RangeAddress \<Rightarrow> CellAddress list" where
  "cells_of_range r =
     concat (map (\<lambda>row. map (\<lambda>col. \<lparr>WorksheetID = rWorksheetID r, Row = row, Column = col\<rparr>)
                          [StartColumn r ..< Suc (EndColumn r)])
              [StartRow r ..< Suc (EndRow r)])"

text \<open>
  The loop over the cells of the range precedents: a cell that is dirty when its turn
  comes is calculated, and what it reports is ignored.
\<close>

fun range_cells_loop ::
  "(CellAddress \<Rightarrow> Spreadsheet \<Rightarrow> (SpreadsheetError option \<times> Spreadsheet) option)
    \<Rightarrow> CellAddress list \<Rightarrow> Spreadsheet \<Rightarrow> Spreadsheet option" where
  "range_cells_loop f [] s = Some s"
| "range_cells_loop f (rangeCell # cs) s =
     (if is_dirty s rangeCell
      then (case f rangeCell s of
              None \<Rightarrow> None
            | Some (err, s') \<Rightarrow> range_cells_loop f cs s')
      else range_cells_loop f cs s)"

text \<open>
  The end of \<open>calculateCell\<close>: the formula is evaluated by \<open>ev\<close> (the \<open>Eval\<close> method of
  the tree) with the cell as current address, and the result is stored. Only a result
  that is not an error clears the dirty flag and marks the direct dependents dirty.
\<close>

definition evaluate_and_store ::
  "(Spreadsheet \<Rightarrow> ASTNode \<Rightarrow> SpreadsheetError + Primitive) \<Rightarrow> ASTNode \<Rightarrow> CellAddress \<Rightarrow> Spreadsheet
    \<Rightarrow> Spreadsheet" where
  "evaluate_and_store ev ast cellAddr s0 =
     (let s = s0\<lparr>currentAddress := cellAddr\<rparr> in
      case ev s ast of
        Inl e \<Rightarrow> store_result s cellAddr (ErrorV e)
      | Inr (ErrorV e) \<Rightarrow> store_result s cellAddr (ErrorV e)
      | Inr v \<Rightarrow>
          (let s1 = store_result s cellAddr (if v = Nil then Number (Fin 0) else v);
               s2 = clear_dirty s1 cellAddr
           in s2\<lparr>dependencyGraph :=
                   foldl MarkDirty (dependencyGraph s2) (GetDirectDependents (dependencyGraph s2) cellAddr)\<rparr>))"

text \<open>
  \<open>calculateCell\<close>. The recursion of the source goes through the precedents and the
  dirty cells of the range precedents; in the model it is bounded by \<open>fuel\<close>, and
  \<open>None\<close> means that the fuel did not suffice. The result is the returned error, if
  any, and the new state. The deferred \<open>pop\<close> and \<open>markCompleted\<close> run on every return
  after the \<open>push\<close>.
\<close>

definition calculateCell_body ::
  "(Spreadsheet \<Rightarrow> ASTNode \<Rightarrow> SpreadsheetError + Primitive)
    \<Rightarrow> (CellAddress \<Rightarrow> Spreadsheet \<Rightarrow> (SpreadsheetError option \<times> Spreadsheet) option)
    \<Rightarrow> CellAddress \<Rightarrow> Spreadsheet \<Rightarrow> (SpreadsheetError option \<times> Spreadsheet) option" where
  "calculateCell_body ev f cellAddr s =
     (case GetWorksheet (worksheets s) (WorksheetID cellAddr) of
        None \<Rightarrow> Some (None, s)
      | Some ws \<Rightarrow>
          (case GetCell ws (s_strings s) (Row cellAddr) (Column cellAddr) of
             None \<Rightarrow> Some (None, clear_dirty s cellAddr)
           | Some cell \<Rightarrow>
               (if FormulaID cell = 0 then Some (None, clear_dirty s cellAddr)
                else
                  (case GetAST (formulas s) (FormulaID cell) of
                     None \<Rightarrow> Some (None, s)
                   | Some ast \<Rightarrow>
                       (if list_ex (IsInRange cellAddr) (GetRangePrecedents (dependencyGraph s) cellAddr)
                        then Some (Some circularErr,
                                   clear_dirty (store_result s cellAddr (ErrorV circularErr)) cellAddr)
                        else
                          (case precedents_loop f (GetDirectPrecedents (dependencyGraph s) cellAddr) s of
                             None \<Rightarrow> None
                           | Some (Some e, s1) \<Rightarrow>
                               Some (Some e, clear_dirty (store_result s1 cellAddr (ErrorV e)) cellAddr)
                           | Some (None, s1) \<Rightarrow>
                               (case range_cells_loop f
                                       (concat (map cells_of_range
                                          (GetRangePrecedents (dependencyGraph s1) cellAddr))) s1 of
                                  None \<Rightarrow> None
                                | Some s2 \<Rightarrow> Some (None, evaluate_and_store ev ast cellAddr s2))))))))"

definition finish :: "CellAddress \<Rightarrow> Spreadsheet \<Rightarrow> Spreadsheet" where
  "finish cellAddr s = s\<lparr>calculationStack := markCompleted (pop (calculationStack s)) cellAddr\<rparr>"

fun calculateCell ::
  "(Spreadsheet \<Rightarrow> ASTNode \<Rightarrow> SpreadsheetError + Primitive) \<Rightarrow> nat \<Rightarrow> CellAddress \<Rightarrow> Spreadsheet
    \<Rightarrow> (SpreadsheetError option \<times> Spreadsheet) option" where
  "calculateCell ev 0 cellAddr s = None"
| "calculateCell ev (Suc fuel) cellAddr s =
     (if isCompleted (calculationStack s) cellAddr then Some (None, s)
      else if isProcessing (calculationStack s) cellAddr then Some (Some circularErr, s)
      else
        (case calculateCell_body ev (calculateCell ev fuel) cellAddr
                (s\<lparr>calculationStack := push (calculationStack s) cellAddr\<rparr>) of
           None \<Rightarrow> None
         | Some (err, s') \<Rightarrow> Some (err, finish cellAddr s')))"

text \<open>
  One pass of \<open>Calculate\<close> over the sorted snapshot of the dirty set, and the loop that
  repeats it while a cell is dirty. The loop counts its iterations.
\<close>

fun Calculate_pass ::
  "(CellAddress \<Rightarrow> Spreadsheet \<Rightarrow> (SpreadsheetError option \<times> Spreadsheet) option)
    \<Rightarrow> CellAddress list \<Rightarrow> Spreadsheet \<Rightarrow> Spreadsheet option" where
  "Calculate_pass f [] s = Some s"
| "Calculate_pass f (cellAddr # cs) s =
     (if \<not> is_dirty s cellAddr then Calculate_pass f cs s
      else if isCompleted (calculationStack s) cellAddr
      then Calculate_pass f cs (clear_dirty s cellAddr)
      else (case f cellAddr s of
              None \<Rightarrow> None
            | Some (err, s') \<Rightarrow> Calculate_pass f cs s'))"

definition sorted_cells :: "CellAddress list \<Rightarrow> CellAddress list" where
  "sorted_cells cs = sort_key (\<lambda>a. (WorksheetID a, Row a, Column a)) cs"

fun Calculate_loop ::
  "(Spreadsheet \<Rightarrow> ASTNode \<Rightarrow> SpreadsheetError + Primitive) \<Rightarrow> nat \<Rightarrow> nat \<Rightarrow> nat \<Rightarrow> Spreadsheet
    \<Rightarrow> (nat \<times> Spreadsheet) option" where
  "Calculate_loop ev fuel 0 iterations s =
     (if length (dirtySet (dependencyGraph s)) > 0 then None else Some (iterations, s))"
| "Calculate_loop ev fuel (Suc n) iterations s =
     (if length (dirtySet (dependencyGraph s)) > 0
      then (case Calculate_pass (calculateCell ev fuel)
                   (sorted_cells (dirtySet (dependencyGraph s))) s of
              None \<Rightarrow> None
            | Some s' \<Rightarrow> Calculate_loop ev fuel n (Suc iterations) s')
      else Some (iterations, s))"

definition Calculate ::
  "(Spreadsheet \<Rightarrow> ASTNode \<Rightarrow> SpreadsheetError + Primitive) \<Rightarrow> nat \<Rightarrow> Spreadsheet
    \<Rightarrow> (nat \<times> Spreadsheet) option" where
  "Calculate ev fuel s =
     (case Calculate_loop ev fuel fuel 0
             (s\<lparr>dependencyGraph := MarkAllVolatileDirty (dependencyGraph s),
                calculationStack := reset (calculationStack s)\<rparr>) of
        None \<Rightarrow> None
      | Some (iterations, s') \<Rightarrow>
          Some (iterations, s'\<lparr>dependencyGraph := ClearAllDirty (dependencyGraph s')\<rparr>))"

subsection \<open>Get, Set and Remove\<close>

text \<open>
  The lexer and the parser are parameters: \<open>parseFullAddress\<close> is given the resolver of
  worksheet names and returns the worksheet id, row and column, or \<open>None\<close> for its
  error; \<open>parseFormula\<close> is \<open>Tokenize\<close> followed by \<open>Parse\<close> for the cell that will
  hold the formula, and returns the worksheet table too, since resolving a worksheet name
  that is not known interns it.
\<close>

datatype parse_outcome = LexErrors "string list" | ParseError string | Parsed ASTNode

record frontend =
  parseFullAddress :: "(string \<Rightarrow> nat) \<Rightarrow> string \<Rightarrow> (nat \<times> nat \<times> nat) option"
  parseFormula :: "string \<Rightarrow> CellAddress \<Rightarrow> WorksheetTable \<Rightarrow> parse_outcome \<times> WorksheetTable"

datatype AppErrorCode = OK | Unknown | InvalidArgument | NotFound | AlreadyExists
  | ResourceExhausted | FailedPrecondition | OutOfRange | Unimplemented | Internal

datatype AppError = NewApplicationError AppErrorCode string

definition resolveWorksheetByName :: "Spreadsheet \<Rightarrow> string \<Rightarrow> nat" where
  "resolveWorksheetByName s name =
     (case GetWorksheetByName (worksheets s) name of None \<Rightarrow> 0 | Some ws \<Rightarrow> ws_worksheetID ws)"

definition resolveAddress :: "frontend \<Rightarrow> Spreadsheet \<Rightarrow> string \<Rightarrow> AppError + (nat \<times> nat \<times> nat)" where
  "resolveAddress fe s address =
     (case parseFullAddress fe (resolveWorksheetByName s) address of
        None \<Rightarrow> Inl (NewApplicationError InvalidArgument ''Invalid address'')
      | Some a \<Rightarrow> Inr a)"

definition Get :: "frontend \<Rightarrow> Spreadsheet \<Rightarrow> string \<Rightarrow> AppError + Primitive" where
  "Get fe s address =
     (case resolveAddress fe s address of
        Inl err \<Rightarrow> Inl err
      | Inr (worksheetID, row, col) \<Rightarrow>
          (if worksheetID = 0 then Inr (ErrorV (NewSpreadsheetError ErrorCodeValue ''Worksheet not found''))
           else
             (case GetWorksheet (worksheets s) worksheetID of
                None \<Rightarrow> Inr Nil
              | Some ws \<Rightarrow>
                  (case GetCell ws (s_strings s) row col of
                     None \<Rightarrow> Inr Nil
                   | Some cell \<Rightarrow> Inr (Value cell)))))"

text \<open>\<open>worksheet.SetCell\<close> on the worksheet with the given id, written back to the table.\<close>

definition set_cell :: "golib \<Rightarrow> Spreadsheet \<Rightarrow> nat \<Rightarrow> nat \<Rightarrow> nat \<Rightarrow> Primitive \<Rightarrow> string \<Rightarrow> Spreadsheet" where
  "set_cell lib s worksheetID row col v formula =
     (case GetWorksheet (worksheets s) worksheetID of
        None \<Rightarrow> s
      | Some ws \<Rightarrow>
          (case SetCell (Sprint_float lib) ws (s_strings s) (formulas s) row col v formula of
             (ws', st', ft') \<Rightarrow>
               s\<lparr>worksheets := (worksheets s)\<lparr>definedWorksheets :=
                                  (definedWorksheets (worksheets s))(worksheetID \<mapsto> ws')\<rparr>,
                 s_strings := st', formulas := ft'\<rparr>))"

fun split_on :: "char \<Rightarrow> string \<Rightarrow> string list" where
  "split_on c [] = [[]]"
| "split_on c (x # xs) =
     (if x = c then [] # split_on c xs
      else (case split_on c xs of p # ps \<Rightarrow> (x # p) # ps | [] \<Rightarrow> [[x]]))"

fun index_of :: "char \<Rightarrow> string \<Rightarrow> nat option" where
  "index_of c [] = None"
| "index_of c (x # xs) = (if x = c then Some 0 else map_option Suc (index_of c xs))"

definition HasPrefix :: "string \<Rightarrow> string \<Rightarrow> bool" where
  "HasPrefix s pre = (take (length pre) s = pre)"

fun Contains :: "string \<Rightarrow> string \<Rightarrow> bool" where
  "Contains [] sub = (sub = [])"
| "Contains (x # xs) sub = (HasPrefix (x # xs) sub \<or> Contains xs sub)"

definition TrimPrefix :: "string \<Rightarrow> string \<Rightarrow> string" where
  "TrimPrefix s pre = (if HasPrefix s pre then drop (length pre) s else s)"

text \<open>
  The fallback of \<open>Set\<close> for an address that does not resolve but has a worksheet part:
  the worksheet is created if its name is unknown, and an error of kind REF is stored in
  its cell A1. Where the name is known but not defined the Go code dereferences a nil
  pointer; the model reports that as an internal error.
\<close>

definition Set_invalid_address :: "golib \<Rightarrow> Spreadsheet \<Rightarrow> string \<Rightarrow> AppError + Spreadsheet" where
  "Set_invalid_address lib s originalAddress =
     (case index_of CHR ''!'' originalAddress of
        None \<Rightarrow> Inl (NewApplicationError InvalidArgument ''Invalid address'')
      | Some exclamationIdx \<Rightarrow>
          (if exclamationIdx > 0 then
             (let worksheetName = take exclamationIdx originalAddress in
              if \<not> wt_Contains (worksheets s) worksheetName then
                (case DefineWorksheet (worksheets s) worksheetName (NewWorksheet 0) of
                   (worksheetID, wt) \<Rightarrow>
                     Inr (set_cell lib (s\<lparr>worksheets := wt\<rparr>) worksheetID 0 0
                            (ErrorV (NewSpreadsheetError ErrorCodeRef ''Invalid address format'')) []))
              else
                (case GetWorksheetByName (worksheets s) worksheetName of
                   None \<Rightarrow> Inl (NewApplicationError Internal ''nil pointer dereference'')
                 | Some ws \<Rightarrow>
                     (case GetWorksheet (worksheets s) (ws_worksheetID ws) of
                        None \<Rightarrow> Inl (NewApplicationError Internal ''nil pointer dereference'')
                      | Some _ \<Rightarrow>
                          Inr (set_cell lib s (ws_worksheetID ws) 0 0
                                 (ErrorV (NewSpreadsheetError ErrorCodeRef ''Invalid address format'')) []))))
           else Inl (NewApplicationError InvalidArgument ''Invalid address'')))"

text \<open>\<open>Set\<close> for a formula text, from the lexer on.\<close>

definition Set_formula :: "frontend \<Rightarrow> golib \<Rightarrow> Spreadsheet \<Rightarrow> CellAddress \<Rightarrow> string \<Rightarrow> Spreadsheet" where
  "Set_formula fe lib s0 cellAddr formula =
     (let worksheetID = WorksheetID cellAddr; row = Row cellAddr; col = Column cellAddr;
          currentID = (case GetWorksheet (worksheets s0) worksheetID of
                         Some ws \<Rightarrow> ws_worksheetID ws | None \<Rightarrow> worksheetID)
      in case parseFormula fe formula \<lparr>WorksheetID = currentID, Row = row, Column = col\<rparr> (worksheets s0) of
           (LexErrors lexErrors, wt) \<Rightarrow>
             (let errorMsg = join_with ''; '' lexErrors in
              if Contains errorMsg ''invalid range reference''
                 \<or> Contains errorMsg ''invalid cell reference after worksheet''
              then set_cell lib s0 worksheetID row col (ErrorV (NewSpreadsheetError ErrorCodeRef errorMsg)) []
              else set_cell lib s0 worksheetID row col (ErrorV (NewSpreadsheetError ErrorCodeValue errorMsg)) [])
         | (ParseError msg, wt) \<Rightarrow>
             (let s = s0\<lparr>worksheets := wt\<rparr> in
              if HasPrefix msg ''REF:''
              then set_cell lib s worksheetID row col
                     (ErrorV (NewSpreadsheetError ErrorCodeRef (TrimPrefix msg ''REF: ''))) []
              else set_cell lib s worksheetID row col (ErrorV (NewSpreadsheetError ErrorCodeValue msg)) [])
         | (Parsed ast, wt) \<Rightarrow>
             (let s = s0\<lparr>worksheets := wt\<rparr> in
              case InternFormula (Sprint_float lib) (formulas s) ast cellAddr of (formulaID, ft) \<Rightarrow>
              (let s1 = extractDependencies ast cellAddr (s\<lparr>formulas := ft\<rparr>);
                   s2 = s1\<lparr>dependencyGraph := SetFormula (dependencyGraph s1) cellAddr formula\<rparr>;
                   s3 = set_cell lib s2 worksheetID row col Nil formula;
                   s4 = (case GetWorksheet (worksheets s3) worksheetID of
                           None \<Rightarrow> s3
                         | Some ws \<Rightarrow>
                             (case getChunk ws (chunk_key row col) of (chunk, ws1) \<Rightarrow>
                                s3\<lparr>worksheets := (worksheets s3)\<lparr>definedWorksheets :=
                                     (definedWorksheets (worksheets s3))
                                       (worksheetID \<mapsto>
                                          ws1\<lparr>chunks := (chunks ws1)(chunk_key row col \<mapsto>
                                                 chunk\<lparr>FormulaIDs := Some ((alloc (FormulaIDs chunk) 0)
                                                          (chunk_index row col := formulaID))\<rparr>)\<rparr>)\<rparr>\<rparr>))
               in s4\<lparr>dependencyGraph := MarkDirty (dependencyGraph s4) cellAddr\<rparr>)))"

definition Set_value :: "golib \<Rightarrow> Spreadsheet \<Rightarrow> CellAddress \<Rightarrow> Primitive \<Rightarrow> Spreadsheet" where
  "Set_value lib s cellAddr v =
     (let s1 = s\<lparr>dependencyGraph := ClearDependencies (dependencyGraph s) cellAddr\<rparr>;
          s2 = set_cell lib s1 (WorksheetID cellAddr) (Row cellAddr) (Column cellAddr) v [];
          dg = MarkCellIfInRangeDirty (dependencyGraph s2) cellAddr
      in s2\<lparr>dependencyGraph := foldl MarkDirty dg (GetDirectDependents dg cellAddr)\<rparr>)"

definition is_formula_text :: "Primitive \<Rightarrow> bool" where
  "is_formula_text v = (case v of Text str \<Rightarrow> length str > 0 \<and> str ! 0 = CHR ''='' | _ \<Rightarrow> False)"

definition Set :: "frontend \<Rightarrow> golib \<Rightarrow> Spreadsheet \<Rightarrow> string \<Rightarrow> Primitive \<Rightarrow> AppError + Spreadsheet" where
  "Set fe lib s originalAddress v =
     (let address = (case split_on CHR ''!'' originalAddress of
                       [a, b, c] \<Rightarrow> b @ ''!'' @ c
                     | _ \<Rightarrow> originalAddress)
      in case resolveAddress fe s address of
           Inl err \<Rightarrow> Set_invalid_address lib s originalAddress
         | Inr (worksheetID, row, col) \<Rightarrow>
             (if worksheetID = 0
              then Inl (NewApplicationError InvalidArgument ''Cannot set cell on unknown worksheet'')
              else
                (case GetWorksheet (worksheets s) worksheetID of
                   None \<Rightarrow> Inl (NewApplicationError InvalidArgument ''Worksheet not found'')
                 | Some ws \<Rightarrow>
                     (let cellAddr = \<lparr>WorksheetID = worksheetID, Row = row, Column = col\<rparr> in
                      case v of
                        Text str \<Rightarrow>
                          (if is_formula_text v then Inr (Set_formula fe lib s cellAddr str)
                           else Inr (Set_value lib s cellAddr v))
                      | _ \<Rightarrow> Inr (Set_value lib s cellAddr v)))))"

definition Remove :: "frontend \<Rightarrow> golib \<Rightarrow> Spreadsheet \<Rightarrow> string \<Rightarrow> AppError + Spreadsheet" where
  "Remove fe lib s address =
     (case resolveAddress fe s address of
        Inl err \<Rightarrow> Inl err
      | Inr (worksheetID, row, col) \<Rightarrow>
          (if worksheetID = 0 then Inr s
           else
             (case GetWorksheet (worksheets s) worksheetID of
                None \<Rightarrow> Inr s
              | Some ws \<Rightarrow>
                  (let cellAddr = \<lparr>WorksheetID = worksheetID, Row = row, Column = col\<rparr>;
                       dependents = GetDirectDependents (dependencyGraph s) cellAddr;
                       dg1 = ClearDependencies (dependencyGraph s) cellAddr
                   in case RemoveCell (Sprint_float lib) ws (s_strings s) (formulas s) row col of
                        (ws', st', ft') \<Rightarrow>
                          (let dg2 = MarkCellIfInRangeDirty dg1 cellAddr;
                               dg3 = foldl MarkDirty dg2 dependents
                           in Inr (s\<lparr>worksheets := (worksheets s)\<lparr>definedWorksheets :=
                                         (definedWorksheets (worksheets s))(worksheetID \<mapsto> ws')\<rparr>,
                                      s_strings := st', formulas := ft',
                                      dependencyGraph := RemoveNode dg3 cellAddr\<rparr>))))))"

definition AddWorksheet :: "Spreadsheet \<Rightarrow> string \<Rightarrow> AppError + Spreadsheet" where
  "AddWorksheet s name =
     (if wt_Contains (worksheets s) name
      then Inl (NewApplicationError AlreadyExists ''Worksheet already exists'')
      else Inr (s\<lparr>worksheets := snd (DefineWorksheet (worksheets s) name (NewWorksheet 0))\<rparr>))"


subsection \<open>Cell addresses (the parser's \<open>parseCellAddress\<close>)\<close>

text \<open>
  \<open>parseCellAddress\<close> turns a text such as \<open>A1\<close> into the column and the row, both from
  0. The column is computed in \<open>int32\<close>, which wraps around; \<open>resolveAddress\<close> converts it
  to \<open>uint32\<close>, and that is the number returned here. \<open>ParseInt32\<close> is
  \<open>strconv.ParseInt(s, 10, 32)\<close>: an optional sign, decimal digits, and a value that fits
  32 bits.
\<close>

definition is_digit :: "char \<Rightarrow> bool" where
  "is_digit c = (CHR ''0'' \<le> c \<and> c \<le> CHR ''9'')"

definition digits_value :: "string \<Rightarrow> nat" where
  "digits_value s = foldl (\<lambda>n c. 10 * n + (of_char c - 48)) 0 s"

definition is_letter :: "char \<Rightarrow> bool" where
  "is_letter ch = (CHR ''A'' \<le> ch \<and> ch \<le> CHR ''Z'' \<or> CHR ''a'' \<le> ch \<and> ch \<le> CHR ''z'')"

fun column_loop :: "32 word \<Rightarrow> string \<Rightarrow> 32 word" where
  "column_loop col [] = col"
| "column_loop col (ch # rest) =
     column_loop (col * 26 + (of_char ch - 65) + (if rest = [] then 0 else 1)) rest"

definition ParseInt32 :: "string \<Rightarrow> int option" where
  "ParseInt32 s =
     (let neg = (s \<noteq> [] \<and> hd s = CHR ''-'');
          ds = (if s \<noteq> [] \<and> (hd s = CHR ''+'' \<or> hd s = CHR ''-'') then tl s else s)
      in if ds = [] \<or> \<not> list_all is_digit ds then None
         else
           (let v = (if neg then - int (digits_value ds) else int (digits_value ds)) in
            if v < - (2 ^ 31) \<or> v > 2 ^ 31 - 1 then None else Some v))"

definition parseCellAddress :: "string \<Rightarrow> (nat \<times> nat) option" where
  "parseCellAddress cell =
     (if length cell < 2 then None
      else
        (let letterEnd = length (takeWhile is_letter cell) in
         if letterEnd = 0 \<or> letterEnd = length cell then None
         else
           (let col = unat (column_loop 0 (ToUpper (take letterEnd cell))) in
            case ParseInt32 (drop letterEnd cell) of
              None \<Rightarrow> None
            | Some rowNum \<Rightarrow> if rowNum < 1 then None else Some (col, nat (rowNum - 1)))))"


section \<open>Notions used to state the properties\<close>

definition is_range :: "Primitive \<Rightarrow> bool" where
  "is_range v = (case v of RangeV r \<Rightarrow> True | _ \<Rightarrow> False)"

definition is_number :: "Primitive \<Rightarrow> bool" where
  "is_number v = (case v of Number x \<Rightarrow> True | _ \<Rightarrow> False)"

definition countable :: "Primitive \<Rightarrow> bool" where
  "countable v = (case v of Number x \<Rightarrow> True | Boolean b \<Rightarrow> True | Text s \<Rightarrow> True | _ \<Rightarrow> False)"

text \<open>
  The values a call receives, in the order in which it meets them: an argument that is a
  range stands for the values of its cells. The second form leaves out the empty cells of
  ranges, as \<open>AVERAGE\<close> does.
\<close>

definition argument_values :: "Primitive list \<Rightarrow> Primitive list" where
  "argument_values args = concat (map (\<lambda>a. case a of RangeV r \<Rightarrow> IterateValues r | _ \<Rightarrow> [a]) args)"

definition argument_values_nonempty :: "Primitive list \<Rightarrow> Primitive list" where
  "argument_values_nonempty args =
     concat (map (\<lambda>a. case a of RangeV r \<Rightarrow> filter (\<lambda>v. v \<noteq> Nil) (IterateValues r) | _ \<Rightarrow> [a]) args)"

definition direct_values :: "Primitive list \<Rightarrow> Primitive list" where
  "direct_values args = filter (\<lambda>a. \<not> is_range a) args"

definition range_values :: "Primitive list \<Rightarrow> Primitive list" where
  "range_values args = concat (map (\<lambda>a. case a of RangeV r \<Rightarrow> IterateValues r | _ \<Rightarrow> []) args)"

fun first_error :: "Primitive list \<Rightarrow> SpreadsheetError option" where
  "first_error [] = None"
| "first_error (v # vs) = (case v of ErrorV e \<Rightarrow> Some e | _ \<Rightarrow> first_error vs)"

text \<open>
  The number a value stands for in an aggregation, in the words of the properties: a
  number is itself, a boolean is 1 or 0, a text is the number it parses to, if any, the
  empty value is 0, and an error or a range is no number. The numeric values of a list
  are the numbers its values stand for, NaN left out.
\<close>

definition as_number :: "golib \<Rightarrow> Primitive \<Rightarrow> float64 option" where
  "as_number lib v =
     (case v of
        Number x \<Rightarrow> Some x
      | Boolean b \<Rightarrow> Some (if b then Fin 1 else Fin 0)
      | Text t \<Rightarrow> ParseFloat lib t
      | Nil \<Rightarrow> Some (Fin 0)
      | _ \<Rightarrow> None)"

definition numeric_values :: "golib \<Rightarrow> Primitive list \<Rightarrow> float64 list" where
  "numeric_values lib vs = filter (\<lambda>x. x \<noteq> NaN) (List.map_filter (as_number lib) vs)"

definition larger :: "float64 \<Rightarrow> float64 \<Rightarrow> float64" where
  "larger m n = (if f_gt n m then n else m)"

definition smaller :: "float64 \<Rightarrow> float64 \<Rightarrow> float64" where
  "smaller m n = (if f_lt n m then n else m)"

text \<open>
  The comparison as the specification words it: numeric if both sides coerce, otherwise
  boolean against boolean with \<open>FALSE < TRUE\<close>, otherwise lexical over the texts; and the
  same with the empty value put first.
\<close>

definition three_way :: "('a \<Rightarrow> 'a \<Rightarrow> bool) \<Rightarrow> 'a \<Rightarrow> 'a \<Rightarrow> int" where
  "three_way lt a b = (if lt a b then - 1 else if lt b a then 1 else 0)"

definition spec_compare :: "golib \<Rightarrow> Primitive \<Rightarrow> Primitive \<Rightarrow> int" where
  "spec_compare lib l r =
     (if snd (toNumber lib l) \<and> snd (toNumber lib r)
      then three_way f_lt (fst (toNumber lib l)) (fst (toNumber lib r))
      else (case (l, r) of
              (Boolean a, Boolean b) \<Rightarrow> three_way (\<lambda>x y. \<not> x \<and> y) a b
            | _ \<Rightarrow> three_way (\<lambda>x y. x < y) (toString lib l) (toString lib r)))"

definition compare_with_empty :: "golib \<Rightarrow> Primitive \<Rightarrow> Primitive \<Rightarrow> int" where
  "compare_with_empty lib l r =
     (if l = Nil \<and> r = Nil then 0
      else if l = Nil then - 1
      else if r = Nil then 1
      else spec_compare lib l r)"




text \<open>
  What \<open>Get\<close> reads at a cell, and the count of occupied cells that a worksheet keeps
  for the chunk under a key, if it holds one.
\<close>

definition stored_value :: "Spreadsheet \<Rightarrow> CellAddress \<Rightarrow> Primitive option" where
  "stored_value s c =
     (case GetWorksheet (worksheets s) (WorksheetID c) of
        None \<Rightarrow> None
      | Some ws \<Rightarrow> map_option Value (GetCell ws (s_strings s) (Row c) (Column c)))"

definition occupied_count :: "Spreadsheet \<Rightarrow> nat \<Rightarrow> nat \<times> nat \<Rightarrow> int option" where
  "occupied_count s worksheetID key =
     (case GetWorksheet (worksheets s) worksheetID of
        None \<Rightarrow> None
      | Some ws \<Rightarrow> map_option NonEmptyCount (chunks ws key))"

text \<open>
  The cells that a dependency graph knows: the dirty and the volatile cells, the cells
  with a node, and their precedents and dependents. The longest dependency chain is
  counted in cells: a cell, one of its precedents, one of the precedents of that one, and
  so on (the bound \<open>n\<close> of \<open>chain_from\<close> is the number of nodes, which no chain without
  a cycle exceeds).
\<close>

definition known_cells :: "DependencyGraph \<Rightarrow> CellAddress list" where
  "known_cells dg =
     dirtySet dg @ volatileCells dg
     @ concat (map (\<lambda>(a, n). a # CellPrecedents n @ CellDependents n) (nodes dg))"

fun chain_from :: "DependencyGraph \<Rightarrow> nat \<Rightarrow> CellAddress \<Rightarrow> nat" where
  "chain_from dg 0 c = 0"
| "chain_from dg (Suc n) c = Suc (foldr max (map (chain_from dg n) (GetDirectPrecedents dg c)) 0)"

definition longest_chain :: "DependencyGraph \<Rightarrow> nat" where
  "longest_chain dg = foldr max (map (chain_from dg (length (nodes dg))) (map fst (nodes dg))) 0"

text \<open>
  For the proof that the recalculation ends: the links of the graph, which the
  recalculation leaves as they are, a set of cells that holds the ends of all links, the
  invariant that the links are the given ones and the dirty cells are in the set, and
  what is expected of a call of \<open>calculateCell\<close> while the cells \<open>P\<close> are being processed
  and the cells \<open>C\<close> are completed.
\<close>

type_synonym link = "CellAddress \<times> CellAddress list \<times> CellAddress list \<times> RangeAddress list"

definition links :: "DependencyGraph \<Rightarrow> link list" where
  "links dg = map (\<lambda>(a, n). (a, CellPrecedents n, CellDependents n, RangePrecedents n)) (nodes dg)"

definition closed_links :: "CellAddress set \<Rightarrow> link list \<Rightarrow> bool" where
  "closed_links U L = (\<forall>(a, ps, ds, rs) \<in> set L. set ps \<subseteq> U \<and> set ds \<subseteq> U)"

definition calc_inv :: "CellAddress set \<Rightarrow> link list \<Rightarrow> Spreadsheet \<Rightarrow> bool" where
  "calc_inv U L s = (links (dependencyGraph s) = L \<and> set (dirtySet (dependencyGraph s)) \<subseteq> U)"

definition step_ok ::
  "CellAddress set \<Rightarrow> link list \<Rightarrow> CellAddress set \<Rightarrow> CellAddress set
    \<Rightarrow> (CellAddress \<Rightarrow> Spreadsheet \<Rightarrow> (SpreadsheetError option \<times> Spreadsheet) option) \<Rightarrow> bool" where
  "step_ok U L P C f =
     (\<forall>c s. calc_inv U L s \<and> c \<in> U \<and> processing (calculationStack s) = P
            \<and> C \<subseteq> completed (calculationStack s) \<longrightarrow>
        (\<exists>err s'. f c s = Some (err, s') \<and> calc_inv U L s'
            \<and> completed (calculationStack s) \<subseteq> completed (calculationStack s')
            \<and> processing (calculationStack s') = P
            \<and> items (calculationStack s') = items (calculationStack s)
            \<and> (c \<in> completed (calculationStack s') \<or> c \<in> P)))"


text \<open>
  The names and the ids of the worksheets, on which the resolution of an address depends.
\<close>

definition sheet_ids :: "Spreadsheet \<Rightarrow> (string \<rightharpoonup> nat) \<times> (nat \<rightharpoonup> nat)" where
  "sheet_ids s =
     (nameToID (worksheets s), \<lambda>w. map_option ws_worksheetID (definedWorksheets (worksheets s) w))"

section \<open>Concrete inputs for the examples\<close>

text \<open>
  A library instance for running the model on examples: a string of decimal digits parses
  to its value and nothing else parses; a whole number prints in decimal; the rounding
  leaves every result as it is. On the inputs of the examples below (whole numbers of a
  few digits, their sums and halves, and texts with letters) Go gives the same results.
\<close>

definition parse_digits :: "string \<Rightarrow> float64 option" where
  "parse_digits s = (if s \<noteq> [] \<and> list_all is_digit s then Some (Fin (real (digits_value s))) else None)"

definition sprint_whole :: "float64 \<Rightarrow> string" where
  "sprint_whole v = (if v = float64_of_int (int_of_float64 v) then show_int (int_of_float64 v) else [])"

definition example_lib :: golib where
  "example_lib = \<lparr>fl = Fin, ParseFloat = parse_digits, Sprint_float = sprint_whole,
     Sprint_range = (\<lambda>r. []), round15f = (\<lambda>x. x), Pow = (\<lambda>x y. NaN),
     other_builtin = (\<lambda>n args. Inl (NewSpreadsheetError ErrorCodeOther []))\<rparr>"

definition set_column :: "Worksheet \<times> StringTable \<times> FormulaTable \<Rightarrow> nat \<times> Primitive
    \<Rightarrow> Worksheet \<times> StringTable \<times> FormulaTable" where
  "set_column s rv = (case s of (w, st, ft) \<Rightarrow> SetCell sprint_whole w st ft (fst rv) 0 (snd rv) [])"

definition column_range :: "Primitive list \<Rightarrow> CellRange" where
  "column_range vs =
     (let s = foldl set_column (NewWorksheet 1, NewStringTable, NewFormulaTable)
                (zip [0 ..< length vs] vs)
      in \<lparr>cr_worksheetID = 1, startRow = 0, startCol = 0, endRow = length vs - 1, endCol = 0,
          worksheet = fst s, cr_strings = fst (snd s)\<rparr>)"

text \<open>
  The range \<open>A1:A5\<close> of the test "Median with mixed types": 1, "text", 3, TRUE, 5.
\<close>

definition median_range :: CellRange where
  "median_range = column_range [Number (Fin 1), Text ''text'', Number (Fin 3), Boolean True,
     Number (Fin 5)]"

text \<open>
  A range of four cells: TRUE, the text "2", an empty cell, and 3.
\<close>

definition mixed_range :: CellRange where
  "mixed_range = column_range [Boolean True, Text ''2'', Nil, Number (Fin 3)]"

definition text_range :: CellRange where
  "text_range = column_range [Text ''text'', Text ''abc'']"

definition empty_range :: CellRange where
  "empty_range = column_range [Nil, Nil]"

definition div0_error :: SpreadsheetError where
  "div0_error = \<lparr>ErrorCode = ErrorCodeDiv0, Message = ''Division by zero''\<rparr>"

text \<open>
  A front end for the examples. An address is a cell with or without a worksheet name
  before \<open>!\<close>, as in the branch of \<open>parseFullAddress\<close> for a cell token. A formula is looked
  up in a table of the trees that the parser builds for the formulas of the examples;
  \<open>ref_node\<close> and \<open>range_node\<close> hold the offsets from the cell of the formula, as
  \<open>parseCellReference\<close> and \<open>parseRange\<close> compute them.
\<close>

definition example_parseFullAddress :: "(string \<Rightarrow> nat) \<Rightarrow> string \<Rightarrow> (nat \<times> nat \<times> nat) option" where
  "example_parseFullAddress resolve address =
     (case split_on CHR ''!'' address of
        [cellStr] \<Rightarrow> map_option (\<lambda>(col, row). (0, row, col)) (parseCellAddress cellStr)
      | [worksheetName, cellStr] \<Rightarrow>
          map_option (\<lambda>(col, row). (resolve worksheetName, row, col)) (parseCellAddress cellStr)
      | _ \<Rightarrow> None)"

definition ref_node :: "CellAddress \<Rightarrow> nat \<Rightarrow> nat \<Rightarrow> ASTNode" where
  "ref_node ctx row col =
     CellRefNode (WorksheetID ctx) (int row - int (Row ctx)) (int col - int (Column ctx))"

definition range_node :: "CellAddress \<Rightarrow> nat \<Rightarrow> nat \<Rightarrow> nat \<Rightarrow> nat \<Rightarrow> ASTNode" where
  "range_node ctx row1 col1 row2 col2 =
     RangeNode (WorksheetID ctx) (int row1 - int (Row ctx)) (int col1 - int (Column ctx))
       (int row2 - int (Row ctx)) (int col2 - int (Column ctx))"

definition example_tree :: "string \<Rightarrow> CellAddress \<Rightarrow> parse_outcome" where
  "example_tree formula ctx =
     (if formula = ''=1'' then Parsed (NumberNode (Fin 1))
      else if formula = ''=A1'' then Parsed (ref_node ctx 0 0)
      else if formula = ''=B1'' then Parsed (ref_node ctx 0 1)
      else if formula = ''=C1'' then Parsed (ref_node ctx 0 2)
      else if formula = ''=A1+B1'' then Parsed (BinaryOpNode BinOpAdd (ref_node ctx 0 0) (ref_node ctx 0 1))
      else if formula = ''=B1+C1'' then Parsed (BinaryOpNode BinOpAdd (ref_node ctx 0 1) (ref_node ctx 0 2))
      else if formula = ''=C1+D1'' then Parsed (BinaryOpNode BinOpAdd (ref_node ctx 0 2) (ref_node ctx 0 3))
      else if formula = ''=D1'' then Parsed (ref_node ctx 0 3)
      else if formula = ''=IF(TRUE,1,A1)''
        then Parsed (FunctionCallNode ''IF'' [BooleanNode True, NumberNode (Fin 1), ref_node ctx 0 0])
      else if formula = ''=SUM(A1:A3)'' then Parsed (FunctionCallNode ''SUM'' [range_node ctx 0 0 2 0])
      else ParseError ''formula outside the examples'')"

definition example_frontend :: frontend where
  "example_frontend =
     \<lparr>parseFullAddress = example_parseFullAddress,
      parseFormula = (\<lambda>formula ctx wt. (example_tree formula ctx, wt))\<rparr>"

text \<open>A spreadsheet with the worksheet \<open>Sheet1\<close>, and a sequence of calls of \<open>Set\<close>.\<close>

definition example_sheet :: Spreadsheet where
  "example_sheet = (case AddWorksheet NewSpreadsheet ''Sheet1'' of Inr s \<Rightarrow> s | Inl e \<Rightarrow> NewSpreadsheet)"

definition set_all :: "Spreadsheet \<Rightarrow> (string \<times> Primitive) list \<Rightarrow> Spreadsheet" where
  "set_all s0 entries =
     foldl (\<lambda>s (address, v). case Set example_frontend example_lib s address v of
                                 Inr s' \<Rightarrow> s' | Inl e \<Rightarrow> s) s0 entries"

text \<open>
  The step of \<open>Set\<close> for a formula text, and for a value, at a cell of the worksheet
  \<open>Sheet1\<close>, whose id is 1: what \<open>Set\<close> does once the address is resolved. The state
  after \<open>Calculate\<close>, run with the fuel 5.
\<close>

definition set_formula_at :: "Spreadsheet \<Rightarrow> nat \<times> nat \<times> string \<Rightarrow> Spreadsheet" where
  "set_formula_at s e =
     Set_formula example_frontend example_lib s
       \<lparr>WorksheetID = 1, Row = fst e, Column = fst (snd e)\<rparr> (snd (snd e))"

definition set_value_at :: "Spreadsheet \<Rightarrow> nat \<times> nat \<times> Primitive \<Rightarrow> Spreadsheet" where
  "set_value_at s e =
     Set_value example_lib s \<lparr>WorksheetID = 1, Row = fst e, Column = fst (snd e)\<rparr> (snd (snd e))"

definition recalculated :: "Spreadsheet \<Rightarrow> Spreadsheet" where
  "recalculated s =
     (case Calculate (Eval example_lib) (Suc (Suc (Suc (Suc (Suc 0))))) s of
        Some (n, s') \<Rightarrow> s' | None \<Rightarrow> s)"


text \<open>\<open>A1\<close> refers to \<open>B1\<close> and \<open>C1\<close>, and each of them refers back to \<open>A1\<close>.\<close>

definition two_cycles :: Spreadsheet where
  "two_cycles = set_all example_sheet
     [(''Sheet1!A1'', Text ''=B1+C1''), (''Sheet1!B1'', Text ''=IF(TRUE,1,A1)''),
      (''Sheet1!C1'', Text ''=IF(TRUE,1,A1)'')]"

text \<open>
  \<open>A1\<close> holds 10 and \<open>B1\<close>, \<open>C1\<close>, \<open>D1\<close> the formula \<open>=1\<close>; \<open>B2\<close>, \<open>C2\<close>, \<open>D2\<close> add
  two neighbours of the first row and \<open>E2\<close> refers to \<open>D1\<close>. No chain of references has
  more than two cells. After a recalculation, \<open>A1\<close> is set to 20.
\<close>

definition wide_sheet :: Spreadsheet where
  "wide_sheet = set_all example_sheet
     [(''Sheet1!A1'', Number (Fin 10)),
      (''Sheet1!B1'', Text ''=1''), (''Sheet1!C1'', Text ''=1''), (''Sheet1!D1'', Text ''=1''),
      (''Sheet1!B2'', Text ''=A1+B1''), (''Sheet1!C2'', Text ''=B1+C1''),
      (''Sheet1!D2'', Text ''=C1+D1''), (''Sheet1!E2'', Text ''=D1'')]"

definition wide_sheet_edited :: Spreadsheet where
  "wide_sheet_edited = set_all (recalculated wide_sheet) [(''Sheet1!A1'', Number (Fin 20))]"


section \<open>Evaluating the examples\<close>

lemmas store_defs = SetCell_def getChunk_def chunk_key_def chunk_index_def ChunkRows_def ChunkCols_def
  ChunkSize_def NewChunk_def NewWorksheet_def clear_formula_def read_array_def store_value_def
  update_stats_def update_bitmap_def alloc_def Intern_def NewStringTable_def CellType_defs
  GetCell_def GetCell_value_def GetCell_result_def formula_id_at_def GetString_def Let_def

lemma IterateValues_median_range:
  "IterateValues median_range =
     [Number (Fin 1), Text ''text'', Number (Fin 3), Boolean True, Number (Fin 5)]"
  by (simp add: IterateValues_def median_range_def column_range_def set_column_def store_defs
      upt_rec)

lemma IterateValues_mixed_range:
  "IterateValues mixed_range = [Boolean True, Text ''2'', Nil, Number (Fin 3)]"
  by (simp add: IterateValues_def mixed_range_def column_range_def set_column_def store_defs
      upt_rec)

lemma IterateValues_text_range: "IterateValues text_range = [Text ''text'', Text ''abc'']"
  by (simp add: IterateValues_def text_range_def column_range_def set_column_def store_defs
      upt_rec)

lemma IterateValues_empty_range: "IterateValues empty_range = [Nil, Nil]"
  by (simp add: IterateValues_def empty_range_def column_range_def set_column_def store_defs
      upt_rec)

lemma parse_digits_2: "parse_digits ''2'' = Some (Fin 2)"
  by (simp add: parse_digits_def is_digit_def digits_value_def)

lemma parse_digits_text [simp]:
  "parse_digits ''text'' = None" "parse_digits ''abc'' = None" "parse_digits ''x'' = None"
  by (simp_all add: parse_digits_def is_digit_def)

section \<open>Values of ranges\<close>

lemma GetCell_value_not_range:
  "\<not> is_range (Value cell) \<Longrightarrow> \<not> is_range (Value (GetCell_value st chunk idx cell))"
  by (auto simp: GetCell_value_def is_range_def split: option.splits)

lemma GetCell_result_not_range:
  "\<not> is_range (Value cell) \<Longrightarrow> \<not> is_range (Value (GetCell_result st chunk idx cell))"
  by (auto simp: GetCell_result_def is_range_def Let_def split: option.splits)

lemma GetCell_not_range:
  assumes "GetCell w st row col = Some cell"
  shows "\<not> is_range (Value cell)"
proof -
  obtain chunk where c: "chunks w (chunk_key row col) = Some chunk"
    using assms by (auto simp: GetCell_def split: option.splits)
  let ?idx = "chunk_index row col"
  let ?c0 = "\<lparr>Type = Types chunk ?idx, cell_Row = row, cell_Col = col, Value = Nil,
                    StringID = 0, FormulaID = 0, FormulaResultType = 0\<rparr>"
  have v: "\<not> is_range (Value (GetCell_value st chunk ?idx ?c0))"
    by (rule GetCell_value_not_range) (simp add: is_range_def)
  then have "\<not> is_range (Value (GetCell_result st chunk ?idx
       ((GetCell_value st chunk ?idx ?c0)\<lparr>FormulaID := formula_id_at chunk ?idx\<rparr>)))"
    by (intro GetCell_result_not_range) simp
  with v show ?thesis
    using assms c by (auto simp: GetCell_def Let_def split: if_splits)
qed

lemma IterateValues_not_range: "v \<in> set (IterateValues r) \<Longrightarrow> \<not> is_range v"
  by (auto simp: IterateValues_def is_range_def split: option.splits dest!: GetCell_not_range)

section \<open>The aggregation loops\<close>

lemma first_error_append:
  "first_error (xs @ ys) = (case first_error xs of Some e \<Rightarrow> Some e | None \<Rightarrow> first_error ys)"
  by (induction xs) (auto split: Primitive.splits)

lemma first_error_None:
  "\<forall>v\<in>set vs. checkForError v = None \<Longrightarrow> first_error vs = None"
  by (induction vs) (auto simp: checkForError_def split: Primitive.splits)

lemma range_loop_fold:
  "range_loop step vs acc = (case first_error vs of Some e \<Rightarrow> Inl e | None \<Rightarrow> Inr (fold step vs acc))"
  by (induction vs arbitrary: acc) (auto simp: checkForError_def split: Primitive.splits option.splits)

lemma range_loop_append:
  "range_loop step (xs @ ys) acc =
     (case range_loop step xs acc of Inl e \<Rightarrow> Inl e | Inr a \<Rightarrow> range_loop step ys a)"
  by (induction xs arbitrary: acc) (auto split: option.splits)

lemma argument_values_Cons:
  "argument_values (a # args) =
      (case a of RangeV r \<Rightarrow> IterateValues r | _ \<Rightarrow> [a]) @ argument_values args"
  by (simp add: argument_values_def)

lemma argument_values_nonempty_Cons:
  "argument_values_nonempty (a # args) =
      (case a of RangeV r \<Rightarrow> filter (\<lambda>v. v \<noteq> Nil) (IterateValues r) | _ \<Rightarrow> [a])
      @ argument_values_nonempty args"
  by (simp add: argument_values_nonempty_def)

lemma args_loop_values:
  "args_loop step step args acc = range_loop step (argument_values args) acc"
proof (induction args arbitrary: acc)
  case Nil
  show ?case by (simp add: argument_values_def)
next
  case (Cons a args)
  note av = argument_values_Cons
  show ?case
  proof (cases a)
    case (RangeV r)
    then show ?thesis
      using Cons.IH
      by (cases "range_loop step (IterateValues r) acc")
         (simp_all add: av range_loop_append checkForError_def)
  qed (use Cons.IH in \<open>simp_all add: av checkForError_def\<close>)
qed

lemma range_loop_skip_Nil:
  "range_loop (\<lambda>v acc. if v \<noteq> Nil then step v acc else acc) vs acc =
   range_loop step (filter (\<lambda>v. v \<noteq> Nil) vs) acc"
  by (induction vs arbitrary: acc) (auto simp: checkForError_def split: Primitive.splits)

lemma args_loop_values_nonempty:
  "args_loop (\<lambda>v acc. if v \<noteq> Nil then step v acc else acc) step args acc =
   range_loop step (argument_values_nonempty args) acc"
proof (induction args arbitrary: acc)
  case Nil
  show ?case by (simp add: argument_values_nonempty_def)
next
  case (Cons a args)
  note av = argument_values_nonempty_Cons
  show ?case
  proof (cases a)
    case (RangeV r)
    then show ?thesis
      using Cons.IH
      by (cases "range_loop step (filter (\<lambda>v. v \<noteq> Nil) (IterateValues r)) acc")
         (simp_all add: av range_loop_append range_loop_skip_Nil checkForError_def)
  qed (use Cons.IH in \<open>simp_all add: av checkForError_def\<close>)
qed

lemma first_error_filter_Nil: "first_error (filter (\<lambda>v. v \<noteq> Nil) vs) = first_error vs"
  by (induction vs) (auto split: Primitive.splits)

lemma first_error_nonempty:
  "first_error (argument_values_nonempty args) = first_error (argument_values args)"
proof (induction args)
  case Nil
  show ?case by (simp add: argument_values_nonempty_def argument_values_def)
next
  case (Cons a args)
  then show ?case
    by (cases a)
       (simp_all add: argument_values_nonempty_Cons argument_values_Cons first_error_append
          first_error_filter_Nil split: option.splits)
qed

lemma toNumber_as_number:
  "toNumber lib v = (case as_number lib v of Some x \<Rightarrow> (x, True) | None \<Rightarrow> (Fin 0, False))"
  by (simp add: toNumber_def as_number_def split: Primitive.splits option.splits)

lemma IsNaN_iff [simp]: "IsNaN x \<longleftrightarrow> x = NaN"
  by (cases x) simp_all

lemma numeric_values_toNumber:
  "numeric_values lib vs =
     map (\<lambda>v. fst (toNumber lib v))
       (filter (\<lambda>v. snd (toNumber lib v) \<and> \<not> IsNaN (fst (toNumber lib v))) vs)"
  by (induction vs)
     (auto simp: numeric_values_def List.map_filter_simps toNumber_as_number split: option.splits)

lemma numeric_values_empty:
  "\<forall>v\<in>set vs. \<not> snd (toNumber lib v) \<Longrightarrow> numeric_values lib vs = []"
  by (induction vs) (auto simp: numeric_values_toNumber)

lemma fold_SUM_step:
  "fold (bf_SUM_step lib) vs s = foldl (f_add (fl lib)) s (numeric_values lib vs)"
  by (induction vs arbitrary: s) (auto simp: bf_SUM_step_def numeric_values_toNumber split: prod.splits)

lemma fold_AVERAGE_step:
  "fold (bf_AVERAGE_step lib) vs acc =
     (foldl (f_add (fl lib)) (fst acc) (numeric_values lib vs), snd acc + int (length (numeric_values lib vs)))"
  by (induction vs arbitrary: acc)
     (auto simp: bf_AVERAGE_step_def numeric_values_toNumber split: prod.splits)

lemma fold_MAX_step:
  "fold (bf_MAX_step lib) vs acc =
     (foldl larger (fst acc) (numeric_values lib vs), snd acc \<or> numeric_values lib vs \<noteq> [])"
  by (induction vs arbitrary: acc)
     (auto simp: bf_MAX_step_def numeric_values_toNumber larger_def split: prod.splits)

lemma fold_MIN_step:
  "fold (bf_MIN_step lib) vs acc =
     (foldl smaller (fst acc) (numeric_values lib vs), snd acc \<or> numeric_values lib vs \<noteq> [])"
  by (induction vs arbitrary: acc)
     (auto simp: bf_MIN_step_def numeric_values_toNumber smaller_def split: prod.splits)

lemma fold_MEDIAN_step:
  "fold (bf_MEDIAN_step lib) vs acc = acc @ numeric_values lib vs"
  by (induction vs arbitrary: acc)
     (auto simp: bf_MEDIAN_step_def numeric_values_toNumber split: prod.splits)

lemma fold_MODE_step:
  "fold (bf_MODE_step lib) vs m = foldl freq_incr m (numeric_values lib vs)"
  by (induction vs arbitrary: m)
     (auto simp: bf_MODE_step_def numeric_values_toNumber split: prod.splits)

lemma aggregation_loops:
  "args_loop (bf_SUM_step lib) (bf_SUM_step lib) args (Fin 0) =
     (case first_error (argument_values args) of Some e \<Rightarrow> Inl e
      | None \<Rightarrow> Inr (foldl (f_add (fl lib)) (Fin 0) (numeric_values lib (argument_values args))))"
  "args_loop (bf_MAX_step lib) (bf_MAX_step lib) args (NInf, False) =
     (case first_error (argument_values args) of Some e \<Rightarrow> Inl e
      | None \<Rightarrow> Inr (foldl larger NInf (numeric_values lib (argument_values args)),
                     numeric_values lib (argument_values args) \<noteq> []))"
  "args_loop (bf_MIN_step lib) (bf_MIN_step lib) args (PInf, False) =
     (case first_error (argument_values args) of Some e \<Rightarrow> Inl e
      | None \<Rightarrow> Inr (foldl smaller PInf (numeric_values lib (argument_values args)),
                     numeric_values lib (argument_values args) \<noteq> []))"
  "args_loop (bf_MEDIAN_step lib) (bf_MEDIAN_step lib) args [] =
     (case first_error (argument_values args) of Some e \<Rightarrow> Inl e
      | None \<Rightarrow> Inr (numeric_values lib (argument_values args)))"
  "args_loop (bf_MODE_step lib) (bf_MODE_step lib) args [] =
     (case first_error (argument_values args) of Some e \<Rightarrow> Inl e
      | None \<Rightarrow> Inr (foldl freq_incr [] (numeric_values lib (argument_values args))))"
  by (simp_all add: args_loop_values range_loop_fold fold_SUM_step fold_MAX_step fold_MIN_step
      fold_MEDIAN_step fold_MODE_step split: option.splits)

lemma AVERAGE_loop:
  "args_loop (bf_AVERAGE_range_step lib) (bf_AVERAGE_step lib) args (Fin 0, 0) =
     (case first_error (argument_values args) of Some e \<Rightarrow> Inl e
      | None \<Rightarrow> Inr (foldl (f_add (fl lib)) (Fin 0) (numeric_values lib (argument_values_nonempty args)),
                     int (length (numeric_values lib (argument_values_nonempty args)))))"
proof -
  have avg: "bf_AVERAGE_range_step lib = (\<lambda>v acc. if v \<noteq> Nil then bf_AVERAGE_step lib v acc else acc)"
    by (auto simp: bf_AVERAGE_range_step_def fun_eq_iff)
  show ?thesis
    unfolding avg args_loop_values_nonempty range_loop_fold first_error_nonempty
    by (simp add: fold_AVERAGE_step split: option.splits)
qed

section \<open>Claims about the builtin functions\<close>

text \<open>
  The six aggregations as functions of the values the call receives, a range argument
  standing for the values of its cells: the first error value is the result; otherwise
  the result is computed from the numeric values.
\<close>

lemma aggregation_results:
  "bf_SUM lib args =
     (case first_error (argument_values args) of
        Some e \<Rightarrow> Inl e
      | None \<Rightarrow>
          Inr (Number (round15f lib
            (foldl (f_add (fl lib)) (Fin 0) (numeric_values lib (argument_values args))))))
   \<and> bf_AVERAGE lib args =
     (case first_error (argument_values args) of
        Some e \<Rightarrow> Inl e
      | None \<Rightarrow>
          (if numeric_values lib (argument_values_nonempty args) = []
           then Inl \<lparr>ErrorCode = ErrorCodeDiv0, Message = ''Division by zero''\<rparr>
           else Inr (Number (f_div (fl lib)
                  (foldl (f_add (fl lib)) (Fin 0) (numeric_values lib (argument_values_nonempty args)))
                  (Fin (real (length (numeric_values lib (argument_values_nonempty args)))))))))
   \<and> bf_MAX lib args =
     (case first_error (argument_values args) of
        Some e \<Rightarrow> Inl e
      | None \<Rightarrow>
          (if numeric_values lib (argument_values args) = [] then Inr (Number (Fin 0))
           else Inr (Number (foldl larger NInf (numeric_values lib (argument_values args))))))
   \<and> bf_MIN lib args =
     (case first_error (argument_values args) of
        Some e \<Rightarrow> Inl e
      | None \<Rightarrow>
          (if numeric_values lib (argument_values args) = [] then Inr (Number (Fin 0))
           else Inr (Number (foldl smaller PInf (numeric_values lib (argument_values args))))))
   \<and> bf_MEDIAN lib args =
     (case first_error (argument_values args) of
        Some e \<Rightarrow> Inl e
      | None \<Rightarrow> bf_MEDIAN_of lib (numeric_values lib (argument_values args)))
   \<and> bf_MODE lib args =
     (case first_error (argument_values args) of
        Some e \<Rightarrow> Inl e
      | None \<Rightarrow> bf_MODE_of (foldl freq_incr [] (numeric_values lib (argument_values args))))"
  by (simp add: bf_SUM_def bf_AVERAGE_def bf_MAX_def bf_MIN_def bf_MEDIAN_def bf_MODE_def
      aggregation_loops AVERAGE_loop float64_of_int_def NewSpreadsheetError_def
      split: option.splits)

text \<open>
  On the range of the cells TRUE, "2", empty, 3 and on the same values as direct
  arguments.
\<close>

lemma mixed_range_results:
  "IterateValues mixed_range = [Boolean True, Text ''2'', Nil, Number (Fin 3)]
    \<and> bf_SUM example_lib [RangeV mixed_range] = Inr (Number (Fin 6))
    \<and> bf_SUM example_lib [Boolean True, Text ''2'', Nil, Number (Fin 3)] = Inr (Number (Fin 6))
    \<and> bf_AVERAGE example_lib [RangeV mixed_range] = Inr (Number (Fin 2))
    \<and> bf_AVERAGE example_lib [Boolean True, Text ''2'', Nil, Number (Fin 3)]
        = Inr (Number (Fin (3 / 2)))
    \<and> bf_MAX example_lib [RangeV mixed_range] = Inr (Number (Fin 3))
    \<and> bf_MIN example_lib [RangeV mixed_range] = Inr (Number (Fin 0))
    \<and> bf_MIN example_lib [Boolean True, Text ''2'', Number (Fin 3)] = Inr (Number (Fin 1))"
  by (simp add: bf_SUM_def bf_SUM_step_def bf_AVERAGE_def bf_AVERAGE_step_def
      bf_AVERAGE_range_step_def bf_MAX_def bf_MAX_step_def bf_MIN_def bf_MIN_step_def
      IterateValues_mixed_range checkForError_def toNumber_def example_lib_def parse_digits_2
      f_gt_def float64_of_int_def Let_def)

text \<open>
  Claim C1, amended. For SUM, AVERAGE, MAX, MIN, MEDIAN and MODE the result is a function
  of the values the call receives, a range argument standing for the values of its cells:
  the first error value among them is the result; otherwise the result is computed from
  their numeric values only. A value counts in the same way whether it is a direct
  argument or the value of a cell of a range: a number as itself, a boolean as 1 or 0, a
  text that parses as a number as that number, and the empty value as 0, except that
  AVERAGE leaves out the empty cells of ranges; a text that does not parse is left out.
  SUM adds the numeric values up from 0, AVERAGE divides their sum by their count, MAX
  and MIN take the largest and the smallest (0 when there is none). So over a range of
  the cells TRUE, "2", empty, 3 the sum is 1 + 2 + 0 + 3 = 6, as for the same four direct
  arguments; AVERAGE is 6 / 3 = 2 over the range and 6 / 4 over the direct arguments;
  the largest is 3 and the smallest is 0, the number of the empty cell (1 without it).
\<close>

theorem aggregations_coerce_in_ranges_too:
  "(bf_SUM lib args =
     (case first_error (argument_values args) of
        Some e \<Rightarrow> Inl e
      | None \<Rightarrow>
          Inr (Number (round15f lib
            (foldl (f_add (fl lib)) (Fin 0) (numeric_values lib (argument_values args))))))
   \<and> bf_AVERAGE lib args =
     (case first_error (argument_values args) of
        Some e \<Rightarrow> Inl e
      | None \<Rightarrow>
          (if numeric_values lib (argument_values_nonempty args) = []
           then Inl \<lparr>ErrorCode = ErrorCodeDiv0, Message = ''Division by zero''\<rparr>
           else Inr (Number (f_div (fl lib)
                  (foldl (f_add (fl lib)) (Fin 0) (numeric_values lib (argument_values_nonempty args)))
                  (Fin (real (length (numeric_values lib (argument_values_nonempty args)))))))))
   \<and> bf_MAX lib args =
     (case first_error (argument_values args) of
        Some e \<Rightarrow> Inl e
      | None \<Rightarrow>
          (if numeric_values lib (argument_values args) = [] then Inr (Number (Fin 0))
           else Inr (Number (foldl larger NInf (numeric_values lib (argument_values args))))))
   \<and> bf_MIN lib args =
     (case first_error (argument_values args) of
        Some e \<Rightarrow> Inl e
      | None \<Rightarrow>
          (if numeric_values lib (argument_values args) = [] then Inr (Number (Fin 0))
           else Inr (Number (foldl smaller PInf (numeric_values lib (argument_values args))))))
   \<and> bf_MEDIAN lib args =
     (case first_error (argument_values args) of
        Some e \<Rightarrow> Inl e
      | None \<Rightarrow> bf_MEDIAN_of lib (numeric_values lib (argument_values args)))
   \<and> bf_MODE lib args =
     (case first_error (argument_values args) of
        Some e \<Rightarrow> Inl e
      | None \<Rightarrow> bf_MODE_of (foldl freq_incr [] (numeric_values lib (argument_values args)))))
   \<and> (IterateValues mixed_range = [Boolean True, Text ''2'', Nil, Number (Fin 3)]
    \<and> bf_SUM example_lib [RangeV mixed_range] = Inr (Number (Fin 6))
    \<and> bf_SUM example_lib [Boolean True, Text ''2'', Nil, Number (Fin 3)] = Inr (Number (Fin 6))
    \<and> bf_AVERAGE example_lib [RangeV mixed_range] = Inr (Number (Fin 2))
    \<and> bf_AVERAGE example_lib [Boolean True, Text ''2'', Nil, Number (Fin 3)]
        = Inr (Number (Fin (3 / 2)))
    \<and> bf_MAX example_lib [RangeV mixed_range] = Inr (Number (Fin 3))
    \<and> bf_MIN example_lib [RangeV mixed_range] = Inr (Number (Fin 0))
    \<and> bf_MIN example_lib [Boolean True, Text ''2'', Number (Fin 3)] = Inr (Number (Fin 1)))"
  by (rule conjI [OF aggregation_results mixed_range_results])

text \<open>
  Claim C1 as stated fails: in \<open>MEDIAN(A1:A5)\<close> over the cells 1, "text", 3, TRUE, 5 (the
  repository's test "Median with mixed types") the boolean found inside the range counts
  as the number 1, so the median is that of 1, 1, 3, 5, which is 2; were the boolean left
  out, as the claim says, it would be the median of 1, 3, 5, which is 3.
\<close>

theorem boolean_in_range_counterexample:
  "IterateValues median_range =
     [Number (Fin 1), Text ''text'', Number (Fin 3), Boolean True, Number (Fin 5)]
   \<and> bf_MEDIAN example_lib [RangeV median_range] = Inr (Number (Fin 2))
   \<and> bf_MEDIAN example_lib [Number (Fin 1), Number (Fin 3), Number (Fin 5)] = Inr (Number (Fin 3))"
  by (simp add: bf_MEDIAN_def IterateValues_median_range checkForError_def bf_MEDIAN_step_def
      toNumber_def example_lib_def bf_MEDIAN_of_def sort_outer.simps sort_inner.simps Let_def)

lemma count_range_eq: "count_range p vs c = c + int (length (filter p vs))"
  by (induction vs arbitrary: c) auto

lemma count_args_eq:
  "count_args rp dp args c =
     (case first_error args of
        Some e \<Rightarrow> Inl e
      | None \<Rightarrow> Inr (c + int (length (filter dp (direct_values args)))
                     + int (length (filter rp (range_values args)))))"
proof (induction args arbitrary: c)
  case Nil
  show ?case by (simp add: direct_values_def range_values_def)
next
  case (Cons a args)
  show ?case
    by (cases a)
       (simp_all add: Cons.IH checkForError_def direct_values_def range_values_def is_range_def
          count_range_eq split: option.splits)
qed

text \<open>
  What COUNT and COUNTA compute. The first error value among the arguments themselves is
  the result. Otherwise COUNT is the number of number values among the direct arguments
  and the cells of the range arguments (booleans, strings, empty values and error values
  of cells are not counted, and an error value of a cell is never the result), and COUNTA
  is the number of direct arguments, whatever they are, plus the number of non-empty
  cells of the range arguments, error values of cells included.
\<close>

lemma COUNT_and_COUNTA_results:
  "bf_COUNT lib args =
     (case first_error args of
        Some e \<Rightarrow> Inl e
      | None \<Rightarrow> Inr (Number (Fin (real (length (filter is_number (direct_values args))
                                        + length (filter is_number (range_values args)))))))
   \<and> bf_COUNTA lib args =
     (case first_error args of
        Some e \<Rightarrow> Inl e
      | None \<Rightarrow> Inr (Number (Fin (real (length (direct_values args)
                                        + length (filter (\<lambda>v. v \<noteq> Nil) (range_values args)))))))"
proof -
  have sc: "shouldCount = is_number"
    by (auto simp: fun_eq_iff shouldCount_def is_number_def)
  have rp: "(\<lambda>v. checkForError v = None \<and> is_number v) = is_number"
    by (auto simp: fun_eq_iff is_number_def checkForError_def split: Primitive.splits)
  show ?thesis
    unfolding bf_COUNT_def bf_COUNTA_def sc count_args_eq
    by (simp add: rp float64_of_int_def split: option.splits)
qed

text \<open>
  Claim C4 fails in the code for COUNTA: a direct argument that is the empty value is
  counted. A reference to an empty cell evaluates to the empty value, so \<open>COUNTA(A1)\<close>
  with \<open>A1\<close> empty is 1, while \<open>COUNTA(A1:A2)\<close> over two empty cells is 0, and
  \<open>COUNTA(1, "2", TRUE, A1, 3)\<close> is 5, although only four of the values are not empty.
  COUNT counts none of the empty values, and both functions return a direct argument
  that is an error value.
\<close>

theorem COUNTA_counts_an_empty_direct_argument:
  "CellRefNode_Eval example_sheet 1 0 0 = Inr Nil
   \<and> bf_COUNTA lib [Nil] = Inr (Number (Fin 1))
   \<and> IterateValues empty_range = [Nil, Nil]
   \<and> bf_COUNTA lib [RangeV empty_range] = Inr (Number (Fin 0))
   \<and> bf_COUNTA lib [Number (Fin 1), Text ''2'', Boolean True, Nil, Number (Fin 3)]
       = Inr (Number (Fin 5))
   \<and> bf_COUNT lib [Nil] = Inr (Number (Fin 0))
   \<and> bf_COUNT lib [RangeV empty_range] = Inr (Number (Fin 0))
   \<and> bf_COUNT lib [ErrorV div0_error] = Inl div0_error
   \<and> bf_COUNTA lib [ErrorV div0_error] = Inl div0_error"
proof -
  have "CellRefNode_Eval example_sheet 1 0 0 = Inr Nil"
    by (simp add: CellRefNode_Eval_def example_sheet_def AddWorksheet_def wt_Contains_def
        NewSpreadsheet_def NewWorksheetTable_def DefineWorksheet_def NewWorksheet_def
        GetWorksheet_def GetCell_def chunk_key_def Let_def)
  then show ?thesis
    by (simp add: bf_COUNTA_def bf_COUNT_def checkForError_def shouldCount_def
        IterateValues_empty_range float64_of_int_def)
qed

text \<open>
  Claim C9 as stated fails when an argument is an error value: an error value does not
  coerce to a number, yet it, and not 0, is the result of MAX and MIN.
\<close>

theorem MAX_MIN_error_counterexample:
  "snd (toNumber example_lib (ErrorV div0_error)) = False
   \<and> bf_MAX example_lib [ErrorV div0_error] = Inl div0_error
   \<and> bf_MIN example_lib [ErrorV div0_error] = Inl div0_error"
  by (simp add: toNumber_def bf_MAX_def bf_MIN_def checkForError_def)

text \<open>
  Claim C9, amended: when the values a call of MAX or MIN receives (directly or inside
  ranges) hold no error value and no value that coerces to a number, the result is the
  number 0.
\<close>

theorem MAX_MIN_without_numbers:
  assumes "\<forall>v\<in>set (argument_values args). checkForError v = None \<and> \<not> snd (toNumber lib v)"
  shows "bf_MAX lib args = Inr (Number (Fin 0)) \<and> bf_MIN lib args = Inr (Number (Fin 0))"
proof -
  have e: "first_error (argument_values args) = None"
    using assms by (intro first_error_None) simp
  have n: "numeric_values lib (argument_values args) = []"
    using assms by (intro numeric_values_empty) simp
  show ?thesis
    by (simp add: bf_MAX_def bf_MIN_def aggregation_loops e n)
qed

theorem MAX_MIN_without_numbers_witness:
  "list_all (\<lambda>v. checkForError v = None \<and> \<not> snd (toNumber example_lib v))
     (argument_values [Text ''x'', RangeV text_range])
   \<and> bf_MAX example_lib [Text ''x'', RangeV text_range] = Inr (Number (Fin 0))
   \<and> bf_MIN example_lib [Text ''x'', RangeV text_range] = Inr (Number (Fin 0))"
proof -
  have h: "\<forall>v\<in>set (argument_values [Text ''x'', RangeV text_range]).
      checkForError v = None \<and> \<not> snd (toNumber example_lib v)"
    by (simp add: argument_values_def IterateValues_text_range checkForError_def toNumber_def
        example_lib_def)
  show ?thesis
    using h MAX_MIN_without_numbers [OF h] by (simp add: list_all_iff)
qed

text \<open>
  Claim C10 as stated fails when an argument is an error value: it is not a number, a
  boolean or a string, yet AVERAGEA returns it, here an error of kind DIV0, not of kind
  REF.
\<close>

theorem AVERAGEA_error_counterexample:
  "\<not> countable (ErrorV div0_error)
   \<and> bf_AVERAGEA example_lib [ErrorV div0_error] = Inl div0_error
   \<and> ErrorCode div0_error \<noteq> ErrorCodeRef"
  by (simp add: countable_def bf_AVERAGEA_def checkForError_def div0_error_def ErrorCode_defs)

lemma fold_AVERAGEA_step_none:
  "\<forall>v\<in>set vs. \<not> countable v \<Longrightarrow> fold (bf_AVERAGEA_step lib) vs acc = acc"
  by (induction vs arbitrary: acc)
     (auto simp: bf_AVERAGEA_step_def countable_def split: Primitive.splits)

text \<open>
  Claim C10, amended: when the values a call of AVERAGEA receives (directly or inside
  ranges) hold no error value and no number, boolean or string, the result is an error of
  kind REF; when the values a call of AVERAGE receives (empty cells of ranges left out)
  hold no error value and no value that coerces to a number, the result is an error of
  kind DIV0.
\<close>

theorem AVERAGEA_without_values:
  "((\<forall>v\<in>set (argument_values args). checkForError v = None \<and> \<not> countable v) \<longrightarrow>
      bf_AVERAGEA lib args = Inl (NewSpreadsheetError ErrorCodeRef ''AVERAGEA has no values''))
   \<and> ((\<forall>v\<in>set (argument_values_nonempty args'). checkForError v = None \<and> \<not> snd (toNumber lib v)) \<longrightarrow>
      bf_AVERAGE lib args' = Inl (NewSpreadsheetError ErrorCodeDiv0 ''Division by zero''))"
proof (intro conjI impI)
  assume a: "\<forall>v\<in>set (argument_values args). checkForError v = None \<and> \<not> countable v"
  then have e: "first_error (argument_values args) = None"
    by (intro first_error_None) simp
  have f: "fold (bf_AVERAGEA_step lib) (argument_values args) (Fin 0, 0) = (Fin 0, 0)"
    using a by (intro fold_AVERAGEA_step_none) simp
  show "bf_AVERAGEA lib args = Inl (NewSpreadsheetError ErrorCodeRef ''AVERAGEA has no values'')"
    by (simp add: bf_AVERAGEA_def args_loop_values range_loop_fold e f)
next
  assume a: "\<forall>v\<in>set (argument_values_nonempty args'). checkForError v = None \<and> \<not> snd (toNumber lib v)"
  then have "first_error (argument_values_nonempty args') = None"
    by (intro first_error_None) simp
  then have e: "first_error (argument_values args') = None"
    by (simp add: first_error_nonempty)
  have n: "numeric_values lib (argument_values_nonempty args') = []"
    using a by (intro numeric_values_empty) simp
  show "bf_AVERAGE lib args' = Inl (NewSpreadsheetError ErrorCodeDiv0 ''Division by zero'')"
    by (simp add: bf_AVERAGE_def AVERAGE_loop e n)
qed

theorem AVERAGEA_without_values_witness:
  "list_all (\<lambda>v. checkForError v = None \<and> \<not> countable v)
     (argument_values [Nil, RangeV empty_range])
   \<and> bf_AVERAGEA example_lib [Nil, RangeV empty_range]
       = Inl (NewSpreadsheetError ErrorCodeRef ''AVERAGEA has no values'')
   \<and> list_all (\<lambda>v. checkForError v = None \<and> \<not> snd (toNumber example_lib v))
       (argument_values_nonempty [Text ''x'', RangeV text_range])
   \<and> bf_AVERAGE example_lib [Text ''x'', RangeV text_range]
       = Inl (NewSpreadsheetError ErrorCodeDiv0 ''Division by zero'')"
proof -
  have h1: "\<forall>v\<in>set (argument_values [Nil, RangeV empty_range]). checkForError v = None \<and> \<not> countable v"
    by (simp add: argument_values_def IterateValues_empty_range checkForError_def countable_def)
  have h2: "\<forall>v\<in>set (argument_values_nonempty [Text ''x'', RangeV text_range]).
        checkForError v = None \<and> \<not> snd (toNumber example_lib v)"
    by (simp add: argument_values_nonempty_def IterateValues_text_range checkForError_def
        toNumber_def example_lib_def)
  show ?thesis
    using h1 h2 AVERAGEA_without_values [of "[Nil, RangeV empty_range]" example_lib
        "[Text ''x'', RangeV text_range]"]
    by (simp add: list_all_iff)
qed

section \<open>Comparison operators\<close>

lemma comparePrimitives_spec:
  "comparePrimitives lib l r = compare_with_empty lib l r"
  unfolding comparePrimitives_def compare_with_empty_def spec_compare_def three_way_def f_gt_def
  by (auto simp: Let_def split: prod.splits Primitive.splits)

lemma compare_range: "compare_with_empty lib l r \<in> {- 1, 0, 1}"
  unfolding compare_with_empty_def spec_compare_def three_way_def
  by (auto split: prod.splits Primitive.splits)

text \<open>
  Claim C5 as stated fails when an operand is the empty value (the value of an empty
  cell): the empty value and the number -5 both coerce to numbers, 0 and -5, and 0 is
  greater than -5, yet the comparison \<open>>\<close> of the empty value with -5 is false, because the
  empty value is put before every other value without being coerced.
\<close>

theorem empty_operand_counterexample:
  "toNumber example_lib Nil = (Fin 0, True)
   \<and> toNumber example_lib (Number (Fin (- 5))) = (Fin (- 5), True)
   \<and> f_gt (Fin 0) (Fin (- 5))
   \<and> BinaryOp_result example_lib BinOpGreater Nil (Number (Fin (- 5))) = Inr (Boolean False)"
  by (simp add: toNumber_def f_gt_def BinaryOp_result_def compare_op_def comparePrimitives_def
      checkForError_def)

text \<open>
  Claim C5, amended: for two operands that are not error values, each comparison operator
  (\<open>=\<close>, \<open><>\<close> or \<open>!=\<close>, \<open><\<close>, \<open><=\<close>, \<open>>\<close>, \<open>>=\<close>) holds according to this order: the
  empty value equals the empty value and is below every other value; two non-empty
  operands compare as numbers if both coerce to numbers, otherwise as booleans with
  \<open>FALSE < TRUE\<close> if both are booleans, otherwise lexically as texts.
\<close>

theorem comparison_operators:
  assumes "checkForError l = None" and "checkForError r = None"
  shows "BinaryOp_result lib BinOpEqual l r = Inr (Boolean (compare_with_empty lib l r = 0))
    \<and> BinaryOp_result lib BinOpNotEqual l r = Inr (Boolean (compare_with_empty lib l r \<noteq> 0))
    \<and> BinaryOp_result lib BinOpLess l r = Inr (Boolean (compare_with_empty lib l r < 0))
    \<and> BinaryOp_result lib BinOpLessEqual l r = Inr (Boolean (compare_with_empty lib l r \<le> 0))
    \<and> BinaryOp_result lib BinOpGreater l r = Inr (Boolean (compare_with_empty lib l r > 0))
    \<and> BinaryOp_result lib BinOpGreaterEqual l r = Inr (Boolean (compare_with_empty lib l r \<ge> 0))"
proof -
  have "compare_with_empty lib l r \<noteq> - 2"
    using compare_range[of lib l r] by auto
  then show ?thesis
    using assms by (simp add: BinaryOp_result_def compare_op_def comparePrimitives_spec Let_def)
qed

theorem comparison_operators_witness:
  "checkForError (Text ''abc'') = None \<and> checkForError (Text ''abd'') = None
   \<and> BinaryOp_result example_lib BinOpEqual (Text ''abc'') (Text ''abd'') = Inr (Boolean False)
   \<and> BinaryOp_result example_lib BinOpNotEqual (Text ''abc'') (Text ''abd'') = Inr (Boolean True)
   \<and> BinaryOp_result example_lib BinOpLess (Text ''abc'') (Text ''abd'') = Inr (Boolean True)
   \<and> BinaryOp_result example_lib BinOpLessEqual (Text ''abc'') (Text ''abd'') = Inr (Boolean True)
   \<and> BinaryOp_result example_lib BinOpGreater (Text ''abc'') (Text ''abd'') = Inr (Boolean False)
   \<and> BinaryOp_result example_lib BinOpGreaterEqual (Text ''abc'') (Text ''abd'') = Inr (Boolean False)"
proof -
  have h: "checkForError (Text ''abc'') = None" "checkForError (Text ''abd'') = None"
    by (simp_all add: checkForError_def)
  have c: "compare_with_empty example_lib (Text ''abc'') (Text ''abd'') = - 1"
    by (simp add: compare_with_empty_def spec_compare_def toNumber_def example_lib_def
        parse_digits_def is_digit_def three_way_def toString_def)
  show ?thesis
    using h comparison_operators [OF h, of example_lib] by (simp add: c)
qed


section \<open>Round trip of a literal through the cell store\<close>





lemma update_bitmap_fields [simp]:
  "Types (update_bitmap c idx) = Types c" "Numbers (update_bitmap c idx) = Numbers c"
  "StringIDs (update_bitmap c idx) = StringIDs c" "FormulaIDs (update_bitmap c idx) = FormulaIDs c"
  "NonEmptyCount (update_bitmap c idx) = NonEmptyCount c"
  "FormulaResultTypes (update_bitmap c idx) = FormulaResultTypes c"
  by (simp_all add: update_bitmap_def Let_def)

lemma formula_id_at_cong:
  "FormulaIDs c' = FormulaIDs c \<Longrightarrow> formula_id_at c' idx = formula_id_at c idx"
  by (simp add: formula_id_at_def)





lemma SetCell_worksheetID:
  "SetCell fmt w st ft row col v f = (w', st', ft') \<Longrightarrow> ws_worksheetID w' = ws_worksheetID w"
  by (auto simp: SetCell_def getChunk_def Let_def split: prod.splits option.splits if_splits)




section \<open>Running the engine on the examples\<close>

text \<open>
  The definitions that the simplifier unfolds to run \<open>Set\<close>, \<open>Calculate\<close> and \<open>Get\<close> on
  the example spreadsheets.
\<close>

lemma show_nat_digit: "n < 10 \<Longrightarrow> show_nat n = [digit_char n]"
  by (simp add: show_nat.simps)

lemmas address_defs = resolveAddress_def example_frontend_def example_parseFullAddress_def
      parseCellAddress_def is_letter_def ParseInt32_def is_digit_def digits_value_def
      ToUpper_def to_upper_char_def resolveWorksheetByName_def GetWorksheetByName_def
      GetWorksheet_def

lemmas sheet_defs = example_sheet_def AddWorksheet_def wt_Contains_def NewSpreadsheet_def
  NewWorksheetTable_def DefineWorksheet_def NewWorksheet_def NewStringTable_def NewFormulaTable_def
  NewDependencyGraph_def NewCalculationStack_def

lemmas graph_defs = ClearDependencies_def GetNode_def MarkCellIfInRangeDirty_def GetDirectDependents_def
  MarkDirty_def set_IsDirty_def key_insert_def put_node_def RemoveNode_def ClearDirty_def
  GetDirectPrecedents_def GetRangePrecedents_def AddCellDependency_def AddRangeDependency_def
  GetOrCreateNode_def SetFormula_def UnmarkVolatile_def MarkVolatile_def observers_of_def
  RemoveCellDependency_def RemoveRangeDependency_def cleanupNodeIfEmpty_def remove_observer_def
  IsInRange_def MarkAllVolatileDirty_def ClearAllDirty_def

lemmas cell_defs = SetCell_def getChunk_def chunk_key_def chunk_index_def ChunkRows_def ChunkCols_def
  ChunkSize_def NewChunk_def clear_formula_def read_array_def store_value_def
  update_stats_def update_bitmap_def alloc_def Intern_def CellType_defs
  GetCell_def GetCell_value_def GetCell_result_def formula_id_at_def GetString_def RemoveCell_def
  SetFormulaResult_def read_error_def ErrorCode_of_float64_def

lemmas formula_defs = Set_formula_def example_tree_def ref_node_def range_node_def InternFormula_def
  trackCellUsage_def extractDependencies_def isVolatileFunction_def GetAST_def
  RemoveCellReference_def

lemmas print_defs = show_nat_digit show_int_def digit_char_def Number_ToString_def BinaryOp_text_def
  float64_of_int_def example_lib_def sprint_whole_def

lemmas all_defs = Set_def Set_value_def set_cell_def is_formula_text_def
     formula_defs address_defs sheet_defs graph_defs cell_defs print_defs
     TrackWorksheetOwnership_def set_add_def set_remove_def Let_def

lemma set_all_Nil: "set_all s [] = s"
  by (simp add: set_all_def)

lemma set_all_Cons: "set_all s ((address, v) # es) =
    set_all (case Set example_frontend example_lib s address v of Inr s' \<Rightarrow> s' | Inl e \<Rightarrow> s) es"
  by (simp add: set_all_def)

lemmas engine_defs = calculateCell_body_def finish_def store_result_def clear_dirty_def is_dirty_def
  circularErr_def NewSpreadsheetError_def ErrorMapper_def ErrorCode_defs evaluate_and_store_def cells_of_range_def
  push_def pop_def markCompleted_def isCompleted_def isProcessing_def reset_def
  Calculate_def sorted_cells_def Get_def

lemmas eval_defs = CellRefNode_Eval_def err_to_value_def BinaryOp_result_def arith_def Call_def bf_IF_def
  checkForError_def isTruthy_def toNumber_def

text \<open>
  \<open>Set\<close>, \<open>Calculate\<close> and the steps of the examples leave the names and the ids of the
  worksheets as they are, and so the resolution of an address.
\<close>

lemma sheet_ids_fields [simp]:
  "sheet_ids (s\<lparr>dependencyGraph := g\<rparr>) = sheet_ids s"
  "sheet_ids (s\<lparr>formulas := f\<rparr>) = sheet_ids s"
  "sheet_ids (s\<lparr>s_strings := st\<rparr>) = sheet_ids s"
  "sheet_ids (s\<lparr>namedRanges := nr\<rparr>) = sheet_ids s"
  "sheet_ids (s\<lparr>calculationStack := k\<rparr>) = sheet_ids s"
  "sheet_ids (s\<lparr>currentAddress := a\<rparr>) = sheet_ids s"
  "sheet_ids (s\<lparr>worksheets := worksheets s\<rparr>) = sheet_ids s"
  by (simp_all add: sheet_ids_def)

lemma sheet_ids_defined:
  assumes "definedWorksheets (worksheets s) w = Some ws" and "ws_worksheetID ws' = ws_worksheetID ws"
  shows "sheet_ids (s\<lparr>worksheets := (worksheets s)\<lparr>definedWorksheets :=
            (definedWorksheets (worksheets s))(w \<mapsto> ws')\<rparr>\<rparr>) = sheet_ids s"
  using assms by (auto simp: sheet_ids_def fun_eq_iff)

lemma sheet_ids_set_cell [simp]: "sheet_ids (set_cell lib s w row col v f) = sheet_ids s"
proof (cases "GetWorksheet (worksheets s) w")
  case None
  then show ?thesis by (simp add: set_cell_def)
next
  case (Some ws)
  obtain ws' st' ft' where sc: "SetCell (Sprint_float lib) ws (s_strings s) (formulas s) row col v f = (ws', st', ft')"
    by (cases "SetCell (Sprint_float lib) ws (s_strings s) (formulas s) row col v f") auto
  have "sheet_ids (s\<lparr>worksheets := (worksheets s)\<lparr>definedWorksheets :=
            (definedWorksheets (worksheets s))(w \<mapsto> ws')\<rparr>\<rparr>) = sheet_ids s"
    using Some SetCell_worksheetID[OF sc] by (intro sheet_ids_defined) (simp_all add: GetWorksheet_def)
  then show ?thesis
    by (simp add: set_cell_def Some sc sheet_ids_def)
qed

lemma SetFormulaResult_worksheetID:
  "SetFormulaResult w st row col v = (w', st') \<Longrightarrow> ws_worksheetID w' = ws_worksheetID w"
  by (auto simp: SetFormulaResult_def Let_def split: option.splits prod.splits Primitive.splits)

lemma sheet_ids_store_result [simp]: "sheet_ids (store_result s c v) = sheet_ids s"
proof (cases "GetWorksheet (worksheets s) (WorksheetID c)")
  case None
  then show ?thesis by (simp add: store_result_def)
next
  case (Some ws)
  obtain ws' st' where sf: "SetFormulaResult ws (s_strings s) (Row c) (Column c) v = (ws', st')"
    by (cases "SetFormulaResult ws (s_strings s) (Row c) (Column c) v")
  have "sheet_ids (s\<lparr>worksheets := (worksheets s)\<lparr>definedWorksheets :=
            (definedWorksheets (worksheets s))(WorksheetID c \<mapsto> ws')\<rparr>\<rparr>) = sheet_ids s"
    using Some SetFormulaResult_worksheetID[OF sf] by (intro sheet_ids_defined) (simp_all add: GetWorksheet_def)
  then show ?thesis
    by (simp add: store_result_def Some sf sheet_ids_def)
qed

lemma worksheets_extractDependenciesRecursive:
  "worksheets (extractDependenciesRecursive ast c s) = worksheets s"
proof (induction ast c s rule: extractDependenciesRecursive.induct)
  case (5 name args cellAddr s)
  have "set xs \<subseteq> set args \<Longrightarrow>
      worksheets (foldl (\<lambda>s' arg. extractDependenciesRecursive arg cellAddr s') s0 xs) = worksheets s0"
    for xs s0
    by (induction xs arbitrary: s0) (simp_all add: 5)
  then show ?case by simp
qed (simp_all add: Let_def split: option.splits prod.splits)

lemma sheet_ids_extractDependencies [simp]: "sheet_ids (extractDependencies ast c s) = sheet_ids s"
  by (simp add: sheet_ids_def extractDependencies_def worksheets_extractDependenciesRecursive)

lemma sheet_ids_Set_value [simp]: "sheet_ids (Set_value lib s c v) = sheet_ids s"
  by (simp add: Set_value_def Let_def)

lemma getChunk_worksheetID: "getChunk ws key = (chunk, ws1) \<Longrightarrow> ws_worksheetID ws1 = ws_worksheetID ws"
  by (auto simp: getChunk_def split: option.splits)

lemma sheet_ids_Set_formula [simp]:
  "sheet_ids (Set_formula example_frontend lib s c f) = sheet_ids s"
proof (cases "example_tree f \<lparr>WorksheetID = (case GetWorksheet (worksheets s) (WorksheetID c) of
                         Some ws \<Rightarrow> ws_worksheetID ws | None \<Rightarrow> WorksheetID c), Row = Row c, Column = Column c\<rparr>")
  case (LexErrors x)
  then show ?thesis by (simp add: Set_formula_def example_frontend_def Let_def)
next
  case (ParseError x)
  then show ?thesis by (simp add: Set_formula_def example_frontend_def Let_def)
next
  case (Parsed ast)
  obtain formulaID ft where i: "InternFormula (Sprint_float lib) (formulas s) ast c = (formulaID, ft)"
    by (cases "InternFormula (Sprint_float lib) (formulas s) ast c")
  let ?s1 = "extractDependencies ast c (s\<lparr>formulas := ft\<rparr>)"
  let ?s2 = "?s1\<lparr>dependencyGraph := SetFormula (dependencyGraph ?s1) c f\<rparr>"
  let ?s3 = "set_cell lib ?s2 (WorksheetID c) (Row c) (Column c) Nil f"
  have s3: "sheet_ids ?s3 = sheet_ids s" by simp
  have s4: "sheet_ids (case GetWorksheet (worksheets ?s3) (WorksheetID c) of
               None \<Rightarrow> ?s3
             | Some ws \<Rightarrow>
                 (case getChunk ws (chunk_key (Row c) (Column c)) of (chunk, ws1) \<Rightarrow>
                    ?s3\<lparr>worksheets := (worksheets ?s3)\<lparr>definedWorksheets :=
                         (definedWorksheets (worksheets ?s3))
                           (WorksheetID c \<mapsto>
                              ws1\<lparr>chunks := (chunks ws1)(chunk_key (Row c) (Column c) \<mapsto>
                                     chunk\<lparr>FormulaIDs := Some ((alloc (FormulaIDs chunk) 0)
                                              (chunk_index (Row c) (Column c) := formulaID))\<rparr>)\<rparr>)\<rparr>\<rparr>))
            = sheet_ids ?s3"
  proof (cases "GetWorksheet (worksheets ?s3) (WorksheetID c)")
    case None
    then show ?thesis by simp
  next
    case (Some ws)
    obtain chunk ws1 where g: "getChunk ws (chunk_key (Row c) (Column c)) = (chunk, ws1)"
      by (cases "getChunk ws (chunk_key (Row c) (Column c))")
    show ?thesis
      unfolding Some g option.case prod.case
      using Some getChunk_worksheetID[OF g]
      by (intro sheet_ids_defined) (simp_all add: GetWorksheet_def)
  qed
  show ?thesis
    using Parsed s3 s4
    by (simp add: Set_formula_def example_frontend_def Let_def i)
qed

lemma sheet_ids_clear_dirty [simp]: "sheet_ids (clear_dirty s c) = sheet_ids s"
  by (simp add: clear_dirty_def)

lemma sheet_ids_finish [simp]: "sheet_ids (finish c s) = sheet_ids s"
  by (simp add: finish_def)

lemma sheet_ids_evaluate_and_store [simp]: "sheet_ids (evaluate_and_store ev ast c s) = sheet_ids s"
  by (auto simp: evaluate_and_store_def Let_def split: sum.splits Primitive.splits)

lemma sheet_ids_precedents_loop:
  assumes "\<And>c s err s'. f c s = Some (err, s') \<Longrightarrow> sheet_ids s' = sheet_ids s"
  shows "precedents_loop f ps s = Some (r, s') \<Longrightarrow> sheet_ids s' = sheet_ids s"
proof (induction ps arbitrary: s)
  case Nil
  then show ?case by simp
next
  case (Cons p ps)
  then show ?case
    using assms by (auto split: option.splits if_splits)
qed

lemma sheet_ids_range_cells_loop:
  assumes "\<And>c s err s'. f c s = Some (err, s') \<Longrightarrow> sheet_ids s' = sheet_ids s"
  shows "range_cells_loop f cs s = Some s' \<Longrightarrow> sheet_ids s' = sheet_ids s"
proof (induction cs arbitrary: s)
  case Nil
  then show ?case by simp
next
  case (Cons c cs)
  then show ?case
    using assms by (auto split: option.splits if_splits)
qed

lemma sheet_ids_calculateCell_body:
  assumes "\<And>c s err s'. f c s = Some (err, s') \<Longrightarrow> sheet_ids s' = sheet_ids s"
    and "calculateCell_body ev f c s = Some (err, s')"
  shows "sheet_ids s' = sheet_ids s"
  using assms(2) sheet_ids_precedents_loop[of f, OF assms(1)] sheet_ids_range_cells_loop[of f, OF assms(1)]
  unfolding calculateCell_body_def
  by (auto split: option.splits if_splits)

lemma sheet_ids_calculateCell:
  "calculateCell ev fuel c s = Some (err, s') \<Longrightarrow> sheet_ids s' = sheet_ids s"
proof (induction fuel arbitrary: c s err s')
  case 0
  then show ?case by simp
next
  case (Suc fuel)
  show ?case
  proof (cases "isCompleted (calculationStack s) c \<or> isProcessing (calculationStack s) c")
    case True
    then show ?thesis using Suc.prems by (auto split: if_splits)
  next
    case False
    then obtain s1 where b: "calculateCell_body ev (calculateCell ev fuel) c
        (s\<lparr>calculationStack := push (calculationStack s) c\<rparr>) = Some (err, s1)" and e: "s' = finish c s1"
      using Suc.prems by (auto split: option.splits)
    from sheet_ids_calculateCell_body[OF Suc.IH b] e show ?thesis by simp
  qed
qed

lemma sheet_ids_Calculate_pass:
  "Calculate_pass (calculateCell ev fuel) cs s = Some s' \<Longrightarrow> sheet_ids s' = sheet_ids s"
proof (induction cs arbitrary: s)
  case Nil
  then show ?case by simp
next
  case (Cons c cs)
  then show ?case
    by (auto split: option.splits if_splits dest: sheet_ids_calculateCell)
qed

lemma sheet_ids_Calculate_loop:
  "Calculate_loop ev fuel n it s = Some (it', s') \<Longrightarrow> sheet_ids s' = sheet_ids s"
proof (induction n arbitrary: s it)
  case 0
  then show ?case by (simp split: if_splits)
next
  case (Suc n)
  then show ?case
    by (auto split: option.splits if_splits dest: sheet_ids_Calculate_pass)
qed

lemma sheet_ids_Calculate:
  assumes "Calculate ev fuel s = Some (n, s')"
  shows "sheet_ids s' = sheet_ids s"
proof -
  let ?s0 = "s\<lparr>dependencyGraph := MarkAllVolatileDirty (dependencyGraph s),
                calculationStack := reset (calculationStack s)\<rparr>"
  obtain s1 where l: "Calculate_loop ev fuel fuel 0 ?s0 = Some (n, s1)"
    and e: "s' = s1\<lparr>dependencyGraph := ClearAllDirty (dependencyGraph s1)\<rparr>"
    using assms unfolding Calculate_def by (auto split: option.splits)
  from sheet_ids_Calculate_loop[OF l] e show ?thesis by simp
qed

lemma sheet_ids_recalculated [simp]: "sheet_ids (recalculated s) = sheet_ids s"
proof (cases "Calculate (Eval example_lib) (Suc (Suc (Suc (Suc (Suc 0))))) s")
  case None
  then show ?thesis by (simp add: recalculated_def)
next
  case (Some r)
  then show ?thesis
    by (cases r) (simp add: recalculated_def sheet_ids_Calculate)
qed

lemma sheet_ids_at [simp]:
  "sheet_ids (set_formula_at s e) = sheet_ids s" "sheet_ids (set_value_at s e') = sheet_ids s"
  by (simp_all add: set_formula_at_def set_value_at_def)

lemma sheet_ids_foldl_formula [simp]: "sheet_ids (foldl set_formula_at s es) = sheet_ids s"
  by (induction es arbitrary: s) simp_all

lemma resolve_by_sheet_ids:
  assumes "sheet_ids s = sheet_ids s0"
  shows "resolveAddress fe s A = resolveAddress fe s0 A"
    and "GetWorksheet (worksheets s) w = None \<longleftrightarrow> GetWorksheet (worksheets s0) w = None"
proof -
  have n: "nameToID (worksheets s) = nameToID (worksheets s0)"
    and d: "map_option ws_worksheetID (definedWorksheets (worksheets s) i)
          = map_option ws_worksheetID (definedWorksheets (worksheets s0) i)" for i
    using assms by (auto simp: sheet_ids_def dest: fun_cong)
  have "resolveWorksheetByName s = resolveWorksheetByName s0"
  proof
    fix name
    show "resolveWorksheetByName s name = resolveWorksheetByName s0 name"
    proof (cases "nameToID (worksheets s0) name")
      case None
      then show ?thesis by (simp add: resolveWorksheetByName_def GetWorksheetByName_def n)
    next
      case (Some i)
      then show ?thesis
        using d[of i]
        by (cases "definedWorksheets (worksheets s) i"; cases "definedWorksheets (worksheets s0) i")
           (simp_all add: resolveWorksheetByName_def GetWorksheetByName_def GetWorksheet_def n)
    qed
  qed
  then show "resolveAddress fe s A = resolveAddress fe s0 A"
    by (simp add: resolveAddress_def)
  show "GetWorksheet (worksheets s) w = None \<longleftrightarrow> GetWorksheet (worksheets s0) w = None"
    using d[of w] by (auto simp: GetWorksheet_def)
qed

text \<open>
  Once the address is resolved, \<open>Set\<close> of a formula text is \<open>Set_formula\<close> and \<open>Set\<close> of
  another value is \<open>Set_value\<close>.
\<close>

lemma example_sheet_eq:
  "example_sheet = NewSpreadsheet\<lparr>worksheets := snd (DefineWorksheet NewWorksheetTable ''Sheet1'' (NewWorksheet 0))\<rparr>"
  by (simp add: example_sheet_def AddWorksheet_def wt_Contains_def NewSpreadsheet_def NewWorksheetTable_def)

lemma example_sheet_worksheet:
  "GetWorksheet (worksheets example_sheet) 1 = Some ((NewWorksheet 0)\<lparr>ws_worksheetID := 1\<rparr>)"
  by (simp add: example_sheet_eq GetWorksheet_def DefineWorksheet_def NewWorksheetTable_def
      NewSpreadsheet_def)

lemma Set_of_formula:
  assumes "length (split_on CHR ''!'' A) \<le> 2"
    and "resolveAddress fe s A = Inr (w, row, col)" and "w \<noteq> 0"
    and "GetWorksheet (worksheets s) w = Some ws"
    and "is_formula_text (Text f)"
  shows "Set fe lib s A (Text f) = Inr (Set_formula fe lib s \<lparr>WorksheetID = w, Row = row, Column = col\<rparr> f)"
proof -
  have addr: "(case split_on CHR ''!'' A of [a, b, c] \<Rightarrow> b @ ''!'' @ c | _ \<Rightarrow> A) = A"
    using assms(1) by (auto split: list.splits)
  show ?thesis
    using assms(2-5) by (simp add: Set_def addr Let_def)
qed

lemma Set_of_value:
  assumes "length (split_on CHR ''!'' A) \<le> 2"
    and "resolveAddress fe s A = Inr (w, row, col)" and "w \<noteq> 0"
    and "GetWorksheet (worksheets s) w = Some ws"
    and "\<not> is_formula_text v"
  shows "Set fe lib s A v = Inr (Set_value lib s \<lparr>WorksheetID = w, Row = row, Column = col\<rparr> v)"
proof -
  have addr: "(case split_on CHR ''!'' A of [a, b, c] \<Rightarrow> b @ ''!'' @ c | _ \<Rightarrow> A) = A"
    using assms(1) by (auto split: list.splits)
  show ?thesis
    using assms(2-5) by (cases v) (simp_all add: Set_def addr Let_def)
qed

lemma resolve_cells:
  "resolveAddress example_frontend example_sheet ''Sheet1!A1'' = Inr (1, 0, 0)"
  "resolveAddress example_frontend example_sheet ''Sheet1!B1'' = Inr (1, 0, 1)"
  "resolveAddress example_frontend example_sheet ''Sheet1!C1'' = Inr (1, 0, 2)"
  "resolveAddress example_frontend example_sheet ''Sheet1!D1'' = Inr (1, 0, 3)"
  "resolveAddress example_frontend example_sheet ''Sheet1!B2'' = Inr (1, 1, 1)"
  "resolveAddress example_frontend example_sheet ''Sheet1!C2'' = Inr (1, 1, 2)"
  "resolveAddress example_frontend example_sheet ''Sheet1!D2'' = Inr (1, 1, 3)"
  "resolveAddress example_frontend example_sheet ''Sheet1!E2'' = Inr (1, 1, 4)"
  by (simp_all add: address_defs sheet_defs Let_def)

text \<open>
  On a spreadsheet with the worksheets of the example, \<open>Set\<close> at an address of
  \<open>Sheet1\<close> is one of the two steps, so that the example spreadsheets are built by these
  steps.
\<close>

lemma set_all_formula:
  assumes "sheet_ids s = sheet_ids example_sheet"
    and "resolveAddress example_frontend example_sheet A = Inr (1, row, col)"
    and "length (split_on CHR ''!'' A) \<le> 2" and "is_formula_text (Text f)"
  shows "set_all s ((A, Text f) # es) = set_all (set_formula_at s (row, col, f)) es"
proof -
  have r: "resolveAddress example_frontend s A = Inr (1, row, col)"
    using resolve_by_sheet_ids(1)[OF assms(1)] assms(2) by simp
  obtain ws where w: "GetWorksheet (worksheets s) 1 = Some ws"
    using resolve_by_sheet_ids(2)[OF assms(1), of 1] example_sheet_worksheet by auto
  show ?thesis
    using Set_of_formula[OF assms(3) r _ w assms(4), of example_lib]
    by (simp add: set_all_Cons set_formula_at_def)
qed

lemma set_all_value:
  assumes "sheet_ids s = sheet_ids example_sheet"
    and "resolveAddress example_frontend example_sheet A = Inr (1, row, col)"
    and "length (split_on CHR ''!'' A) \<le> 2" and "\<not> is_formula_text v"
  shows "set_all s ((A, v) # es) = set_all (set_value_at s (row, col, v)) es"
proof -
  have r: "resolveAddress example_frontend s A = Inr (1, row, col)"
    using resolve_by_sheet_ids(1)[OF assms(1)] assms(2) by simp
  obtain ws where w: "GetWorksheet (worksheets s) 1 = Some ws"
    using resolve_by_sheet_ids(2)[OF assms(1), of 1] example_sheet_worksheet by auto
  show ?thesis
    using Set_of_value[OF assms(3) r _ w assms(4), of example_lib]
    by (simp add: set_all_Cons set_value_at_def)
qed


lemma two_cycles_steps:
  "two_cycles = foldl set_formula_at example_sheet
     [(0, 0, ''=B1+C1''), (0, 1, ''=IF(TRUE,1,A1)''), (0, 2, ''=IF(TRUE,1,A1)'')]"
  by (simp add: two_cycles_def set_all_formula resolve_cells is_formula_text_def set_all_Nil)

lemma wide_sheet_steps:
  "wide_sheet = foldl set_formula_at (set_value_at example_sheet (0, 0, Number (Fin 10)))
     [(0, 1, ''=1''), (0, 2, ''=1''), (0, 3, ''=1''),
      (1, 1, ''=A1+B1''), (1, 2, ''=B1+C1''), (1, 3, ''=C1+D1''), (1, 4, ''=D1'')]"
  by (simp add: wide_sheet_def set_all_formula set_all_value resolve_cells is_formula_text_def
      set_all_Nil)

lemma sheet_ids_wide_sheet: "sheet_ids wide_sheet = sheet_ids example_sheet"
  by (simp add: wide_sheet_steps)

lemma wide_sheet_edited_steps:
  "wide_sheet_edited = set_value_at (recalculated wide_sheet) (0, 0, Number (Fin 20))"
  by (simp add: wide_sheet_edited_def set_all_value resolve_cells is_formula_text_def
      set_all_Nil sheet_ids_wide_sheet)



section \<open>Chunks without occupied cells\<close>

text \<open>
  Claim C8 fails in the code for \<open>Set\<close> of the empty value. After \<open>Set(A1, 5)\<close> the chunk
  of \<open>A1\<close> has one occupied cell; after \<open>Set(A1, nil)\<close> its count is 0 and the worksheet
  still holds it (\<open>Get\<close> of \<open>A1\<close> is empty), whereas \<open>Remove(A1)\<close> in the same state deletes
  the chunk from the worksheet.
\<close>

theorem Set_nil_keeps_the_empty_chunk:
  "occupied_count (set_all example_sheet [(''Sheet1!A1'', Number (Fin 5))]) 1 (0, 0) = Some 1
   \<and> occupied_count (set_all example_sheet [(''Sheet1!A1'', Number (Fin 5)), (''Sheet1!A1'', Nil)]) 1 (0, 0)
       = Some 0
   \<and> Get example_frontend
        (set_all example_sheet [(''Sheet1!A1'', Number (Fin 5)), (''Sheet1!A1'', Nil)]) ''Sheet1!A1'' = Inr Nil
   \<and> map_sum id (\<lambda>s. occupied_count s 1 (0, 0))
        (Remove example_frontend example_lib
           (set_all example_sheet [(''Sheet1!A1'', Number (Fin 5))]) ''Sheet1!A1'') = Inr None"
  by (simp add: occupied_count_def set_all_Nil set_all_Cons Get_def Remove_def all_defs
      cong: let_weak_cong)


section \<open>A formula over a range that contains its cell\<close>

lemma FormulaID_GetCell_value [simp]: "FormulaID (GetCell_value st chunk idx cell) = FormulaID cell"
  by (simp add: GetCell_value_def split: option.splits)

lemma FormulaID_GetCell_result [simp]: "FormulaID (GetCell_result st chunk idx cell) = FormulaID cell"
  by (simp add: GetCell_result_def Let_def split: option.splits)





lemma circularErr_code: "ErrorCode circularErr = ErrorCodeRef" "ErrorCode circularErr < 256"
  by (simp_all add: circularErr_def NewSpreadsheetError_def ErrorCodeRef_def)




section \<open>Cells on a cycle\<close>

text \<open>
  Claim C2 fails in the code when a cell is on two cycles. With \<open>A1 = B1+C1\<close>,
  \<open>B1 = IF(TRUE,1,A1)\<close> and \<open>C1 = IF(TRUE,1,A1)\<close> the cells \<open>A1\<close> and \<open>C1\<close> refer to
  each other, as \<open>A1\<close> and \<open>B1\<close> do. \<open>Calculate\<close> leaves the error of kind REF in \<open>A1\<close>
  and in \<open>B1\<close>, the precedent of \<open>A1\<close> that it visits first, and the number 1 in \<open>C1\<close>:
  the error reported by \<open>B1\<close> ends the evaluation of \<open>A1\<close>, and when \<open>C1\<close> is evaluated
  later \<open>A1\<close> is completed, so that no cycle is seen.
\<close>

theorem one_cell_of_a_cycle_keeps_a_number:
  "GetDirectPrecedents (dependencyGraph two_cycles) \<lparr>WorksheetID = 1, Row = 0, Column = 0\<rparr>
     = [\<lparr>WorksheetID = 1, Row = 0, Column = 1\<rparr>, \<lparr>WorksheetID = 1, Row = 0, Column = 2\<rparr>]
   \<and> GetDirectPrecedents (dependencyGraph two_cycles) \<lparr>WorksheetID = 1, Row = 0, Column = 1\<rparr>
     = [\<lparr>WorksheetID = 1, Row = 0, Column = 0\<rparr>]
   \<and> GetDirectPrecedents (dependencyGraph two_cycles) \<lparr>WorksheetID = 1, Row = 0, Column = 2\<rparr>
     = [\<lparr>WorksheetID = 1, Row = 0, Column = 0\<rparr>]
   \<and> map_option (\<lambda>(n, s'). (stored_value s' \<lparr>WorksheetID = 1, Row = 0, Column = 0\<rparr>,
                              stored_value s' \<lparr>WorksheetID = 1, Row = 0, Column = 1\<rparr>,
                              stored_value s' \<lparr>WorksheetID = 1, Row = 0, Column = 2\<rparr>))
        (Calculate (Eval example_lib) (Suc (Suc (Suc (Suc 0)))) two_cycles)
     = Some (Some (ErrorV circularErr), Some (ErrorV circularErr), Some (Number (Fin 1)))
   \<and> ErrorCode circularErr = ErrorCodeRef"
proof -
  have "(let s = two_cycles in
          (GetDirectPrecedents (dependencyGraph s) \<lparr>WorksheetID = 1, Row = 0, Column = 0\<rparr>,
           GetDirectPrecedents (dependencyGraph s) \<lparr>WorksheetID = 1, Row = 0, Column = 1\<rparr>,
           GetDirectPrecedents (dependencyGraph s) \<lparr>WorksheetID = 1, Row = 0, Column = 2\<rparr>,
           map_option (\<lambda>(n, s'). (stored_value s' \<lparr>WorksheetID = 1, Row = 0, Column = 0\<rparr>,
                              stored_value s' \<lparr>WorksheetID = 1, Row = 0, Column = 1\<rparr>,
                              stored_value s' \<lparr>WorksheetID = 1, Row = 0, Column = 2\<rparr>))
             (Calculate (Eval example_lib) (Suc (Suc (Suc (Suc 0)))) s)))
        = ([\<lparr>WorksheetID = 1, Row = 0, Column = 1\<rparr>, \<lparr>WorksheetID = 1, Row = 0, Column = 2\<rparr>],
           [\<lparr>WorksheetID = 1, Row = 0, Column = 0\<rparr>], [\<lparr>WorksheetID = 1, Row = 0, Column = 0\<rparr>],
           Some (Some (ErrorV circularErr), Some (ErrorV circularErr), Some (Number (Fin 1))))"
    by (simp add: two_cycles_steps set_formula_at_def all_defs engine_defs eval_defs stored_value_def
        cong: let_weak_cong)
  then show ?thesis
    by (simp add: Let_def circularErr_code)
qed


section \<open>The recalculation ends\<close>

lemma links_update:
  "map_of xs k = Some n0 \<Longrightarrow> CellPrecedents n = CellPrecedents n0 \<Longrightarrow> CellDependents n = CellDependents n0
   \<Longrightarrow> RangePrecedents n = RangePrecedents n0
   \<Longrightarrow> map (\<lambda>(a, n). (a, CellPrecedents n, CellDependents n, RangePrecedents n)) (AList.update k n xs)
     = map (\<lambda>(a, n). (a, CellPrecedents n, CellDependents n, RangePrecedents n)) xs"
  by (induction xs) (auto split: if_splits)

lemma links_set_IsDirty [simp]: "links (set_IsDirty dg a b) = links dg"
  by (auto simp: set_IsDirty_def links_def put_node_def GetNode_def links_update split: option.splits)

lemma dirtySet_set_IsDirty [simp]: "dirtySet (set_IsDirty dg a b) = dirtySet dg"
  by (simp add: set_IsDirty_def put_node_def split: option.splits)

lemma links_dirtySet_update [simp]: "links (dg\<lparr>dirtySet := d\<rparr>) = links dg"
  by (simp add: links_def)

lemma links_ClearDirty [simp]: "links (ClearDirty dg a) = links dg"
  by (simp add: ClearDirty_def)

lemma dirtySet_ClearDirty [simp]: "dirtySet (ClearDirty dg a) = removeAll a (dirtySet dg)"
  by (simp add: ClearDirty_def)

lemma links_MarkDirty [simp]: "links (MarkDirty dg a) = links dg"
  by (simp add: MarkDirty_def)

lemma dirtySet_MarkDirty [simp]: "set (dirtySet (MarkDirty dg a)) = insert a (set (dirtySet dg))"
  by (auto simp: MarkDirty_def key_insert_def)

lemma links_foldl_MarkDirty [simp]: "links (foldl MarkDirty dg ds) = links dg"
  by (induction ds arbitrary: dg) simp_all

lemma dirtySet_foldl_MarkDirty [simp]:
  "set (dirtySet (foldl MarkDirty dg ds)) = set ds \<union> set (dirtySet dg)"
  by (induction ds arbitrary: dg) auto

lemma map_of_links:
  "map_of (links dg) a = map_option (\<lambda>n. (CellPrecedents n, CellDependents n, RangePrecedents n)) (GetNode dg a)"
  unfolding links_def GetNode_def by (induction "nodes dg" arbitrary: dg) (auto simp: map_of_map)


lemma precedents_in_U:
  assumes "calc_inv U L s" and "closed_links U L"
  shows "set (GetDirectPrecedents (dependencyGraph s) c) \<subseteq> U"
    and "set (GetDirectDependents (dependencyGraph s) c) \<subseteq> U"
proof -
  { fix n assume "GetNode (dependencyGraph s) c = Some n"
    then have "(c, n) \<in> set (nodes (dependencyGraph s))"
      by (auto simp: GetNode_def dest: map_of_SomeD)
    then have "(c, CellPrecedents n, CellDependents n, RangePrecedents n) \<in> set L"
      using assms(1) by (force simp: calc_inv_def links_def)
    then have "set (CellPrecedents n) \<subseteq> U \<and> set (CellDependents n) \<subseteq> U"
      using assms(2) by (auto simp: closed_links_def) }
  then show "set (GetDirectPrecedents (dependencyGraph s) c) \<subseteq> U"
    and "set (GetDirectDependents (dependencyGraph s) c) \<subseteq> U"
    unfolding GetDirectPrecedents_def GetDirectDependents_def
    by (cases "GetNode (dependencyGraph s) c"; simp)+
qed

lemma precedents_loop_ok:
  assumes "step_ok U L P C f"
  shows "calc_inv U L s \<Longrightarrow> set ps \<subseteq> U \<Longrightarrow> processing (calculationStack s) = P
    \<Longrightarrow> C \<subseteq> completed (calculationStack s)
    \<Longrightarrow> \<exists>r s'. precedents_loop f ps s = Some (r, s') \<and> calc_inv U L s'
            \<and> completed (calculationStack s) \<subseteq> completed (calculationStack s')
            \<and> processing (calculationStack s') = P
            \<and> items (calculationStack s') = items (calculationStack s)"
proof (induction ps arbitrary: s)
  case Nil
  then show ?case by simp
next
  case (Cons p ps)
  from assms Cons.prems obtain err s1 where f: "f p s = Some (err, s1)" and i1: "calc_inv U L s1"
    and c1: "completed (calculationStack s) \<subseteq> completed (calculationStack s1)"
    and p1: "processing (calculationStack s1) = P"
    and t1: "items (calculationStack s1) = items (calculationStack s)"
    unfolding step_ok_def by (metis list.set_intros(1) subsetD)
  have "C \<subseteq> completed (calculationStack s1)" using c1 Cons.prems(4) by auto
  from Cons.IH[OF i1 _ p1 this] Cons.prems(2) obtain r s' where
    l: "precedents_loop f ps s1 = Some (r, s')" and i': "calc_inv U L s'"
    and c': "completed (calculationStack s1) \<subseteq> completed (calculationStack s')"
    and p': "processing (calculationStack s') = P"
    and t': "items (calculationStack s') = items (calculationStack s1)"
    by auto
  show ?case
    using f l i' c' p' t' i1 c1 p1 t1
    by (cases err) (auto)
qed

lemma range_cells_loop_ok:
  assumes "step_ok U L P C f"
  shows "calc_inv U L s \<Longrightarrow> processing (calculationStack s) = P
    \<Longrightarrow> C \<subseteq> completed (calculationStack s)
    \<Longrightarrow> \<exists>s'. range_cells_loop f cs s = Some s' \<and> calc_inv U L s'
            \<and> completed (calculationStack s) \<subseteq> completed (calculationStack s')
            \<and> processing (calculationStack s') = P
            \<and> items (calculationStack s') = items (calculationStack s)"
proof (induction cs arbitrary: s)
  case Nil
  then show ?case by simp
next
  case (Cons c cs)
  show ?case
  proof (cases "is_dirty s c")
    case False
    then show ?thesis using Cons.IH[OF Cons.prems] by simp
  next
    case True
    then have "c \<in> U" using Cons.prems(1) by (auto simp: is_dirty_def calc_inv_def)
    with assms Cons.prems obtain err s1 where f: "f c s = Some (err, s1)" and i1: "calc_inv U L s1"
      and c1: "completed (calculationStack s) \<subseteq> completed (calculationStack s1)"
      and p1: "processing (calculationStack s1) = P"
      and t1: "items (calculationStack s1) = items (calculationStack s)"
      unfolding step_ok_def by metis
    have "C \<subseteq> completed (calculationStack s1)" using c1 Cons.prems(3) by auto
    from Cons.IH[OF i1 p1 this] obtain s' where
      l: "range_cells_loop f cs s1 = Some s'" and i': "calc_inv U L s'"
      and c': "completed (calculationStack s1) \<subseteq> completed (calculationStack s')"
      and p': "processing (calculationStack s') = P"
      and t': "items (calculationStack s') = items (calculationStack s1)"
      by auto
    show ?thesis
      using True f l i' c' p' t' c1 t1 by auto
  qed
qed

lemma store_result_fields [simp]:
  "dependencyGraph (store_result s c v) = dependencyGraph s"
  "calculationStack (store_result s c v) = calculationStack s"
  by (simp_all add: store_result_def split: option.splits prod.splits)

lemma clear_dirty_fields [simp]:
  "calculationStack (clear_dirty s c) = calculationStack s"
  "dependencyGraph (clear_dirty s c) = ClearDirty (dependencyGraph s) c"
  by (simp_all add: clear_dirty_def)

lemma calc_inv_store_result [simp]: "calc_inv U L (store_result s c v) = calc_inv U L s"
  by (simp add: calc_inv_def)

lemma calc_inv_clear_dirty: "calc_inv U L s \<Longrightarrow> calc_inv U L (clear_dirty s c)"
  by (auto simp: calc_inv_def)

lemma calc_inv_stack [simp]: "calc_inv U L (s\<lparr>calculationStack := k\<rparr>) = calc_inv U L s"
  by (simp add: calc_inv_def)

lemma calc_inv_currentAddress [simp]: "calc_inv U L (s\<lparr>currentAddress := k\<rparr>) = calc_inv U L s"
  by (simp add: calc_inv_def)

lemma evaluate_and_store_ok:
  assumes "calc_inv U L s" and "closed_links U L"
  shows "calc_inv U L (evaluate_and_store ev ast c s)"
    and "calculationStack (evaluate_and_store ev ast c s) = calculationStack s"
proof -
  let ?s = "s\<lparr>currentAddress := c\<rparr>"
  have i: "calc_inv U L ?s" using assms(1) by simp
  have d: "set (GetDirectDependents (dependencyGraph (clear_dirty (store_result ?s c v) c)) c) \<subseteq> U" for v
    by (rule precedents_in_U(2)[OF _ assms(2)]) (simp add: calc_inv_clear_dirty assms(1))
  have m: "calc_inv U L (clear_dirty (store_result ?s c v) c
        \<lparr>dependencyGraph := foldl MarkDirty (dependencyGraph (clear_dirty (store_result ?s c v) c))
            (GetDirectDependents (dependencyGraph (clear_dirty (store_result ?s c v) c)) c)\<rparr>)" for v
    using d[of v] calc_inv_clear_dirty[of U L "store_result ?s c v" c] assms(1)
    by (auto simp: calc_inv_def)
  show "calc_inv U L (evaluate_and_store ev ast c s)"
    using assms(1) m by (auto simp: evaluate_and_store_def Let_def split: sum.splits Primitive.splits)
  show "calculationStack (evaluate_and_store ev ast c s) = calculationStack s"
    by (auto simp: evaluate_and_store_def Let_def split: sum.splits Primitive.splits)
qed

lemma calculateCell_body_ok:
  assumes "step_ok U L P C f" and "closed_links U L" and "calc_inv U L s"
    and "processing (calculationStack s) = P" and "C \<subseteq> completed (calculationStack s)"
  shows "\<exists>err s'. calculateCell_body ev f c s = Some (err, s') \<and> calc_inv U L s'
            \<and> completed (calculationStack s) \<subseteq> completed (calculationStack s')
            \<and> processing (calculationStack s') = P
            \<and> items (calculationStack s') = items (calculationStack s)"
proof -
  obtain r s1 where pl: "precedents_loop f (GetDirectPrecedents (dependencyGraph s) c) s = Some (r, s1)"
    and i1: "calc_inv U L s1"
    and c1: "completed (calculationStack s) \<subseteq> completed (calculationStack s1)"
    and p1: "processing (calculationStack s1) = P"
    and t1: "items (calculationStack s1) = items (calculationStack s)"
    using precedents_loop_ok[OF assms(1) assms(3) precedents_in_U(1)[OF assms(3,2)] assms(4,5)]
    by blast
  have C1: "C \<subseteq> completed (calculationStack s1)" using c1 assms(5) by auto
  obtain s2 where rl: "range_cells_loop f
        (concat (map cells_of_range (GetRangePrecedents (dependencyGraph s1) c))) s1 = Some s2"
    and i2: "calc_inv U L s2"
    and c2: "completed (calculationStack s1) \<subseteq> completed (calculationStack s2)"
    and p2: "processing (calculationStack s2) = P"
    and t2: "items (calculationStack s2) = items (calculationStack s1)"
    using range_cells_loop_ok[OF assms(1) i1 p1 C1] by blast
  note es = evaluate_and_store_ok[OF i2 assms(2)]
  have a: "calc_inv U L (clear_dirty (store_result s c v) c)" for v
    using assms(3) by (simp add: calc_inv_clear_dirty)
  have b: "calc_inv U L (clear_dirty (store_result s1 c v) c)" for v
    using i1 by (simp add: calc_inv_clear_dirty)
  have d: "calc_inv U L (clear_dirty s c)"
    using assms(3) by (simp add: calc_inv_clear_dirty)
  show ?thesis
  proof (cases r)
    case None
    then show ?thesis
      unfolding calculateCell_body_def
      using pl rl es a d assms(3,4) c1 c2 p2 t1 t2
      by (auto split: option.splits)
  next
    case (Some e)
    then show ?thesis
      unfolding calculateCell_body_def
      using pl a b d assms(3,4) c1 p1 t1
      by (auto split: option.splits)
  qed
qed

lemma calculateCell_ok:
  assumes "finite U" and "closed_links U L"
  shows "calc_inv U L s \<Longrightarrow> c \<in> U
    \<Longrightarrow> card (U - (completed (calculationStack s) \<union> processing (calculationStack s))) < fuel
    \<Longrightarrow> \<exists>err s'. calculateCell ev fuel c s = Some (err, s') \<and> calc_inv U L s'
            \<and> completed (calculationStack s) \<subseteq> completed (calculationStack s')
            \<and> processing (calculationStack s') = processing (calculationStack s)
            \<and> items (calculationStack s') = items (calculationStack s)
            \<and> (c \<in> completed (calculationStack s') \<or> c \<in> processing (calculationStack s))"
proof (induction fuel arbitrary: c s)
  case 0
  then show ?case by simp
next
  case (Suc fuel)
  let ?C = "completed (calculationStack s)"
  let ?P = "processing (calculationStack s)"
  show ?case
  proof (cases "c \<in> ?C \<or> c \<in> ?P")
    case True
    then show ?thesis
      using Suc.prems(1) by (auto simp: isCompleted_def isProcessing_def)
  next
    case False
    let ?sp = "s\<lparr>calculationStack := push (calculationStack s) c\<rparr>"
    have less: "card (U - (?C \<union> insert c ?P)) < card (U - (?C \<union> ?P))"
      using False Suc.prems(2) assms(1) by (intro psubset_card_mono) auto
    have so: "step_ok U L (insert c ?P) ?C (calculateCell ev fuel)"
      unfolding step_ok_def
    proof (intro allI impI)
      fix c1 s1
      assume h: "calc_inv U L s1 \<and> c1 \<in> U \<and> processing (calculationStack s1) = insert c ?P
        \<and> ?C \<subseteq> completed (calculationStack s1)"
      have "card (U - (completed (calculationStack s1) \<union> processing (calculationStack s1)))
          \<le> card (U - (?C \<union> insert c ?P))"
        using h assms(1) by (intro card_mono) auto
      then have "card (U - (completed (calculationStack s1) \<union> processing (calculationStack s1))) < fuel"
        using less Suc.prems(3) by linarith
      from Suc.IH[OF _ _ this, of c1] h
      show "\<exists>err s'. calculateCell ev fuel c1 s1 = Some (err, s') \<and> calc_inv U L s'
            \<and> completed (calculationStack s1) \<subseteq> completed (calculationStack s')
            \<and> processing (calculationStack s') = insert c ?P
            \<and> items (calculationStack s') = items (calculationStack s1)
            \<and> (c1 \<in> completed (calculationStack s') \<or> c1 \<in> insert c ?P)"
        by auto
    qed
    have isp: "calc_inv U L ?sp" using Suc.prems(1) by simp
    have psp: "processing (calculationStack ?sp) = insert c ?P"
      and csp: "?C \<subseteq> completed (calculationStack ?sp)"
      and tsp: "items (calculationStack ?sp) = items (calculationStack s) @ [c]"
      by (simp_all add: push_def)
    from calculateCell_body_ok[OF so assms(2) isp psp csp, of ev c]
    obtain err s1 where b: "calculateCell_body ev (calculateCell ev fuel) c ?sp = Some (err, s1)"
      and i1: "calc_inv U L s1"
      and c1: "completed (calculationStack ?sp) \<subseteq> completed (calculationStack s1)"
      and p1: "processing (calculationStack s1) = insert c ?P"
      and t1: "items (calculationStack s1) = items (calculationStack ?sp)"
      by blast
    have run: "calculateCell ev (Suc fuel) c s = Some (err, finish c s1)"
      using False b by (simp add: isCompleted_def isProcessing_def)
    have "processing (calculationStack (finish c s1)) = ?P"
      using False p1 t1 tsp by (auto simp: finish_def pop_def markCompleted_def)
    moreover have "items (calculationStack (finish c s1)) = items (calculationStack s)"
      using t1 tsp by (simp add: finish_def pop_def markCompleted_def)
    moreover have "completed (calculationStack (finish c s1)) = insert c (completed (calculationStack s1))"
      by (simp add: finish_def pop_def markCompleted_def)
    moreover have "calc_inv U L (finish c s1)"
      using i1 by (simp add: finish_def)
    ultimately show ?thesis
      using run c1 by (auto simp: push_def)
  qed
qed

lemma Calculate_pass_ok:
  assumes "finite U" and "closed_links U L" and "card U < fuel"
  shows "calc_inv U L s \<Longrightarrow> processing (calculationStack s) = {} \<Longrightarrow> set cells \<subseteq> U
    \<Longrightarrow> \<exists>s'. Calculate_pass (calculateCell ev fuel) cells s = Some s' \<and> calc_inv U L s'
          \<and> processing (calculationStack s') = {}
          \<and> completed (calculationStack s) \<subseteq> completed (calculationStack s')
          \<and> (set (dirtySet (dependencyGraph s')) \<subseteq> set (dirtySet (dependencyGraph s)) - set cells
              \<or> card (U - completed (calculationStack s')) < card (U - completed (calculationStack s)))"
proof (induction cells arbitrary: s)
  case Nil
  then show ?case by simp
next
  case (Cons c cells)
  have cU: "c \<in> U" and rest: "set cells \<subseteq> U" using Cons.prems(3) by auto
  show ?case
  proof (cases "is_dirty s c")
    case False
    from Cons.IH[OF Cons.prems(1,2) rest] False show ?thesis
      by (auto simp: is_dirty_def)
  next
    case True
    show ?thesis
    proof (cases "isCompleted (calculationStack s) c")
      case True
      have i: "calc_inv U L (clear_dirty s c)" using Cons.prems(1) by (rule calc_inv_clear_dirty)
      from Cons.IH[OF i _ rest] Cons.prems(2) \<open>is_dirty s c\<close> True show ?thesis
        by (auto simp: is_dirty_def)
    next
      case False
      have "card (U - (completed (calculationStack s) \<union> processing (calculationStack s))) \<le> card U"
        using assms(1) by (intro card_mono) auto
      then have m: "card (U - (completed (calculationStack s) \<union> processing (calculationStack s))) < fuel"
        using assms(3) by linarith
      from calculateCell_ok[OF assms(1,2) Cons.prems(1) cU m, of ev] Cons.prems(2)
      obtain err s1 where f: "calculateCell ev fuel c s = Some (err, s1)" and i1: "calc_inv U L s1"
        and c1: "completed (calculationStack s) \<subseteq> completed (calculationStack s1)"
        and p1: "processing (calculationStack s1) = {}"
        and d1: "c \<in> completed (calculationStack s1)"
        by auto
      from Cons.IH[OF i1 p1 rest] obtain s' where
        l: "Calculate_pass (calculateCell ev fuel) cells s1 = Some s'" and i': "calc_inv U L s'"
        and p': "processing (calculationStack s') = {}"
        and c': "completed (calculationStack s1) \<subseteq> completed (calculationStack s')"
        by auto
      have "U - completed (calculationStack s') \<subset> U - completed (calculationStack s)"
        using False cU d1 c1 c' by (auto simp: isCompleted_def)
      then have "card (U - completed (calculationStack s')) < card (U - completed (calculationStack s))"
        using assms(1) by (intro psubset_card_mono) auto
      then show ?thesis
        using True False f l i' p' c1 c' by auto
    qed
  qed
qed

lemma Calculate_loop_ok:
  assumes "finite U" and "closed_links U L" and "card U < fuel"
  shows "calc_inv U L s \<Longrightarrow> processing (calculationStack s) = {}
    \<Longrightarrow> dirtySet (dependencyGraph s) = [] \<or> card (U - completed (calculationStack s)) < n
    \<Longrightarrow> \<exists>it' s'. Calculate_loop ev fuel n it s = Some (it', s')
          \<and> it' \<le> it + Suc (card (U - completed (calculationStack s)))
          \<and> dirtySet (dependencyGraph s') = []"
proof (induction n arbitrary: s it)
  case 0
  then show ?case by simp
next
  case (Suc n)
  show ?case
  proof (cases "dirtySet (dependencyGraph s) = []")
    case True
    then show ?thesis by simp
  next
    case False
    then have m: "card (U - completed (calculationStack s)) < Suc n" using Suc.prems(3) by simp
    have cells: "set (sorted_cells (dirtySet (dependencyGraph s))) \<subseteq> U"
      using Suc.prems(1) by (simp add: sorted_cells_def calc_inv_def)
    from Calculate_pass_ok[OF assms Suc.prems(1,2) cells, of ev]
    obtain s1 where ps: "Calculate_pass (calculateCell ev fuel)
          (sorted_cells (dirtySet (dependencyGraph s))) s = Some s1"
      and i1: "calc_inv U L s1" and p1: "processing (calculationStack s1) = {}"
      and c1: "completed (calculationStack s) \<subseteq> completed (calculationStack s1)"
      and d1: "set (dirtySet (dependencyGraph s1))
                 \<subseteq> set (dirtySet (dependencyGraph s)) - set (sorted_cells (dirtySet (dependencyGraph s)))
               \<or> card (U - completed (calculationStack s1)) < card (U - completed (calculationStack s))"
      by blast
    have le: "card (U - completed (calculationStack s1)) \<le> card (U - completed (calculationStack s))"
      using c1 assms(1) by (intro card_mono) auto
    from d1 have pre: "dirtySet (dependencyGraph s1) = [] \<or> card (U - completed (calculationStack s1)) < n"
    proof
      assume "set (dirtySet (dependencyGraph s1))
                 \<subseteq> set (dirtySet (dependencyGraph s)) - set (sorted_cells (dirtySet (dependencyGraph s)))"
      then show ?thesis by (simp add: sorted_cells_def)
    next
      assume "card (U - completed (calculationStack s1)) < card (U - completed (calculationStack s))"
      then show ?thesis using m by linarith
    qed
    from Suc.IH[OF i1 p1 pre, of "Suc it"] obtain it' s' where
      l: "Calculate_loop ev fuel n (Suc it) s1 = Some (it', s')"
      and b: "it' \<le> Suc it + Suc (card (U - completed (calculationStack s1)))"
      and e: "dirtySet (dependencyGraph s') = []"
      by blast
    have run: "Calculate_loop ev fuel (Suc n) it s = Some (it', s')"
      using False ps l by simp
    have bound: "it' \<le> it + Suc (card (U - completed (calculationStack s)))"
    proof (cases "dirtySet (dependencyGraph s1) = []")
      case True
      then have "Calculate_loop ev fuel n (Suc it) s1 = Some (Suc it, s1)"
        by (cases n) simp_all
      with l show ?thesis by simp
    next
      case False
      with d1 have "card (U - completed (calculationStack s1)) < card (U - completed (calculationStack s))"
        by (auto simp: sorted_cells_def)
      with b show ?thesis by linarith
    qed
    show ?thesis using run bound e by blast
  qed
qed

lemma closed_links_known_cells: "closed_links (set (known_cells dg)) (links dg)"
  by (auto simp: closed_links_def links_def known_cells_def)

text \<open>
  Claim C3 as stated fails for the bound. In the sheet \<open>wide_sheet\<close> no dependency chain
  has more than two cells (a cell of the second row and a cell of the first row). After
  a recalculation and \<open>Set(A1, 20)\<close> the only dirty cell is \<open>B2\<close>, and \<open>Calculate\<close> goes
  through its outer loop four times: evaluating \<open>B2\<close> evaluates its precedent \<open>B1\<close>,
  which marks the dependent \<open>C2\<close> of \<open>B1\<close> dirty for the next iteration, and so on along
  the second row.
\<close>

theorem more_iterations_than_the_longest_chain:
  "longest_chain (dependencyGraph wide_sheet_edited) = 2
   \<and> dirtySet (dependencyGraph wide_sheet_edited) = [\<lparr>WorksheetID = 1, Row = 1, Column = 1\<rparr>]
   \<and> map_option fst (Calculate (Eval example_lib) (Suc (Suc (Suc (Suc (Suc 0))))) wide_sheet_edited)
       = Some 4"
proof -
  have "(let s = wide_sheet_edited in
          (longest_chain (dependencyGraph s), dirtySet (dependencyGraph s),
           map_option fst (Calculate (Eval example_lib) (Suc (Suc (Suc (Suc (Suc 0))))) s)))
        = (2, [\<lparr>WorksheetID = 1, Row = 1, Column = 1\<rparr>], Some 4)"
    by (simp add: wide_sheet_edited_steps wide_sheet_steps recalculated_def set_formula_at_def
        set_value_at_def all_defs engine_defs eval_defs longest_chain_def cong: let_weak_cong)
  then show ?thesis
    by (simp add: Let_def)
qed

text \<open>
  Claim C3, amended. \<open>Calculate\<close> always terminates: with more fuel than the dependency
  graph knows cells, the model returns. The number of iterations of the outer loop is at
  most the number of cells that the graph knows (the dirty and the volatile cells, the
  cells with a node, their precedents and dependents) plus one, and the dirty set is
  empty when \<open>Calculate\<close> returns.
\<close>

theorem Calculate_terminates:
  "\<exists>n s'. Calculate ev (Suc (card (set (known_cells (dependencyGraph s)))) + k) s = Some (n, s')
      \<and> n \<le> Suc (card (set (known_cells (dependencyGraph s))))
      \<and> dirtySet (dependencyGraph s') = []"
proof -
  let ?U = "set (known_cells (dependencyGraph s))"
  let ?L = "links (dependencyGraph s)"
  let ?fuel = "Suc (card ?U) + k"
  let ?s0 = "s\<lparr>dependencyGraph := MarkAllVolatileDirty (dependencyGraph s),
                calculationStack := reset (calculationStack s)\<rparr>"
  have i: "calc_inv ?U ?L ?s0"
    by (auto simp: calc_inv_def MarkAllVolatileDirty_def known_cells_def)
  have p: "processing (calculationStack ?s0) = {}" by (simp add: reset_def)
  have c: "completed (calculationStack ?s0) = {}" by (simp add: reset_def)
  have f: "card ?U < ?fuel" by simp
  have "dirtySet (dependencyGraph ?s0) = [] \<or> card (?U - completed (calculationStack ?s0)) < ?fuel"
    unfolding c by simp
  from Calculate_loop_ok[OF _ closed_links_known_cells f i p this, of ev 0]
  obtain it' s' where l: "Calculate_loop ev ?fuel ?fuel 0 ?s0 = Some (it', s')"
    and b: "it' \<le> 0 + Suc (card (?U - completed (calculationStack ?s0)))"
    by auto
  have "Calculate ev ?fuel s = Some (it', s'\<lparr>dependencyGraph := ClearAllDirty (dependencyGraph s')\<rparr>)"
    unfolding Calculate_def l by simp
  moreover have "it' \<le> Suc (card ?U)" using b unfolding c by simp
  ultimately show ?thesis by (simp add: ClearAllDirty_def)
qed

end
